theory Spec2Isabelle
  imports Main "HOL-Library.AList" "HOL-Library.Char_ord" "HOL-Library.List_Lexorder"
    "HOL-Library.Code_Target_Nat" "HOL-Library.Sublist"
begin

section \<open>The key-value engine, as libpod's BoltDB state uses it\<close>

text \<open>
  \<^verbatim>\<open>libpod/boltdb_state_internal.go\<close> works on a bbolt database: a tree of buckets in which
  a key is bound either to a byte string or to a nested bucket. A Go byte slice that may
  be \<^verbatim>\<open>nil\<close> is a \<open>bytes option\<close>, a \<^verbatim>\<open>*bolt.Bucket\<close> that may be \<^verbatim>\<open>nil\<close> is a
  \<open>bucket option\<close>. A bucket is an association list (the first binding of a key counts);
  the root of a transaction is the bucket of the top-level buckets.

  The engine is an external library; its operations are modelled after bbolt's
  \<^verbatim>\<open>bucket.go\<close>: \<^verbatim>\<open>Get\<close> returns nil for a missing key and for a nested bucket,
  \<^verbatim>\<open>Bucket\<close> returns nil for a missing key and for a plain value, \<^verbatim>\<open>Put\<close> refuses an
  empty or oversized key, an oversized value and a key bound to a bucket, \<^verbatim>\<open>Delete\<close>
  ignores a missing key and refuses a bucket, \<^verbatim>\<open>CreateBucket\<close> refuses an empty or a
  bound key, \<^verbatim>\<open>DeleteBucket\<close> refuses a missing key and a plain value, and
  \<^verbatim>\<open>ForEach\<close> visits the keys in byte order.
\<close>

type_synonym bytes = string

datatype node = Val bytes | Bkt "(bytes \<times> node) list"

type_synonym bucket = "(bytes \<times> node) list"

datatype bolt_error =
    ErrKeyRequired
  | ErrKeyTooLarge
  | ErrValueTooLarge
  | ErrIncompatibleValue
  | ErrBucketExists
  | ErrBucketNameRequired
  | ErrBucketNotFound

definition MaxKeySize :: nat where
  "MaxKeySize = 32768"

definition MaxValueSize :: nat where
  "MaxValueSize = 2147483646"

definition bkt_Get :: "bucket \<Rightarrow> bytes \<Rightarrow> bytes option" where
  "bkt_Get b k = (case map_of b k of Some (Val v) \<Rightarrow> Some v | _ \<Rightarrow> None)"

definition bkt_Bucket :: "bucket \<Rightarrow> bytes \<Rightarrow> bucket option" where
  "bkt_Bucket b k = (case map_of b k of Some (Bkt c) \<Rightarrow> Some c | _ \<Rightarrow> None)"

definition bkt_Put :: "bytes \<Rightarrow> bytes \<Rightarrow> bucket \<Rightarrow> bolt_error + bucket" where
  "bkt_Put k v b =
     (if k = [] then Inl ErrKeyRequired
      else if length k > MaxKeySize then Inl ErrKeyTooLarge
      else if length v > MaxValueSize then Inl ErrValueTooLarge
      else (case map_of b k of
              Some (Bkt c) \<Rightarrow> Inl ErrIncompatibleValue
            | _ \<Rightarrow> Inr (AList.update k (Val v) b)))"

definition bkt_Delete :: "bytes \<Rightarrow> bucket \<Rightarrow> bolt_error + bucket" where
  "bkt_Delete k b =
     (case map_of b k of
        None \<Rightarrow> Inr b
      | Some (Bkt c) \<Rightarrow> Inl ErrIncompatibleValue
      | Some (Val v) \<Rightarrow> Inr (AList.delete k b))"

definition bkt_CreateBucket :: "bytes \<Rightarrow> bucket \<Rightarrow> bolt_error + bucket" where
  "bkt_CreateBucket k b =
     (if k = [] then Inl ErrBucketNameRequired
      else (case map_of b k of
              Some (Bkt c) \<Rightarrow> Inl ErrBucketExists
            | Some (Val v) \<Rightarrow> Inl ErrIncompatibleValue
            | None \<Rightarrow> Inr (AList.update k (Bkt []) b)))"

definition bkt_DeleteBucket :: "bytes \<Rightarrow> bucket \<Rightarrow> bolt_error + bucket" where
  "bkt_DeleteBucket k b =
     (case map_of b k of
        None \<Rightarrow> Inl ErrBucketNotFound
      | Some (Val v) \<Rightarrow> Inl ErrIncompatibleValue
      | Some (Bkt c) \<Rightarrow> Inr (AList.delete k b))"

text \<open>The keys \<^verbatim>\<open>ForEach\<close> hands to its callback, in the order it visits them.\<close>

definition bkt_ForEach_keys :: "bucket \<Rightarrow> bytes list" where
  "bkt_ForEach_keys b = sort (remdups (map fst b))"

subsection \<open>Handles into a transaction\<close>

text \<open>
  A bucket handle held by the Go code is the path of keys that leads to the bucket from
  the root of the transaction. \<open>resolve\<close> follows a path (\<^verbatim>\<open>tx.Bucket(a).Bucket(b)\<close>);
  \<open>None\<close> is the nil handle. \<open>update_at\<close> runs a writing method on the bucket a path
  leads to and rebuilds the transaction around the result; it is \<open>None\<close> when the handle
  is nil, where the Go method dereferences a nil pointer.
\<close>

fun resolve :: "bucket \<Rightarrow> bytes list \<Rightarrow> bucket option" where
  "resolve b [] = Some b"
| "resolve b (k # ks) = (case bkt_Bucket b k of None \<Rightarrow> None | Some c \<Rightarrow> resolve c ks)"

fun update_at :: "bytes list \<Rightarrow> (bucket \<Rightarrow> bolt_error + bucket) \<Rightarrow> bucket
    \<Rightarrow> (bolt_error + bucket) option" where
  "update_at [] f b = Some (f b)"
| "update_at (k # ks) f b =
     (case bkt_Bucket b k of
        None \<Rightarrow> None
      | Some c \<Rightarrow>
          (case update_at ks f c of
             None \<Rightarrow> None
           | Some (Inl e) \<Rightarrow> Some (Inl e)
           | Some (Inr c') \<Rightarrow> Some (Inr (AList.update k (Bkt c') b))))"

subsection \<open>Errors\<close>

text \<open>
  The error kinds of \<^verbatim>\<open>libpod/define\<close> that this file returns, the engine's own errors
  (returned wrapped), and errors of the other collaborators (JSON, lock manager, storage
  options, opening the database file). An \<open>Error\<close> carries the arguments of the
  message's format string, in order. \<open>NilDeref\<close> is the Go panic of a method call on a
  nil bucket handle; it is not an error value.
\<close>

datatype errkind =
    ErrNoSuchCtr
  | ErrNoSuchPod
  | ErrNoSuchVolume
  | ErrCtrExists
  | ErrNSMismatch
  | ErrInvalidArg
  | ErrDBBadConfig
  | ErrInternal
  | ErrBolt bolt_error
  | ErrForeign string

datatype failure = Error errkind "string list" | NilDeref

text \<open>
  A writing method called through a handle: a nil handle panics, an engine error \<open>e\<close> is
  returned as an error of kind \<open>kind e\<close> with the message arguments \<open>args\<close>
  (\<^verbatim>\<open>errors.Wrapf(err, ...)\<close> keeps the engine's error, so \<open>kind\<close> is \<open>ErrBolt\<close>).
  \<open>bindE\<close> continues after a call that returned no error.
\<close>

definition wrapf :: "(bolt_error \<Rightarrow> errkind) \<Rightarrow> string list \<Rightarrow> (bolt_error + bucket) option
    \<Rightarrow> failure + bucket" where
  "wrapf kind args r =
     (case r of
        None \<Rightarrow> Inl NilDeref
      | Some (Inl e) \<Rightarrow> Inl (Error (kind e) args)
      | Some (Inr b) \<Rightarrow> Inr b)"

definition bindE :: "'e + 'a \<Rightarrow> ('a \<Rightarrow> 'e + 'b) \<Rightarrow> 'e + 'b" where
  "bindE m f = (case m of Inl e \<Rightarrow> Inl e | Inr x \<Rightarrow> f x)"

text \<open>
  \<^verbatim>\<open>db.View\<close> runs its body on the database and returns what the body returns.
  \<^verbatim>\<open>db.Update\<close> commits what the body wrote when the body returns no error, and rolls
  the transaction back otherwise (also when the body panics).
\<close>

definition db_View :: "(bucket \<Rightarrow> failure + 'a) \<Rightarrow> bucket \<Rightarrow> failure + 'a" where
  "db_View fn db = fn db"

definition db_Update :: "(bucket \<Rightarrow> failure + bucket) \<Rightarrow> bucket \<Rightarrow> failure option \<times> bucket" where
  "db_Update fn db = (case fn db of Inl e \<Rightarrow> (Some e, db) | Inr tx \<Rightarrow> (None, tx))"

text \<open>\<^verbatim>\<open>bytes.Equal\<close>: a nil slice equals an empty one.\<close>

definition bytes_Equal :: "bytes option \<Rightarrow> bytes option \<Rightarrow> bool" where
  "bytes_Equal a b =
     ((case a of None \<Rightarrow> [] | Some x \<Rightarrow> x) = (case b of None \<Rightarrow> [] | Some y \<Rightarrow> y))"

section \<open>Names of buckets and keys\<close>

abbreviation idRegistryBkt :: bytes where "idRegistryBkt \<equiv> ''id-registry''"
abbreviation nameRegistryBkt :: bytes where "nameRegistryBkt \<equiv> ''name-registry''"
abbreviation nsRegistryBkt :: bytes where "nsRegistryBkt \<equiv> ''ns-registry''"
abbreviation ctrBkt :: bytes where "ctrBkt \<equiv> ''ctr''"
abbreviation allCtrsBkt :: bytes where "allCtrsBkt \<equiv> ''all-ctrs''"
abbreviation podBkt :: bytes where "podBkt \<equiv> ''pod''"
abbreviation volBkt :: bytes where "volBkt \<equiv> ''vol''"
abbreviation runtimeConfigBkt :: bytes where "runtimeConfigBkt \<equiv> ''runtime-config''"

abbreviation configKey :: bytes where "configKey \<equiv> ''config''"
abbreviation stateKey :: bytes where "stateKey \<equiv> ''state''"
abbreviation dependenciesBkt :: bytes where "dependenciesBkt \<equiv> ''dependencies''"
abbreviation volDependenciesBkt :: bytes where "volDependenciesBkt \<equiv> ''vol-dependencies''"
abbreviation netNSKey :: bytes where "netNSKey \<equiv> ''netns''"
abbreviation containersBkt :: bytes where "containersBkt \<equiv> ''containers''"
abbreviation podIDKey :: bytes where "podIDKey \<equiv> ''pod-id''"
abbreviation namespaceKey :: bytes where "namespaceKey \<equiv> ''namespace''"

abbreviation staticDirKey :: bytes where "staticDirKey \<equiv> ''static-dir''"
abbreviation tmpDirKey :: bytes where "tmpDirKey \<equiv> ''tmp-dir''"
abbreviation runRootKey :: bytes where "runRootKey \<equiv> ''run-root''"
abbreviation graphRootKey :: bytes where "graphRootKey \<equiv> ''graph-root''"
abbreviation graphDriverKey :: bytes where "graphDriverKey \<equiv> ''graph-driver-name''"
abbreviation osKey :: bytes where "osKey \<equiv> ''os''"
abbreviation volPathKey :: bytes where "volPathKey \<equiv> ''volume-path''"

section \<open>Runtime configuration validation\<close>

record dbConfigValidation =
  name :: string
  runtimeValue :: string
  key :: bytes
  defaultValue :: string

text \<open>The fields of \<^verbatim>\<open>rt.config\<close> and of the storage options that the checks read.\<close>

record runtime_config =
  StaticDir :: string
  TmpDir :: string
  RunRoot :: string
  GraphRoot :: string
  GraphDriverName :: string
  VolumePath :: string

record store_options =
  optRunRoot :: string
  optGraphRoot :: string
  optGraphDriverName :: string

definition checks :: "string \<Rightarrow> runtime_config \<Rightarrow> store_options \<Rightarrow> dbConfigValidation list" where
  "checks goos cfg storeOpts =
     [ \<lparr>name = ''OS'', runtimeValue = goos, key = osKey, defaultValue = goos\<rparr>,
       \<lparr>name = ''libpod root directory (staticdir)'', runtimeValue = StaticDir cfg,
        key = staticDirKey, defaultValue = []\<rparr>,
       \<lparr>name = ''libpod temporary files directory (tmpdir)'', runtimeValue = TmpDir cfg,
        key = tmpDirKey, defaultValue = []\<rparr>,
       \<lparr>name = ''storage temporary directory (runroot)'', runtimeValue = RunRoot cfg,
        key = runRootKey, defaultValue = optRunRoot storeOpts\<rparr>,
       \<lparr>name = ''storage graph root directory (graphroot)'', runtimeValue = GraphRoot cfg,
        key = graphRootKey, defaultValue = optGraphRoot storeOpts\<rparr>,
       \<lparr>name = ''storage graph driver'', runtimeValue = GraphDriverName cfg,
        key = graphDriverKey, defaultValue = optGraphDriverName storeOpts\<rparr>,
       \<lparr>name = ''volume path'', runtimeValue = VolumePath cfg,
        key = volPathKey, defaultValue = []\<rparr> ]"

text \<open>
  \<^verbatim>\<open>readOnlyValidateConfig\<close> returns \<^verbatim>\<open>(bool, error)\<close>: whether the key exists, and the
  error of a failed validation.
\<close>

definition readOnlyValidateConfig :: "bucket \<Rightarrow> dbConfigValidation \<Rightarrow> bool \<times> failure option" where
  "readOnlyValidateConfig bucket toCheck =
     (case bkt_Get bucket (key toCheck) of
        None \<Rightarrow> (False, None)
      | Some dbValue \<Rightarrow>
          if runtimeValue toCheck \<noteq> dbValue then
            (if runtimeValue toCheck = [] \<and> defaultValue toCheck \<noteq> []
                \<and> dbValue = defaultValue toCheck then (True, None)
             else if dbValue = [] \<and> defaultValue toCheck \<noteq> []
                \<and> runtimeValue toCheck = defaultValue toCheck then (True, None)
             else (True, Some (Error ErrDBBadConfig
                     [name toCheck, dbValue, name toCheck, runtimeValue toCheck])))
          else (True, None))"

definition getRuntimeConfigBucket :: "bucket \<Rightarrow> failure + bucket" where
  "getRuntimeConfigBucket tx =
     (case bkt_Bucket tx runtimeConfigBkt of
        None \<Rightarrow> Inl (Error ErrDBBadConfig [])
      | Some bkt \<Rightarrow> Inr bkt)"

text \<open>
  The loop of the read transaction: \<open>missingFields\<close> is the slice the closure appends to.
\<close>

fun validateChecks :: "bucket \<Rightarrow> dbConfigValidation list \<Rightarrow> dbConfigValidation list
    \<Rightarrow> failure + dbConfigValidation list" where
  "validateChecks configBkt [] missingFields = Inr missingFields"
| "validateChecks configBkt (check # rest) missingFields =
     (case readOnlyValidateConfig configBkt check of
        (exists, Some err) \<Rightarrow> Inl err
      | (exists, None) \<Rightarrow>
          validateChecks configBkt rest
            (if \<not> exists then missingFields @ [check] else missingFields))"

definition validateReadOnly :: "dbConfigValidation list \<Rightarrow> bucket
    \<Rightarrow> failure + dbConfigValidation list" where
  "validateReadOnly cs tx =
     (case getRuntimeConfigBucket tx of
        Inl err \<Rightarrow> Inl err
      | Inr configBkt \<Rightarrow> validateChecks configBkt cs [])"

text \<open>The loop of the write transaction that populates the missing fields.\<close>

fun putMissing :: "dbConfigValidation list \<Rightarrow> bucket \<Rightarrow> failure + bucket" where
  "putMissing [] tx = Inr tx"
| "putMissing (missing # rest) tx =
     (let dbValue =
            (if runtimeValue missing = [] \<and> defaultValue missing \<noteq> []
             then defaultValue missing else runtimeValue missing)
      in case wrapf ErrBolt [name missing]
                (update_at [runtimeConfigBkt] (bkt_Put (key missing) dbValue) tx) of
           Inl err \<Rightarrow> Inl err
         | Inr tx' \<Rightarrow> putMissing rest tx')"

definition populateMissing :: "dbConfigValidation list \<Rightarrow> bucket \<Rightarrow> failure + bucket" where
  "populateMissing missingFields tx =
     (case getRuntimeConfigBucket tx of
        Inl err \<Rightarrow> Inl err
      | Inr configBkt \<Rightarrow> putMissing missingFields tx)"

text \<open>
  \<^verbatim>\<open>checkRuntimeConfig\<close>. \<open>storeOptsRes\<close> is the result of
  \<^verbatim>\<open>storage.DefaultStoreOptions\<close>, \<open>goos\<close> is \<^verbatim>\<open>runtime.GOOS\<close>. The result is the
  returned error (if any) and the database afterwards.
\<close>

definition checkRuntimeConfig :: "failure + store_options \<Rightarrow> string \<Rightarrow> runtime_config \<Rightarrow> bucket
    \<Rightarrow> failure option \<times> bucket" where
  "checkRuntimeConfig storeOptsRes goos cfg db =
     (case storeOptsRes of
        Inl err \<Rightarrow> (Some err, db)
      | Inr storeOpts \<Rightarrow>
          (case db_View (validateReadOnly (checks goos cfg storeOpts)) db of
             Inl err \<Rightarrow> (Some err, db)
           | Inr missingFields \<Rightarrow>
               if length missingFields = 0 then (None, db)
               else db_Update (populateMissing missingFields) db))"

text \<open>
  Modelled from the spec: "They match if they are byte-equal; they also match if one side
  is empty and the other equals the declared default." This is the specification's
  rule, kept apart from \<open>readOnlyValidateConfig\<close>, which is the code's.
\<close>

definition spec_values_match :: "string \<Rightarrow> string \<Rightarrow> string \<Rightarrow> bool" where
  "spec_values_match stored runtime dflt \<longleftrightarrow>
     stored = runtime \<or> (runtime = [] \<and> stored = dflt) \<or> (stored = [] \<and> runtime = dflt)"

section \<open>Containers, pods, volumes and the state object\<close>

text \<open>
  The objects as far as this file reads and writes them. \<open>ctrDependencies\<close> is the list
  that \<^verbatim>\<open>ctr.Dependencies()\<close> returns and \<open>ctrNamedVolumes\<close> the names of
  \<^verbatim>\<open>ctr.config.NamedVolumes\<close>; \<^verbatim>\<open>ctr.ID()\<close> and \<^verbatim>\<open>ctr.Name()\<close> read the configuration.
  A lock and an OCI runtime are handles; a missing one is \<open>None\<close>.
\<close>

type_synonym lock = nat

type_synonym oci_runtime = string

record ContainerConfig =
  ctrID :: string
  ctrName :: string
  ctrNamespace :: string
  ctrLockID :: nat
  ctrOCIRuntime :: string
  ctrNamedVolumes :: "string list"
  ctrDependencies :: "string list"

record Container =
  ctr_config :: ContainerConfig
  ctr_lock :: "lock option"
  ctr_ociRuntime :: "oci_runtime option"
  ctr_runtime :: bool
  ctr_valid :: bool

record PodConfig =
  podID :: string
  podNamespace :: string
  podLockID :: nat

record Pod =
  pod_config :: PodConfig
  pod_lock :: "lock option"
  pod_runtime :: bool
  pod_valid :: bool

record VolumeConfig =
  volName :: string
  volLockID :: nat

record Volume =
  vol_config :: VolumeConfig
  vol_lock :: "lock option"
  vol_runtime :: bool
  vol_valid :: bool

text \<open>
  The \<^verbatim>\<open>BoltState\<close> and what it reaches: its namespace, its runtime (lock manager, OCI
  runtimes) and the library calls whose code is outside this file. \<open>dbOpens\<close> says whether
  \<^verbatim>\<open>bolt.Open\<close> succeeds; a \<^verbatim>\<open>json.Unmarshal\<close> returns whether it succeeded and
  the target as it left it; a \<^verbatim>\<open>json.Marshal\<close> and \<^verbatim>\<open>RetrieveLock\<close> return \<open>None\<close>
  for an error.
\<close>

record BoltState =
  namespace :: string
  namespaceBytes :: "bytes option"
  dbOpens :: bool
  RetrieveLock :: "nat \<Rightarrow> lock option"
  defaultOCIRuntime :: oci_runtime
  ociRuntimes :: "string \<Rightarrow> oci_runtime option"
  json_Unmarshal_ctr :: "bytes \<Rightarrow> ContainerConfig \<Rightarrow> bool \<times> ContainerConfig"
  json_Unmarshal_pod :: "bytes \<Rightarrow> PodConfig \<Rightarrow> bool \<times> PodConfig"
  json_Unmarshal_vol :: "bytes \<Rightarrow> VolumeConfig \<Rightarrow> bool \<times> VolumeConfig"
  json_Marshal_config :: "ContainerConfig \<Rightarrow> bytes option"
  json_Marshal_state :: "Container \<Rightarrow> bytes option"
  getNetNSPath :: "Container \<Rightarrow> string"

text \<open>\<^verbatim>\<open>string(b)\<close> of a byte slice that may be nil.\<close>

definition string_of :: "bytes option \<Rightarrow> string" where
  "string_of b = (case b of None \<Rightarrow> [] | Some x \<Rightarrow> x)"

definition strings_HasPrefix :: "string \<Rightarrow> string \<Rightarrow> bool" where
  "strings_HasPrefix s p = (take (length p) s = p)"

fun strings_Join :: "string list \<Rightarrow> string \<Rightarrow> string" where
  "strings_Join [] sep = []"
| "strings_Join [x] sep = x"
| "strings_Join (x # y # ys) sep = x @ sep @ strings_Join (y # ys) sep"

text \<open>
  \<^verbatim>\<open>filepath.Base\<close> on a platform whose separator is the slash: strip trailing slashes,
  keep what follows the last slash; the empty path gives a dot, a path of slashes a slash.
\<close>

definition filepath_Base :: "string \<Rightarrow> string" where
  "filepath_Base p =
     (if p = [] then ''.''
      else (let q = rev (dropWhile (\<lambda>c. c = CHR ''/'') (rev p));
                r = rev (takeWhile (\<lambda>c. c \<noteq> CHR ''/'') (rev q))
            in if r = [] then ''/'' else r))"

section \<open>Entity hydration\<close>

text \<open>
  Each function returns the error (if any), the caller's object as the function left it,
  and the bucket it was handed, after the call.
\<close>

definition getContainerFromDB :: "BoltState \<Rightarrow> bytes \<Rightarrow> Container \<Rightarrow> bucket
    \<Rightarrow> failure option \<times> Container \<times> bucket" where
  "getContainerFromDB s ident ctr ctrsBkt =
     (case bkt_Bucket ctrsBkt ident of
        None \<Rightarrow> (Some (Error ErrNoSuchCtr [ident]), ctr, ctrsBkt)
      | Some ctrDB \<Rightarrow>
          if namespaceBytes s \<noteq> None
             \<and> \<not> bytes_Equal (namespaceBytes s) (bkt_Get ctrDB namespaceKey)
          then (Some (Error ErrNSMismatch
                  [ident, string_of (bkt_Get ctrDB namespaceKey), namespace s]), ctr, ctrsBkt)
          else
            (case bkt_Get ctrDB configKey of
               None \<Rightarrow> (Some (Error ErrInternal [ident]), ctr, ctrsBkt)
             | Some configBytes \<Rightarrow>
                 (let (ok, cfg) = json_Unmarshal_ctr s configBytes (ctr_config ctr);
                      ctr1 = ctr\<lparr>ctr_config := cfg\<rparr>
                  in if \<not> ok then (Some (Error (ErrForeign ''json.Unmarshal'') [ident]), ctr1, ctrsBkt)
                     else
                       (case RetrieveLock s (ctrLockID cfg) of
                          None \<Rightarrow> (Some (Error (ErrForeign ''RetrieveLock'') [ident]), ctr1, ctrsBkt)
                        | Some lock \<Rightarrow>
                            (let ctr2 = ctr1\<lparr>ctr_lock := Some lock\<rparr>
                             in if ctrOCIRuntime cfg = [] then
                                  (None, ctr2\<lparr>ctr_ociRuntime := Some (defaultOCIRuntime s),
                                          ctr_runtime := True, ctr_valid := True\<rparr>, ctrsBkt)
                                else
                                  (let runtimeName =
                                         (if strings_HasPrefix (ctrOCIRuntime cfg) ''/''
                                          then filepath_Base (ctrOCIRuntime cfg)
                                          else ctrOCIRuntime cfg)
                                   in case ociRuntimes s runtimeName of
                                        None \<Rightarrow>
                                          (Some (Error ErrInternal [ctrID cfg, ctrOCIRuntime cfg]),
                                           ctr2, ctrsBkt)
                                      | Some ociRuntime \<Rightarrow>
                                          (None, ctr2\<lparr>ctr_ociRuntime := Some ociRuntime,
                                                  ctr_runtime := True, ctr_valid := True\<rparr>,
                                           ctrsBkt)))))))"

definition getPodFromDB :: "BoltState \<Rightarrow> bytes \<Rightarrow> Pod \<Rightarrow> bucket
    \<Rightarrow> failure option \<times> Pod \<times> bucket" where
  "getPodFromDB s ident pod podBucket =
     (case bkt_Bucket podBucket ident of
        None \<Rightarrow> (Some (Error ErrNoSuchPod [ident]), pod, podBucket)
      | Some podDB \<Rightarrow>
          if namespaceBytes s \<noteq> None
             \<and> \<not> bytes_Equal (namespaceBytes s) (bkt_Get podDB namespaceKey)
          then (Some (Error ErrNSMismatch
                  [ident, string_of (bkt_Get podDB namespaceKey), namespace s]), pod, podBucket)
          else
            (case bkt_Get podDB configKey of
               None \<Rightarrow> (Some (Error ErrInternal [ident]), pod, podBucket)
             | Some podConfigBytes \<Rightarrow>
                 (let (ok, cfg) = json_Unmarshal_pod s podConfigBytes (pod_config pod);
                      pod1 = pod\<lparr>pod_config := cfg\<rparr>
                  in if \<not> ok then
                       (Some (Error (ErrForeign ''json.Unmarshal'') [ident]), pod1, podBucket)
                     else
                       (case RetrieveLock s (podLockID cfg) of
                          None \<Rightarrow>
                            (Some (Error (ErrForeign ''RetrieveLock'') [ident]), pod1, podBucket)
                        | Some lock \<Rightarrow>
                            (None, pod1\<lparr>pod_lock := Some lock, pod_runtime := True,
                                    pod_valid := True\<rparr>, podBucket)))))"

definition getVolumeFromDB :: "BoltState \<Rightarrow> bytes \<Rightarrow> Volume \<Rightarrow> bucket
    \<Rightarrow> failure option \<times> Volume \<times> bucket" where
  "getVolumeFromDB s nm volume volBucket =
     (case bkt_Bucket volBucket nm of
        None \<Rightarrow> (Some (Error ErrNoSuchVolume [nm]), volume, volBucket)
      | Some volDB \<Rightarrow>
          (case bkt_Get volDB configKey of
             None \<Rightarrow> (Some (Error ErrInternal [nm]), volume, volBucket)
           | Some volConfigBytes \<Rightarrow>
               (let (ok, cfg) = json_Unmarshal_vol s volConfigBytes (vol_config volume);
                    volume1 = volume\<lparr>vol_config := cfg\<rparr>
                in if \<not> ok then
                     (Some (Error (ErrForeign ''json.Unmarshal'') [nm]), volume1, volBucket)
                   else
                     (case RetrieveLock s (volLockID cfg) of
                        None \<Rightarrow>
                          (Some (Error (ErrForeign ''RetrieveLock'') [nm]), volume1, volBucket)
                      | Some lock \<Rightarrow>
                          (None, volume1\<lparr>vol_lock := Some lock, vol_runtime := True,
                                  vol_valid := True\<rparr>, volBucket)))))"

section \<open>Adding and removing a container\<close>

abbreviation ctr_ID :: "Container \<Rightarrow> string" where
  "ctr_ID ctr \<equiv> ctrID (ctr_config ctr)"

abbreviation ctr_Name :: "Container \<Rightarrow> string" where
  "ctr_Name ctr \<equiv> ctrName (ctr_config ctr)"

abbreviation ctr_Namespace :: "Container \<Rightarrow> string" where
  "ctr_Namespace ctr \<equiv> ctrNamespace (ctr_config ctr)"

abbreviation pod_ID :: "Pod \<Rightarrow> string" where
  "pod_ID pod \<equiv> podID (pod_config pod)"

abbreviation pod_Namespace :: "Pod \<Rightarrow> string" where
  "pod_Namespace pod \<equiv> podNamespace (pod_config pod)"

text \<open>
  The local \<^verbatim>\<open>ctrNamespace\<close> of \<^verbatim>\<open>addContainer\<close>: nil unless the namespace is not
  empty.
\<close>

definition ctrNamespaceBytes :: "Container \<Rightarrow> bytes option" where
  "ctrNamespaceBytes ctr = (if ctr_Namespace ctr \<noteq> [] then Some (ctr_Namespace ctr) else None)"

definition getIDBucket :: "bucket \<Rightarrow> failure + bucket" where
  "getIDBucket tx =
     (case bkt_Bucket tx idRegistryBkt of
        None \<Rightarrow> Inl (Error ErrDBBadConfig []) | Some bkt \<Rightarrow> Inr bkt)"

definition getNamesBucket :: "bucket \<Rightarrow> failure + bucket" where
  "getNamesBucket tx =
     (case bkt_Bucket tx nameRegistryBkt of
        None \<Rightarrow> Inl (Error ErrDBBadConfig []) | Some bkt \<Rightarrow> Inr bkt)"

definition getNSBucket :: "bucket \<Rightarrow> failure + bucket" where
  "getNSBucket tx =
     (case bkt_Bucket tx nsRegistryBkt of
        None \<Rightarrow> Inl (Error ErrDBBadConfig []) | Some bkt \<Rightarrow> Inr bkt)"

definition getCtrBucket :: "bucket \<Rightarrow> failure + bucket" where
  "getCtrBucket tx =
     (case bkt_Bucket tx ctrBkt of
        None \<Rightarrow> Inl (Error ErrDBBadConfig []) | Some bkt \<Rightarrow> Inr bkt)"

definition getAllCtrsBucket :: "bucket \<Rightarrow> failure + bucket" where
  "getAllCtrsBucket tx =
     (case bkt_Bucket tx allCtrsBkt of
        None \<Rightarrow> Inl (Error ErrDBBadConfig []) | Some bkt \<Rightarrow> Inr bkt)"

definition getPodBucket :: "bucket \<Rightarrow> failure + bucket" where
  "getPodBucket tx =
     (case bkt_Bucket tx podBkt of
        None \<Rightarrow> Inl (Error ErrDBBadConfig []) | Some bkt \<Rightarrow> Inr bkt)"

definition getVolBucket :: "bucket \<Rightarrow> failure + bucket" where
  "getVolBucket tx =
     (case bkt_Bucket tx volBkt of
        None \<Rightarrow> Inl (Error ErrDBBadConfig []) | Some bkt \<Rightarrow> Inr bkt)"

subsection \<open>\<^verbatim>\<open>addContainer\<close>\<close>

text \<open>
  The body of the write transaction is split where the source's comments split it. A
  handle is used through its path, resolved in the transaction as it is at the call.
  The validity flags of the Go objects (\<^verbatim>\<open>pod.valid = false\<close> on a missing pod) are
  outside the database and are not tracked here.
\<close>

text \<open>If a pod was given, check if it exists.\<close>

definition addContainer_checkPod :: "Container \<Rightarrow> Pod option \<Rightarrow> bucket \<Rightarrow> failure option" where
  "addContainer_checkPod ctr pod tx =
     (case pod of
        None \<Rightarrow> None
      | Some p \<Rightarrow>
          (case getPodBucket tx of
             Inl err \<Rightarrow> Some err
           | Inr podBucket \<Rightarrow>
               (case bkt_Bucket podBucket (pod_ID p) of
                  None \<Rightarrow> Some (Error ErrNoSuchPod [pod_ID p])
                | Some podDB \<Rightarrow>
                    (case bkt_Bucket podDB containersBkt of
                       None \<Rightarrow> Some (Error ErrInternal [pod_ID p])
                     | Some podCtrs \<Rightarrow>
                         if \<not> bytes_Equal (bkt_Get podDB namespaceKey) (ctrNamespaceBytes ctr)
                         then Some (Error ErrNSMismatch
                                [ctr_ID ctr, ctr_Namespace ctr, pod_ID p, pod_Namespace p])
                         else None))))"

text \<open>Add the new container to the DB: the registries and the container's own bucket.\<close>

definition addContainer_create :: "Container \<Rightarrow> Pod option \<Rightarrow> bytes \<Rightarrow> bytes \<Rightarrow> string \<Rightarrow> bucket
    \<Rightarrow> failure + bucket" where
  "addContainer_create ctr pod configJSON stateJSON netNSPath tx0 =
     bindE (wrapf ErrBolt [ctr_ID ctr]
              (update_at [idRegistryBkt] (bkt_Put (ctr_ID ctr) (ctr_Name ctr)) tx0)) (\<lambda>tx1.
     bindE (wrapf ErrBolt [ctr_ID ctr, ctr_Name ctr]
              (update_at [nameRegistryBkt] (bkt_Put (ctr_Name ctr) (ctr_ID ctr)) tx1)) (\<lambda>tx2.
     bindE (case ctrNamespaceBytes ctr of
              None \<Rightarrow> Inr tx2
            | Some ns \<Rightarrow> wrapf ErrBolt [ctr_ID ctr, ctr_Namespace ctr]
                (update_at [nsRegistryBkt] (bkt_Put (ctr_ID ctr) ns) tx2)) (\<lambda>tx3.
     bindE (wrapf ErrBolt [ctr_ID ctr]
              (update_at [allCtrsBkt] (bkt_Put (ctr_ID ctr) (ctr_Name ctr)) tx3)) (\<lambda>tx4.
     bindE (wrapf ErrBolt [ctr_ID ctr]
              (update_at [ctrBkt] (bkt_CreateBucket (ctr_ID ctr)) tx4)) (\<lambda>tx5.
     bindE (wrapf ErrBolt [ctr_ID ctr]
              (update_at [ctrBkt, ctr_ID ctr] (bkt_Put configKey configJSON) tx5)) (\<lambda>tx6.
     bindE (wrapf ErrBolt [ctr_ID ctr]
              (update_at [ctrBkt, ctr_ID ctr] (bkt_Put stateKey stateJSON) tx6)) (\<lambda>tx7.
     bindE (case ctrNamespaceBytes ctr of
              None \<Rightarrow> Inr tx7
            | Some ns \<Rightarrow> wrapf ErrBolt [ctr_ID ctr]
                (update_at [ctrBkt, ctr_ID ctr] (bkt_Put namespaceKey ns) tx7)) (\<lambda>tx8.
     bindE (case pod of
              None \<Rightarrow> Inr tx8
            | Some p \<Rightarrow> wrapf ErrBolt [ctr_ID ctr]
                (update_at [ctrBkt, ctr_ID ctr] (bkt_Put podIDKey (pod_ID p)) tx8)) (\<lambda>tx9.
     bindE (if netNSPath \<noteq> []
            then wrapf ErrBolt [ctr_ID ctr]
                (update_at [ctrBkt, ctr_ID ctr] (bkt_Put netNSKey netNSPath) tx9)
            else Inr tx9) (\<lambda>tx10.
     wrapf ErrBolt [ctr_ID ctr]
       (update_at [ctrBkt, ctr_ID ctr] (bkt_CreateBucket dependenciesBkt) tx10)))))))))))"

text \<open>The pod check on one dependency (the source's lines 625 to 640).\<close>

definition addContainer_depPod :: "Container \<Rightarrow> Pod option \<Rightarrow> string \<Rightarrow> bytes option
    \<Rightarrow> failure option" where
  "addContainer_depPod ctr pod dependsCtr depCtrPod =
     (case pod of
        Some p \<Rightarrow>
          (case depCtrPod of
             None \<Rightarrow> Some (Error ErrInvalidArg [ctr_ID ctr, dependsCtr, pod_ID p])
           | Some dp \<Rightarrow>
               if dp \<noteq> pod_ID p
               then Some (Error ErrInvalidArg [ctr_ID ctr, dependsCtr, dp])
               else None)
      | None \<Rightarrow>
          (case depCtrPod of
             Some dp \<Rightarrow> Some (Error ErrInvalidArg [ctr_ID ctr, dependsCtr])
           | None \<Rightarrow> None))"

text \<open>One iteration of the loop that adds the dependencies of the container.\<close>

definition addContainer_dep :: "Container \<Rightarrow> Pod option \<Rightarrow> string \<Rightarrow> bucket \<Rightarrow> failure + bucket" where
  "addContainer_dep ctr pod dependsCtr tx =
     (case resolve tx [ctrBkt] of
        None \<Rightarrow> Inl NilDeref
      | Some ctrBucket \<Rightarrow>
          (case bkt_Bucket ctrBucket dependsCtr of
             None \<Rightarrow> Inl (Error ErrNoSuchCtr [ctr_ID ctr, dependsCtr])
           | Some depCtrBkt \<Rightarrow>
               (case addContainer_depPod ctr pod dependsCtr (bkt_Get depCtrBkt podIDKey) of
                  Some err \<Rightarrow> Inl err
                | None \<Rightarrow>
                    if \<not> bytes_Equal (ctrNamespaceBytes ctr) (bkt_Get depCtrBkt namespaceKey)
                    then Inl (Error ErrNSMismatch
                           [ctr_ID ctr, ctr_Namespace ctr, dependsCtr,
                            string_of (bkt_Get depCtrBkt namespaceKey)])
                    else
                      (case bkt_Bucket depCtrBkt dependenciesBkt of
                         None \<Rightarrow> Inl (Error ErrInternal [dependsCtr])
                       | Some depCtrDependsBkt \<Rightarrow>
                           wrapf ErrBolt [ctr_ID ctr, dependsCtr]
                             (update_at [ctrBkt, dependsCtr, dependenciesBkt]
                                (bkt_Put (ctr_ID ctr) (ctr_Name ctr)) tx)))))"

fun addContainer_deps :: "Container \<Rightarrow> Pod option \<Rightarrow> string list \<Rightarrow> bucket \<Rightarrow> failure + bucket" where
  "addContainer_deps ctr pod [] tx = Inr tx"
| "addContainer_deps ctr pod (dependsCtr # rest) tx =
     (case addContainer_dep ctr pod dependsCtr tx of
        Inl err \<Rightarrow> Inl err
      | Inr tx' \<Rightarrow> addContainer_deps ctr pod rest tx')"

text \<open>Add ctr to pod.\<close>

definition addContainer_toPod :: "Container \<Rightarrow> Pod option \<Rightarrow> bucket \<Rightarrow> failure + bucket" where
  "addContainer_toPod ctr pod tx =
     (case pod of
        None \<Rightarrow> Inr tx
      | Some p \<Rightarrow>
          (case resolve tx [podBkt, pod_ID p, containersBkt] of
             None \<Rightarrow> Inr tx
           | Some podCtrs \<Rightarrow>
               wrapf ErrBolt [ctr_ID ctr, pod_ID p]
                 (update_at [podBkt, pod_ID p, containersBkt]
                    (bkt_Put (ctr_ID ctr) (ctr_Name ctr)) tx)))"

text \<open>
  One iteration of the loop that adds the container to the named volumes' dependencies
  buckets. \<^verbatim>\<open>ctrDepsBkt\<close> is used without a nil check.
\<close>

definition addContainer_vol :: "Container \<Rightarrow> string \<Rightarrow> bucket \<Rightarrow> failure + bucket" where
  "addContainer_vol ctr vol tx =
     (case resolve tx [volBkt] of
        None \<Rightarrow> Inl NilDeref
      | Some volBucket \<Rightarrow>
          (case bkt_Bucket volBucket vol of
             None \<Rightarrow> Inl (Error ErrNoSuchVolume [vol, ctr_ID ctr])
           | Some volDB \<Rightarrow>
               (case bkt_Bucket volDB volDependenciesBkt of
                  None \<Rightarrow> Inl NilDeref
                | Some ctrDepsBkt \<Rightarrow>
                    if bkt_Get ctrDepsBkt (ctr_ID ctr) = None
                    then wrapf ErrBolt [ctr_ID ctr, vol]
                           (update_at [volBkt, vol, volDependenciesBkt]
                              (bkt_Put (ctr_ID ctr) (ctr_ID ctr)) tx)
                    else Inr tx)))"

fun addContainer_vols :: "Container \<Rightarrow> string list \<Rightarrow> bucket \<Rightarrow> failure + bucket" where
  "addContainer_vols ctr [] tx = Inr tx"
| "addContainer_vols ctr (vol # rest) tx =
     (case addContainer_vol ctr vol tx of
        Inl err \<Rightarrow> Inl err
      | Inr tx' \<Rightarrow> addContainer_vols ctr rest tx')"

text \<open>The closure handed to \<^verbatim>\<open>db.Update\<close>.\<close>

definition addContainer_tx :: "Container \<Rightarrow> Pod option \<Rightarrow> bytes \<Rightarrow> bytes \<Rightarrow> string \<Rightarrow> bucket
    \<Rightarrow> failure + bucket" where
  "addContainer_tx ctr pod configJSON stateJSON netNSPath tx =
     bindE (getIDBucket tx) (\<lambda>idsBucket.
     bindE (getNamesBucket tx) (\<lambda>namesBucket.
     bindE (getNSBucket tx) (\<lambda>nsBucket.
     bindE (getCtrBucket tx) (\<lambda>ctrBucket.
     bindE (getAllCtrsBucket tx) (\<lambda>allCtrsBucket.
     bindE (getVolBucket tx) (\<lambda>volBucket.
       case addContainer_checkPod ctr pod tx of
         Some err \<Rightarrow> Inl err
       | None \<Rightarrow>
           if bkt_Get idsBucket (ctr_ID ctr) \<noteq> None
           then Inl (Error ErrCtrExists [ctr_ID ctr])
           else if bkt_Get namesBucket (ctr_Name ctr) \<noteq> None
           then Inl (Error ErrCtrExists [ctr_Name ctr])
           else
             bindE (addContainer_create ctr pod configJSON stateJSON netNSPath tx) (\<lambda>tx1.
             bindE (addContainer_deps ctr pod (ctrDependencies (ctr_config ctr)) tx1) (\<lambda>tx2.
             bindE (addContainer_toPod ctr pod tx2) (\<lambda>tx3.
             addContainer_vols ctr (ctrNamedVolumes (ctr_config ctr)) tx3)))))))))"

text \<open>
  \<^verbatim>\<open>addContainer\<close>: the returned error (if any) and the database afterwards.
\<close>

definition addContainer :: "BoltState \<Rightarrow> Container \<Rightarrow> Pod option \<Rightarrow> bucket
    \<Rightarrow> failure option \<times> bucket" where
  "addContainer s ctr pod db =
     (if namespace s \<noteq> [] \<and> namespace s \<noteq> ctr_Namespace ctr
      then (Some (Error ErrNSMismatch [ctr_ID ctr, namespace s, ctr_Namespace ctr]), db)
      else
        (case json_Marshal_config s (ctr_config ctr) of
           None \<Rightarrow> (Some (Error (ErrForeign ''json.Marshal'') [ctr_ID ctr]), db)
         | Some configJSON \<Rightarrow>
             (case json_Marshal_state s ctr of
                None \<Rightarrow> (Some (Error (ErrForeign ''json.Marshal'') [ctr_ID ctr]), db)
              | Some stateJSON \<Rightarrow>
                  if \<not> dbOpens s then (Some (Error (ErrForeign ''bolt.Open'') []), db)
                  else db_Update
                         (addContainer_tx ctr pod configJSON stateJSON (getNetNSPath s ctr)) db)))"

subsection \<open>\<^verbatim>\<open>removeContainer\<close>\<close>

text \<open>Does the pod exist?\<close>

definition removeContainer_checkPod :: "Pod option \<Rightarrow> bucket \<Rightarrow> failure option" where
  "removeContainer_checkPod pod tx =
     (case pod of
        None \<Rightarrow> None
      | Some p \<Rightarrow>
          (case getPodBucket tx of
             Inl err \<Rightarrow> Some err
           | Inr podBucket \<Rightarrow>
               (case bkt_Bucket podBucket (pod_ID p) of
                  None \<Rightarrow> Some (Error ErrNoSuchPod [pod_ID p])
                | Some podDB \<Rightarrow> None)))"

text \<open>Compare namespace: we can't remove containers not in our namespace.\<close>

definition removeContainer_checkNS :: "BoltState \<Rightarrow> Container \<Rightarrow> Pod option \<Rightarrow> failure option" where
  "removeContainer_checkNS s ctr pod =
     (if namespace s \<noteq> [] then
        (if namespace s \<noteq> ctr_Namespace ctr
         then Some (Error ErrNSMismatch [ctr_ID ctr, ctr_Namespace ctr, namespace s])
         else (case pod of
                 None \<Rightarrow> None
               | Some p \<Rightarrow>
                   if namespace s \<noteq> pod_Namespace p
                   then Some (Error ErrNSMismatch [pod_ID p, pod_Namespace p, namespace s])
                   else None))
      else None)"

text \<open>
  Check if the container is in the pod, remove it if it is. A pod without a containers
  bucket is logged and passed over.
\<close>

definition removeContainer_fromPod :: "Container \<Rightarrow> Pod option \<Rightarrow> bucket \<Rightarrow> failure + bucket" where
  "removeContainer_fromPod ctr pod tx =
     (case pod of
        None \<Rightarrow> Inr tx
      | Some p \<Rightarrow>
          (case resolve tx [podBkt, pod_ID p] of
             None \<Rightarrow> Inr tx
           | Some podDB \<Rightarrow>
               (case bkt_Bucket podDB containersBkt of
                  None \<Rightarrow> Inr tx
                | Some podCtrs \<Rightarrow>
                    if bkt_Get podCtrs (ctr_ID ctr) = None
                    then Inl (Error ErrNoSuchCtr [ctr_ID ctr, pod_ID p])
                    else wrapf ErrBolt [ctr_ID ctr, pod_ID p]
                           (update_at [podBkt, pod_ID p, containersBkt]
                              (bkt_Delete (ctr_ID ctr)) tx))))"

text \<open>One iteration of the loop that removes us from other containers' dependencies.\<close>

definition removeContainer_dep :: "Container \<Rightarrow> string \<Rightarrow> bucket \<Rightarrow> failure + bucket" where
  "removeContainer_dep ctr depCtr tx =
     (case resolve tx [ctrBkt] of
        None \<Rightarrow> Inl NilDeref
      | Some ctrBucket \<Rightarrow>
          (case bkt_Bucket ctrBucket depCtr of
             None \<Rightarrow> Inr tx
           | Some depCtrBkt \<Rightarrow>
               (case bkt_Bucket depCtrBkt dependenciesBkt of
                  None \<Rightarrow> Inr tx
                | Some depCtrDependsBkt \<Rightarrow>
                    wrapf ErrBolt [ctr_ID ctr, depCtr]
                      (update_at [ctrBkt, depCtr, dependenciesBkt]
                         (bkt_Delete (ctr_ID ctr)) tx))))"

fun removeContainer_deps :: "Container \<Rightarrow> string list \<Rightarrow> bucket \<Rightarrow> failure + bucket" where
  "removeContainer_deps ctr [] tx = Inr tx"
| "removeContainer_deps ctr (depCtr # rest) tx =
     (case removeContainer_dep ctr depCtr tx of
        Inl err \<Rightarrow> Inl err
      | Inr tx' \<Rightarrow> removeContainer_deps ctr rest tx')"

text \<open>
  One iteration of the loop that removes the container from the named volumes'
  dependencies buckets. \<^verbatim>\<open>ctrDepsBkt\<close> is used without a nil check, and the entry is
  deleted when \<^verbatim>\<open>Get\<close> returned nil (\<^verbatim>\<open>depExists == nil\<close>).
\<close>

definition removeContainer_vol :: "Container \<Rightarrow> string \<Rightarrow> bucket \<Rightarrow> failure + bucket" where
  "removeContainer_vol ctr vol tx =
     (case resolve tx [volBkt] of
        None \<Rightarrow> Inl NilDeref
      | Some volBucket \<Rightarrow>
          (case bkt_Bucket volBucket vol of
             None \<Rightarrow> Inr tx
           | Some volDB \<Rightarrow>
               (case bkt_Bucket volDB volDependenciesBkt of
                  None \<Rightarrow> Inl NilDeref
                | Some ctrDepsBkt \<Rightarrow>
                    if bkt_Get ctrDepsBkt (ctr_ID ctr) = None
                    then wrapf ErrBolt [ctr_ID ctr, vol]
                           (update_at [volBkt, vol, volDependenciesBkt]
                              (bkt_Delete (ctr_ID ctr)) tx)
                    else Inr tx)))"

fun removeContainer_vols :: "Container \<Rightarrow> string list \<Rightarrow> bucket \<Rightarrow> failure + bucket" where
  "removeContainer_vols ctr [] tx = Inr tx"
| "removeContainer_vols ctr (vol # rest) tx =
     (case removeContainer_vol ctr vol tx of
        Inl err \<Rightarrow> Inl err
      | Inr tx' \<Rightarrow> removeContainer_vols ctr rest tx')"

text \<open>
  Does the container have dependencies? The keys of its dependencies bucket are the
  containers that depend on it.
\<close>

definition removeContainer_checkDeps :: "Container \<Rightarrow> bucket \<Rightarrow> failure option" where
  "removeContainer_checkDeps ctr tx =
     (case resolve tx [ctrBkt, ctr_ID ctr] of
        None \<Rightarrow> Some NilDeref
      | Some ctrExists \<Rightarrow>
          (case bkt_Bucket ctrExists dependenciesBkt of
             None \<Rightarrow> Some (Error ErrInternal [ctr_ID ctr])
           | Some ctrDepsBkt \<Rightarrow>
               (let deps = bkt_ForEach_keys ctrDepsBkt
                in if length deps \<noteq> 0
                   then Some (Error ErrCtrExists [ctr_ID ctr, strings_Join deps '', ''])
                   else None)))"

text \<open>Delete the container's bucket and its entries in the registries.\<close>

definition removeContainer_delete :: "Container \<Rightarrow> bucket \<Rightarrow> failure + bucket" where
  "removeContainer_delete ctr tx1 =
     bindE (wrapf (\<lambda>e. ErrInternal) [ctr_ID ctr]
              (update_at [ctrBkt] (bkt_DeleteBucket (ctr_ID ctr)) tx1)) (\<lambda>tx2.
     bindE (wrapf ErrBolt [ctr_ID ctr]
              (update_at [idRegistryBkt] (bkt_Delete (ctr_ID ctr)) tx2)) (\<lambda>tx3.
     bindE (wrapf ErrBolt [ctr_ID ctr]
              (update_at [nameRegistryBkt] (bkt_Delete (ctr_Name ctr)) tx3)) (\<lambda>tx4.
     bindE (wrapf ErrBolt [ctr_ID ctr]
              (update_at [nsRegistryBkt] (bkt_Delete (ctr_ID ctr)) tx4)) (\<lambda>tx5.
     wrapf ErrBolt [ctr_ID ctr]
       (update_at [allCtrsBkt] (bkt_Delete (ctr_ID ctr)) tx5)))))"

text \<open>
  \<^verbatim>\<open>removeContainer\<close> runs inside the transaction \<open>tx\<close> of its caller and returns an
  error or the transaction as it has written it.
\<close>

definition removeContainer :: "BoltState \<Rightarrow> Container \<Rightarrow> Pod option \<Rightarrow> bucket \<Rightarrow> failure + bucket" where
  "removeContainer s ctr pod tx =
     bindE (getIDBucket tx) (\<lambda>idsBucket.
     bindE (getNamesBucket tx) (\<lambda>namesBucket.
     bindE (getCtrBucket tx) (\<lambda>ctrBucket.
     bindE (getNSBucket tx) (\<lambda>nsBucket.
     bindE (getAllCtrsBucket tx) (\<lambda>allCtrsBucket.
     bindE (getVolBucket tx) (\<lambda>volBucket.
       case removeContainer_checkPod pod tx of
         Some err \<Rightarrow> Inl err
       | None \<Rightarrow>
           (case bkt_Bucket ctrBucket (ctr_ID ctr) of
              None \<Rightarrow> Inl (Error ErrNoSuchCtr [ctr_ID ctr])
            | Some ctrExists \<Rightarrow>
                (case removeContainer_checkNS s ctr pod of
                   Some err \<Rightarrow> Inl err
                 | None \<Rightarrow>
                     bindE (removeContainer_fromPod ctr pod tx) (\<lambda>tx1.
                       case removeContainer_checkDeps ctr tx1 of
                         Some err \<Rightarrow> Inl err
                       | None \<Rightarrow>
                           bindE (removeContainer_delete ctr tx1) (\<lambda>tx6.
                           bindE (removeContainer_deps ctr
                                    (ctrDependencies (ctr_config ctr)) tx6) (\<lambda>tx7.
                           removeContainer_vols ctr
                             (ctrNamedVolumes (ctr_config ctr)) tx7)))))))))))"

text \<open>
  Modelled from the spec: the callers of \<^verbatim>\<open>removeContainer\<close> are not in this file. The
  specification has the removal run "in one write transaction", whose errors "abort the
  transaction; no partial state is observable": the caller hands \<^verbatim>\<open>removeContainer\<close>
  to \<^verbatim>\<open>db.Update\<close>.
\<close>

definition removeContainer_committed :: "BoltState \<Rightarrow> Container \<Rightarrow> Pod option \<Rightarrow> bucket
    \<Rightarrow> failure option \<times> bucket" where
  "removeContainer_committed s ctr pod db = db_Update (removeContainer s ctr pod) db"

section \<open>What a write touches\<close>

text \<open>
  The notions the frame properties are stated with. \<open>get_at\<close> is \<^verbatim>\<open>Get\<close> through a
  handle. Every writing method of the engine changes the binding of one key of its
  bucket (\<open>touches_only\<close>); a write through the handle \<open>p\<close> to the key \<open>k\<close> touches the
  path \<open>p @ [k]\<close>. \<open>writes W\<close> is one successful write that touches a path of \<open>W\<close>, and
  \<open>writes_only W ph\<close> says that a successful run of \<open>ph\<close> is a sequence of such writes.
\<close>

definition get_at :: "bucket \<Rightarrow> bytes list \<Rightarrow> bytes \<Rightarrow> bytes option" where
  "get_at tx p k = (case resolve tx p of None \<Rightarrow> None | Some b \<Rightarrow> bkt_Get b k)"

definition touches_only :: "(bucket \<Rightarrow> bolt_error + bucket) \<Rightarrow> bytes \<Rightarrow> bool" where
  "touches_only f k \<longleftrightarrow> (\<forall>b b' k'. f b = Inr b' \<longrightarrow> k' \<noteq> k \<longrightarrow> map_of b' k' = map_of b k')"

definition touch :: "bytes list \<Rightarrow> bucket \<Rightarrow> bucket \<Rightarrow> bool" where
  "touch w tx tx' \<longleftrightarrow>
     (\<exists>p k f. w = p @ [k] \<and> touches_only f k \<and> update_at p f tx = Some (Inr tx'))"

definition writes :: "bytes list set \<Rightarrow> bucket \<Rightarrow> bucket \<Rightarrow> bool" where
  "writes W tx tx' \<longleftrightarrow> (\<exists>w\<in>W. touch w tx tx')"

definition writes_only :: "bytes list set \<Rightarrow> (bucket \<Rightarrow> failure + bucket) \<Rightarrow> bool" where
  "writes_only W ph \<longleftrightarrow> (\<forall>tx tx'. ph tx = Inr tx' \<longrightarrow> rtranclp (writes W) tx tx')"

text \<open>
  The paths that adding or removing the container \<open>ctr\<close> may touch: its entries in the
  four registries, its own bucket and everything below it, and its entry in the
  dependencies bucket of any container, in the containers bucket of any pod and in the
  vol-dependencies bucket of any volume.
\<close>

definition touched_paths :: "Container \<Rightarrow> bytes list set" where
  "touched_paths ctr =
     {[idRegistryBkt, ctr_ID ctr], [nameRegistryBkt, ctr_Name ctr],
      [nsRegistryBkt, ctr_ID ctr], [allCtrsBkt, ctr_ID ctr]}
     \<union> {w. prefix [ctrBkt, ctr_ID ctr] w}
     \<union> {[ctrBkt, d, dependenciesBkt, ctr_ID ctr] | d. True}
     \<union> {[podBkt, p, containersBkt, ctr_ID ctr] | p. True}
     \<union> {[volBkt, v, volDependenciesBkt, ctr_ID ctr] | v. True}"

text \<open>
  \<open>faultless P ph\<close>: started in a transaction that satisfies \<open>P\<close>, \<open>ph\<close> does not panic on
  a nil handle. \<open>preserved_by W P\<close>: a write that touches a path of \<open>W\<close> keeps \<open>P\<close>.
  \<open>volumes_have_dependencies\<close> is the precondition of the volume loops: every bucket
  under \<open>vol\<close> contains a \<open>vol-dependencies\<close> bucket.
\<close>

definition faultless :: "(bucket \<Rightarrow> bool) \<Rightarrow> (bucket \<Rightarrow> failure + bucket) \<Rightarrow> bool" where
  "faultless P ph \<longleftrightarrow> (\<forall>t. P t \<longrightarrow> ph t \<noteq> Inl NilDeref)"

definition preserved_by :: "bytes list set \<Rightarrow> (bucket \<Rightarrow> bool) \<Rightarrow> bool" where
  "preserved_by W P \<longleftrightarrow> (\<forall>t t'. P t \<longrightarrow> writes W t t' \<longrightarrow> P t')"

definition volumes_have_dependencies :: "bucket \<Rightarrow> bool" where
  "volumes_have_dependencies tx \<longleftrightarrow>
     (\<forall>v. resolve tx [volBkt, v] \<noteq> None \<longrightarrow> resolve tx [volBkt, v, volDependenciesBkt] \<noteq> None)"

section \<open>Example inputs\<close>

text \<open>
  A state attached to the namespace \<open>ns\<close> (none when \<open>ns\<close> is empty), whose collaborators
  always succeed: JSON values are fixed byte strings, every lock exists, the only OCI
  runtime is the default one.
\<close>

definition example_state :: "string \<Rightarrow> BoltState" where
  "example_state ns =
     \<lparr>namespace = ns, namespaceBytes = (if ns = [] then None else Some ns), dbOpens = True,
      RetrieveLock = (\<lambda>n. Some n), defaultOCIRuntime = ''runc'',
      ociRuntimes = (\<lambda>n. if n = ''runc'' then Some ''runc'' else None),
      json_Unmarshal_ctr = (\<lambda>b c. (True, c)), json_Unmarshal_pod = (\<lambda>b c. (True, c)),
      json_Unmarshal_vol = (\<lambda>b c. (True, c)),
      json_Marshal_config = (\<lambda>c. Some ''cfg''), json_Marshal_state = (\<lambda>c. Some ''st''),
      getNetNSPath = (\<lambda>c. [])\<rparr>"

text \<open>
  A container with the given ID, name, namespace, dependencies and named volumes, a pod
  with the given ID and namespace, and a volume object.
\<close>

definition example_ctr :: "string \<Rightarrow> string \<Rightarrow> string \<Rightarrow> string list \<Rightarrow> string list \<Rightarrow> Container" where
  "example_ctr i n ns deps vols =
     \<lparr>ctr_config = \<lparr>ctrID = i, ctrName = n, ctrNamespace = ns, ctrLockID = 0,
                    ctrOCIRuntime = [], ctrNamedVolumes = vols, ctrDependencies = deps\<rparr>,
      ctr_lock = None, ctr_ociRuntime = None, ctr_runtime = False, ctr_valid = False\<rparr>"

definition example_pod :: "string \<Rightarrow> string \<Rightarrow> Pod" where
  "example_pod i ns =
     \<lparr>pod_config = \<lparr>podID = i, podNamespace = ns, podLockID = 0\<rparr>,
      pod_lock = None, pod_runtime = False, pod_valid = False\<rparr>"

definition example_volume :: "string \<Rightarrow> Volume" where
  "example_volume n =
     \<lparr>vol_config = \<lparr>volName = n, volLockID = 0\<rparr>,
      vol_lock = None, vol_runtime = False, vol_valid = False\<rparr>"

text \<open>
  A database with the top-level buckets, a volume \<open>V\<close>, and two containers without a pod
  or a namespace: \<open>A\<close>, and \<open>B\<close>, which depends on \<open>A\<close> and uses \<open>V\<close>. It is the database
  after adding \<open>A\<close> and then \<open>B\<close> to the empty one.
\<close>

definition example_db_empty :: bucket where
  "example_db_empty =
     [(idRegistryBkt, Bkt []), (nameRegistryBkt, Bkt []), (nsRegistryBkt, Bkt []),
      (ctrBkt, Bkt []), (allCtrsBkt, Bkt []), (podBkt, Bkt []),
      (volBkt, Bkt [(''V'', Bkt [(configKey, Val ''vc''), (volDependenciesBkt, Bkt [])])])]"

definition example_db_A :: bucket where
  "example_db_A =
     [(idRegistryBkt, Bkt [(''A'', Val ''a'')]),
      (nameRegistryBkt, Bkt [(''a'', Val ''A'')]),
      (nsRegistryBkt, Bkt []),
      (ctrBkt,
       Bkt [(''A'', Bkt [(configKey, Val ''cfg''), (stateKey, Val ''st''),
                        (dependenciesBkt, Bkt [])])]),
      (allCtrsBkt, Bkt [(''A'', Val ''a'')]),
      (podBkt, Bkt []),
      (volBkt, Bkt [(''V'', Bkt [(configKey, Val ''vc''), (volDependenciesBkt, Bkt [])])])]"

definition example_db_AB :: bucket where
  "example_db_AB =
     [(idRegistryBkt, Bkt [(''A'', Val ''a''), (''B'', Val ''b'')]),
      (nameRegistryBkt, Bkt [(''a'', Val ''A''), (''b'', Val ''B'')]),
      (nsRegistryBkt, Bkt []),
      (ctrBkt,
       Bkt [(''A'', Bkt [(configKey, Val ''cfg''), (stateKey, Val ''st''),
                        (dependenciesBkt, Bkt [(''B'', Val ''b'')])]),
            (''B'', Bkt [(configKey, Val ''cfg''), (stateKey, Val ''st''),
                        (dependenciesBkt, Bkt [])])]),
      (allCtrsBkt, Bkt [(''A'', Val ''a''), (''B'', Val ''b'')]),
      (podBkt, Bkt []),
      (volBkt,
       Bkt [(''V'', Bkt [(configKey, Val ''vc''),
                        (volDependenciesBkt, Bkt [(''B'', Val ''B'')])])])]"

text \<open>
  A runtime configuration that leaves the run-root to the storage default, the storage
  defaults, and the runtime-config bucket that the first attach with them writes.
\<close>

definition example_runtime_config :: runtime_config where
  "example_runtime_config =
     \<lparr>StaticDir = ''/lib'', TmpDir = ''/tmp'', RunRoot = [], GraphRoot = ''/graph'',
      GraphDriverName = ''overlay'', VolumePath = ''/vol''\<rparr>"

definition example_store_options :: store_options where
  "example_store_options =
     \<lparr>optRunRoot = ''/run'', optGraphRoot = ''/var'', optGraphDriverName = ''vfs''\<rparr>"

definition example_config_bucket :: bucket where
  "example_config_bucket =
     [(osKey, Val ''linux''), (staticDirKey, Val ''/lib''), (tmpDirKey, Val ''/tmp''),
      (runRootKey, Val ''/run''), (graphRootKey, Val ''/graph''),
      (graphDriverKey, Val ''overlay''), (volPathKey, Val ''/vol'')]"

text \<open>
  A database with the pod \<open>P\<close> of namespace \<open>ns1\<close> and its member container \<open>A\<close>, and the
  buckets of the containers and of \<open>A\<close> in it.
\<close>

definition example_bucket_A_in_P :: bucket where
  "example_bucket_A_in_P =
     [(configKey, Val ''cfg''), (stateKey, Val ''st''), (namespaceKey, Val ''ns1''),
      (podIDKey, Val ''P''), (dependenciesBkt, Bkt [])]"

definition example_db_pod :: bucket where
  "example_db_pod =
     [(idRegistryBkt, Bkt [(''P'', Val ''p''), (''A'', Val ''a'')]),
      (nameRegistryBkt, Bkt [(''p'', Val ''P''), (''a'', Val ''A'')]),
      (nsRegistryBkt, Bkt [(''P'', Val ''ns1''), (''A'', Val ''ns1'')]),
      (ctrBkt, Bkt [(''A'', Bkt example_bucket_A_in_P)]),
      (allCtrsBkt, Bkt [(''A'', Val ''a'')]),
      (podBkt,
       Bkt [(''P'', Bkt [(configKey, Val ''pc''), (stateKey, Val ''ps''),
                        (namespaceKey, Val ''ns1''),
                        (containersBkt, Bkt [(''A'', Val ''a'')])])]),
      (volBkt, Bkt [])]"



text \<open>
  The database with the container \<open>A\<close> in which the bucket of the volume \<open>V\<close> has no
  \<open>vol-dependencies\<close> bucket.
\<close>

definition example_db_bare_volume :: bucket where
  "example_db_bare_volume =
     [(idRegistryBkt, Bkt [(''A'', Val ''a'')]),
      (nameRegistryBkt, Bkt [(''a'', Val ''A'')]),
      (nsRegistryBkt, Bkt []),
      (ctrBkt,
       Bkt [(''A'', Bkt [(configKey, Val ''cfg''), (stateKey, Val ''st''),
                        (dependenciesBkt, Bkt [])])]),
      (allCtrsBkt, Bkt [(''A'', Val ''a'')]),
      (podBkt, Bkt []),
      (volBkt, Bkt [(''V'', Bkt [(configKey, Val ''vc'')])])]"

text \<open>
  A database with two pods of namespace \<open>ns1\<close>, \<open>P\<close> with its member container \<open>A\<close> and
  the empty pod \<open>Q\<close>, and a container \<open>C\<close> of namespace \<open>ns1\<close> that is in no pod.
\<close>

definition example_db_two_pods :: bucket where
  "example_db_two_pods =
     [(idRegistryBkt, Bkt [(''P'', Val ''p''), (''Q'', Val ''q''), (''A'', Val ''a''),
                          (''C'', Val ''c'')]),
      (nameRegistryBkt, Bkt [(''p'', Val ''P''), (''q'', Val ''Q''), (''a'', Val ''A''),
                            (''c'', Val ''C'')]),
      (nsRegistryBkt, Bkt [(''P'', Val ''ns1''), (''Q'', Val ''ns1''), (''A'', Val ''ns1''),
                          (''C'', Val ''ns1'')]),
      (ctrBkt,
       Bkt [(''A'', Bkt example_bucket_A_in_P),
            (''C'', Bkt [(configKey, Val ''cfg''), (stateKey, Val ''st''),
                        (namespaceKey, Val ''ns1''), (dependenciesBkt, Bkt [])])]),
      (allCtrsBkt, Bkt [(''A'', Val ''a''), (''C'', Val ''c'')]),
      (podBkt,
       Bkt [(''P'', Bkt [(configKey, Val ''pc''), (stateKey, Val ''ps''),
                        (namespaceKey, Val ''ns1''),
                        (containersBkt, Bkt [(''A'', Val ''a'')])]),
            (''Q'', Bkt [(configKey, Val ''pc''), (stateKey, Val ''ps''),
                        (namespaceKey, Val ''ns1''), (containersBkt, Bkt [])])]),
      (volBkt, Bkt [])]"
section \<open>Properties of the engine model\<close>

lemma map_of_update: "map_of (AList.update k v al) k' = (if k' = k then Some v else map_of al k')"
  by (simp add: update_conv')

lemma map_of_delete: "map_of (AList.delete k al) k' = (if k' = k then None else map_of al k')"
  by (simp add: delete_conv')

lemma bkt_Bucket_update_Bkt:
  "bkt_Bucket (AList.update k (Bkt c) b) k' = (if k' = k then Some c else bkt_Bucket b k')"
  by (simp add: bkt_Bucket_def map_of_update)

lemma bkt_Get_update_Bkt:
  "bkt_Get (AList.update k (Bkt c) b) k' = (if k' = k then None else bkt_Get b k')"
  by (simp add: bkt_Get_def map_of_update)

lemma bkt_Get_update_Val:
  "bkt_Get (AList.update k (Val v) b) k' = (if k' = k then Some v else bkt_Get b k')"
  by (simp add: bkt_Get_def map_of_update)

lemma bkt_Bucket_update_Val:
  "bkt_Bucket (AList.update k (Val v) b) k' = (if k' = k then None else bkt_Bucket b k')"
  by (simp add: bkt_Bucket_def map_of_update)

section \<open>Runtime configuration validation: properties\<close>

lemma readOnlyValidateConfig_present:
  assumes "bkt_Get bucket (key c) = Some dbValue"
  shows "readOnlyValidateConfig bucket c =
     (if spec_values_match dbValue (runtimeValue c) (defaultValue c) then (True, None)
      else (True, Some (Error ErrDBBadConfig [name c, dbValue, name c, runtimeValue c])))"
  using assms by (auto simp: readOnlyValidateConfig_def spec_values_match_def)

lemma readOnlyValidateConfig_absent:
  "bkt_Get bucket (key c) = None \<Longrightarrow> readOnlyValidateConfig bucket c = (False, None)"
  by (simp add: readOnlyValidateConfig_def)

lemma validateChecks_Inr:
  "validateChecks b cs m = Inr r \<Longrightarrow>
     r = m @ filter (\<lambda>c. bkt_Get b (key c) = None) cs \<and>
     (\<forall>c\<in>set cs. snd (readOnlyValidateConfig b c) = None)"
proof (induction cs arbitrary: m)
  case Nil
  then show ?case by simp
next
  case (Cons c cs)
  show ?case
  proof (cases "bkt_Get b (key c)")
    case None
    with Cons.prems have "validateChecks b cs (m @ [c]) = Inr r"
      by (simp add: readOnlyValidateConfig_absent)
    from Cons.IH[OF this] None show ?thesis
      by (simp add: readOnlyValidateConfig_absent)
  next
    case (Some v)
    with Cons.prems have "validateChecks b cs m = Inr r \<and> snd (readOnlyValidateConfig b c) = None"
      by (auto simp: readOnlyValidateConfig_present split: if_splits)
    with Cons.IH[of m] Some show ?thesis
      by simp
  qed
qed


lemma validateChecks_total:
  "(\<forall>c\<in>set cs. snd (readOnlyValidateConfig b c) = None) \<Longrightarrow>
     validateChecks b cs m = Inr (m @ filter (\<lambda>c. bkt_Get b (key c) = None) cs)"
proof (induction cs arbitrary: m)
  case Nil
  then show ?case by simp
next
  case (Cons c cs)
  show ?case
  proof (cases "bkt_Get b (key c)")
    case None
    with Cons show ?thesis by (auto simp: readOnlyValidateConfig_absent)
  next
    case (Some v)
    with Cons show ?thesis
      by (auto simp: readOnlyValidateConfig_present split: if_splits)
  qed
qed



section \<open>Handles, wrapped calls and the engine operations: properties\<close>

lemma wrapf_Inr: "wrapf kind args r = Inr b' \<longleftrightarrow> r = Some (Inr b')"
  by (auto simp: wrapf_def split: option.splits sum.splits)

lemma wrapf_NilDeref: "wrapf kind args r = Inl NilDeref \<longleftrightarrow> r = None"
  by (auto simp: wrapf_def split: option.splits sum.splits)

lemma bindE_Inr: "bindE m f = Inr y \<longleftrightarrow> (\<exists>x. m = Inr x \<and> f x = Inr y)"
  by (cases m) (simp_all add: bindE_def)

lemma bindE_Inl: "bindE m f = Inl e \<longleftrightarrow> m = Inl e \<or> (\<exists>x. m = Inr x \<and> f x = Inl e)"
  by (cases m) (simp_all add: bindE_def)

lemma update_at_1:
  "update_at [a] f b = Some (Inr b') \<longleftrightarrow>
     (\<exists>c c'. bkt_Bucket b a = Some c \<and> f c = Inr c' \<and> b' = AList.update a (Bkt c') b)"
  by (auto split: option.splits sum.splits)

lemma update_at_2:
  "update_at [a, x] f b = Some (Inr b') \<longleftrightarrow>
     (\<exists>c d d'. bkt_Bucket b a = Some c \<and> bkt_Bucket c x = Some d \<and> f d = Inr d'
        \<and> b' = AList.update a (Bkt (AList.update x (Bkt d') c)) b)"
  by (auto split: option.splits sum.splits)

lemma update_at_3:
  "update_at [a, x, y] f b = Some (Inr b') \<longleftrightarrow>
     (\<exists>c d e e'. bkt_Bucket b a = Some c \<and> bkt_Bucket c x = Some d \<and> bkt_Bucket d y = Some e
        \<and> f e = Inr e'
        \<and> b' = AList.update a (Bkt (AList.update x (Bkt (AList.update y (Bkt e') d)) c)) b)"
  by (auto split: option.splits sum.splits)

lemma update_at_None: "update_at p f b = None \<longleftrightarrow> resolve b p = None"
proof (induction p arbitrary: b)
  case Nil
  show ?case by simp
next
  case (Cons a p)
  show ?case
  proof (cases "bkt_Bucket b a")
    case None
    then show ?thesis by simp
  next
    case (Some c)
    with Cons.IH[of c] show ?thesis
      by (cases "update_at p f c") (auto split: sum.splits)
  qed
qed

lemma bkt_Put_Inr:
  "bkt_Put k v b = Inr b' \<longleftrightarrow>
     k \<noteq> [] \<and> length k \<le> MaxKeySize \<and> length v \<le> MaxValueSize \<and> bkt_Bucket b k = None
     \<and> b' = AList.update k (Val v) b"
  by (auto simp: bkt_Put_def bkt_Bucket_def split: option.splits node.splits)

lemma bkt_Delete_Inr:
  "bkt_Delete k b = Inr b' \<longleftrightarrow>
     bkt_Bucket b k = None \<and> b' = (if map_of b k = None then b else AList.delete k b)"
  by (auto simp: bkt_Delete_def bkt_Bucket_def split: option.splits node.splits)

lemma bkt_CreateBucket_Inr:
  "bkt_CreateBucket k b = Inr b' \<longleftrightarrow>
     k \<noteq> [] \<and> map_of b k = None \<and> b' = AList.update k (Bkt []) b"
  by (auto simp: bkt_CreateBucket_def split: option.splits node.splits)

lemma bkt_DeleteBucket_Inr:
  "bkt_DeleteBucket k b = Inr b' \<longleftrightarrow> bkt_Bucket b k \<noteq> None \<and> b' = AList.delete k b"
  by (auto simp: bkt_DeleteBucket_def bkt_Bucket_def split: option.splits node.splits)

lemma bkt_Bucket_delete:
  "bkt_Bucket (AList.delete k b) k' = (if k' = k then None else bkt_Bucket b k')"
  by (simp add: bkt_Bucket_def map_of_delete)

lemma bkt_Get_delete:
  "bkt_Get (AList.delete k b) k' = (if k' = k then None else bkt_Get b k')"
  by (simp add: bkt_Get_def map_of_delete)

lemma bkt_Get_Bucket_excl: "bkt_Bucket b k = Some c \<Longrightarrow> bkt_Get b k = None"
  by (auto simp: bkt_Get_def bkt_Bucket_def split: option.splits node.splits)

lemma bkt_Bucket_Get_excl: "bkt_Get b k = Some v \<Longrightarrow> bkt_Bucket b k = None"
  by (auto simp: bkt_Get_def bkt_Bucket_def split: option.splits node.splits)

lemma update_Bkt_triv: "bkt_Bucket b k = Some c \<Longrightarrow> AList.update k (Bkt c) b = b"
  by (rule update_triv) (auto simp: bkt_Bucket_def split: option.splits node.splits)

section \<open>Hydration and concrete runs\<close>

text \<open>The definitions that evaluating the model on a concrete input unfolds.\<close>

lemmas eval_defs = addContainer_def example_state_def example_ctr_def example_pod_def
      db_Update_def addContainer_tx_def bindE_def getIDBucket_def getNamesBucket_def getNSBucket_def
      getCtrBucket_def getAllCtrsBucket_def getVolBucket_def getPodBucket_def addContainer_checkPod_def
      addContainer_create_def wrapf_def bkt_Put_def bkt_CreateBucket_def bkt_Bucket_def bkt_Get_def
      bkt_Delete_def bkt_DeleteBucket_def
      ctrNamespaceBytes_def addContainer_toPod_def MaxKeySize_def MaxValueSize_def
      addContainer_dep_def addContainer_depPod_def addContainer_vol_def bytes_Equal_def string_of_def
      removeContainer_def removeContainer_checkPod_def removeContainer_checkNS_def
      removeContainer_fromPod_def removeContainer_dep_def removeContainer_vol_def
      removeContainer_checkDeps_def removeContainer_delete_def bkt_ForEach_keys_def
      removeContainer_committed_def update_at.simps resolve.simps

lemma getVolumeFromDB_store: "snd (snd (getVolumeFromDB s nm volume volBucket)) = volBucket"
  by (simp add: getVolumeFromDB_def Let_def case_prod_beta split: option.split)

lemma getPodFromDB_store: "snd (snd (getPodFromDB s ident pod podBucket)) = podBucket"
  by (simp add: getPodFromDB_def Let_def case_prod_beta split: option.split)

lemma getContainerFromDB_store: "snd (snd (getContainerFromDB s ident ctr ctrsBkt)) = ctrsBkt"
  by (simp add: getContainerFromDB_def Let_def case_prod_beta split: option.split)

text \<open>
  Claim C8. Hydration never mutates the store: whatever the state, the ID or name, the
  caller's object and the bucket, and whether the call succeeds or fails, the bucket
  after \<open>getContainerFromDB\<close>, \<open>getPodFromDB\<close> or \<open>getVolumeFromDB\<close> is the bucket
  before the call.
\<close>

theorem hydration_never_mutates:
  "snd (snd (getContainerFromDB s ident ctr ctrsBkt)) = ctrsBkt
   \<and> snd (snd (getPodFromDB s ident pod podBucket)) = podBucket
   \<and> snd (snd (getVolumeFromDB s nm volume volBucket)) = volBucket"
  by (simp add: getVolumeFromDB_store getPodFromDB_store getContainerFromDB_store)

text \<open>
  A failing hydration (namespace mismatch of a container) and a succeeding one (a
  volume) leave their buckets as they were.
\<close>

theorem hydration_never_mutates_witness:
  "snd (snd (getContainerFromDB (example_state ''ns1'') ''A''
       (example_ctr ''A'' ''a'' [] [] []) [(''A'', Bkt [(configKey, Val ''cfg'')])]))
     = [(''A'', Bkt [(configKey, Val ''cfg'')])]
   \<and> fst (getContainerFromDB (example_state ''ns1'') ''A''
       (example_ctr ''A'' ''a'' [] [] []) [(''A'', Bkt [(configKey, Val ''cfg'')])])
     = Some (Error ErrNSMismatch [''A'', [], ''ns1''])
   \<and> snd (snd (getVolumeFromDB (example_state ''ns1'') ''V'' (example_volume ''V'')
       [(''V'', Bkt [(configKey, Val ''vc'')])])) = [(''V'', Bkt [(configKey, Val ''vc'')])]
   \<and> fst (getVolumeFromDB (example_state ''ns1'') ''V'' (example_volume ''V'')
       [(''V'', Bkt [(configKey, Val ''vc'')])]) = None"
  using hydration_never_mutates [where s = "example_state ''ns1''" and ident = "''A''"
      and ctr = "example_ctr ''A'' ''a'' [] [] []"
      and ctrsBkt = "[(''A'', Bkt [(configKey, Val ''cfg'')])]"
      and pod = "example_pod ''P'' []" and podBucket = "[]" and nm = "''V''"
      and volume = "example_volume ''V''"
      and volBucket = "[(''V'', Bkt [(configKey, Val ''vc'')])]"]
  by (simp add: getContainerFromDB_def getVolumeFromDB_def example_state_def example_ctr_def
      example_volume_def bkt_Bucket_def bkt_Get_def bytes_Equal_def string_of_def)

lemma getVolumeFromDB_namespace_irrelevant:
  "getVolumeFromDB (s\<lparr>namespace := n, namespaceBytes := nb\<rparr>) nm volume volBucket
     = getVolumeFromDB s nm volume volBucket"
  by (simp add: getVolumeFromDB_def Let_def case_prod_beta split: option.split)

lemma getVolumeFromDB_no_NSMismatch:
  "fst (getVolumeFromDB s nm volume volBucket) \<noteq> Some (Error ErrNSMismatch args)"
  by (simp add: getVolumeFromDB_def Let_def case_prod_beta split: option.split)

lemma getContainerFromDB_NSMismatch:
  assumes "namespaceBytes s = Some ns" "bkt_Bucket ctrsBkt ident = Some ctrDB"
    and "\<not> bytes_Equal (Some ns) (bkt_Get ctrDB namespaceKey)"
  shows "getContainerFromDB s ident ctr ctrsBkt =
     (Some (Error ErrNSMismatch [ident, string_of (bkt_Get ctrDB namespaceKey), namespace s]),
      ctr, ctrsBkt)"
  using assms by (simp add: getContainerFromDB_def)

lemma getPodFromDB_NSMismatch:
  assumes "namespaceBytes s = Some ns" "bkt_Bucket podBucket ident = Some podDB"
    and "\<not> bytes_Equal (Some ns) (bkt_Get podDB namespaceKey)"
  shows "getPodFromDB s ident pod podBucket =
     (Some (Error ErrNSMismatch [ident, string_of (bkt_Get podDB namespaceKey), namespace s]),
      pod, podBucket)"
  using assms by (simp add: getPodFromDB_def)

text \<open>
  Claim C9. Volume hydration performs no namespace check: the result of
  \<open>getVolumeFromDB\<close> is the same for any two namespaces of the state and is never a
  namespace-mismatch error, whereas \<open>getContainerFromDB\<close> and \<open>getPodFromDB\<close> of a
  namespace-scoped state reject an entity whose stored namespace differs from the
  state's.
\<close>

theorem getVolumeFromDB_no_namespace_check:
  "getVolumeFromDB (s\<lparr>namespace := n1, namespaceBytes := nb1\<rparr>) nm volume volBucket
     = getVolumeFromDB (s\<lparr>namespace := n2, namespaceBytes := nb2\<rparr>) nm volume volBucket
   \<and> (\<forall>args. fst (getVolumeFromDB s nm volume volBucket) \<noteq> Some (Error ErrNSMismatch args))
   \<and> (namespaceBytes s = Some ns \<and> bkt_Bucket ctrsBkt ident = Some ctrDB
        \<and> \<not> bytes_Equal (Some ns) (bkt_Get ctrDB namespaceKey) \<longrightarrow>
        getContainerFromDB s ident ctr ctrsBkt =
          (Some (Error ErrNSMismatch
             [ident, string_of (bkt_Get ctrDB namespaceKey), namespace s]), ctr, ctrsBkt))
   \<and> (namespaceBytes s = Some ns \<and> bkt_Bucket podBucket ident = Some podDB
        \<and> \<not> bytes_Equal (Some ns) (bkt_Get podDB namespaceKey) \<longrightarrow>
        getPodFromDB s ident pod podBucket =
          (Some (Error ErrNSMismatch
             [ident, string_of (bkt_Get podDB namespaceKey), namespace s]), pod, podBucket))"
  using getVolumeFromDB_namespace_irrelevant[where s = s and n = n1 and nb = nb1]
    getVolumeFromDB_namespace_irrelevant[where s = s and n = n2 and nb = nb2]
    getVolumeFromDB_no_NSMismatch[where s = s]
    getContainerFromDB_NSMismatch[where s = s and ns = ns and ctrDB = ctrDB]
    getPodFromDB_NSMismatch[where s = s and ns = ns and podDB = podDB]
  by simp

text \<open>
  In a state scoped to \<open>ns1\<close>, an entity stored with namespace \<open>ns2\<close> is rejected as a
  container and as a pod, and hydrated as a volume, with the result of the unscoped
  state.
\<close>

theorem getVolumeFromDB_no_namespace_check_witness:
  "namespaceBytes (example_state ''ns1'') = Some ''ns1''
   \<and> bkt_Bucket [(''X'', Bkt [(namespaceKey, Val ''ns2''), (configKey, Val ''cfg'')])] ''X''
       = Some [(namespaceKey, Val ''ns2''), (configKey, Val ''cfg'')]
   \<and> \<not> bytes_Equal (Some ''ns1'')
         (bkt_Get [(namespaceKey, Val ''ns2''), (configKey, Val ''cfg'')] namespaceKey)
   \<and> fst (getContainerFromDB (example_state ''ns1'') ''X'' (example_ctr ''X'' ''x'' ''ns2'' [] [])
         [(''X'', Bkt [(namespaceKey, Val ''ns2''), (configKey, Val ''cfg'')])])
       = Some (Error ErrNSMismatch [''X'', ''ns2'', ''ns1''])
   \<and> fst (getPodFromDB (example_state ''ns1'') ''X'' (example_pod ''X'' ''ns2'')
         [(''X'', Bkt [(namespaceKey, Val ''ns2''), (configKey, Val ''cfg'')])])
       = Some (Error ErrNSMismatch [''X'', ''ns2'', ''ns1''])
   \<and> fst (getVolumeFromDB (example_state ''ns1'') ''X'' (example_volume ''X'')
         [(''X'', Bkt [(namespaceKey, Val ''ns2''), (configKey, Val ''cfg'')])]) = None
   \<and> getVolumeFromDB (example_state ''ns1'') ''X'' (example_volume ''X'')
         [(''X'', Bkt [(namespaceKey, Val ''ns2''), (configKey, Val ''cfg'')])]
       = getVolumeFromDB (example_state []) ''X'' (example_volume ''X'')
         [(''X'', Bkt [(namespaceKey, Val ''ns2''), (configKey, Val ''cfg'')])]"
  using getVolumeFromDB_no_namespace_check
    [where s = "example_state ''ns1''" and ?n1.0 = "''ns1''" and ?nb1.0 = "Some ''ns1''"
        and nm = "''X''" and volume = "example_volume ''X''"
        and volBucket = "[(''X'', Bkt [(namespaceKey, Val ''ns2''), (configKey, Val ''cfg'')])]"
        and ?n2.0 = "[]" and ?nb2.0 = None and ns = "''ns1''"
        and ctrsBkt = "[(''X'', Bkt [(namespaceKey, Val ''ns2''), (configKey, Val ''cfg'')])]"
        and ident = "''X''" and ctrDB = "[(namespaceKey, Val ''ns2''), (configKey, Val ''cfg'')]"
        and ctr = "example_ctr ''X'' ''x'' ''ns2'' [] []"
        and podBucket = "[(''X'', Bkt [(namespaceKey, Val ''ns2''), (configKey, Val ''cfg'')])]"
        and podDB = "[(namespaceKey, Val ''ns2''), (configKey, Val ''cfg'')]"
        and pod = "example_pod ''X'' ''ns2''"]
  by (simp add: getVolumeFromDB_def example_state_def example_volume_def example_ctr_def example_pod_def
      bkt_Bucket_def bkt_Get_def bytes_Equal_def string_of_def)

text \<open>
  Claim C1 at a concrete input (the claim fails on the code). Adding container \<open>B\<close>,
  which references volume \<open>V\<close>, records \<open>B\<close> in the \<open>vol-dependencies\<close> of \<open>V\<close>.
  Removing \<open>B\<close> succeeds and deletes its bucket, but the entry of \<open>B\<close> in the
  \<open>vol-dependencies\<close> of \<open>V\<close> is still there: the source deletes the entry only when
  \<^verbatim>\<open>Get\<close> returned nil, that is when there is nothing to delete.
\<close>

theorem removeContainer_leaves_volume_dependency:
  "addContainer (example_state []) (example_ctr ''B'' ''b'' [] [''A''] [''V'']) None example_db_A
     = (None, example_db_AB)
   \<and> (case resolve example_db_AB [volBkt, ''V'', volDependenciesBkt] of
         None \<Rightarrow> False | Some deps \<Rightarrow> bkt_Get deps ''B'' = Some ''B'')
   \<and> (case removeContainer_committed (example_state [])
            (example_ctr ''B'' ''b'' [] [''A''] [''V'']) None example_db_AB of
         (err, db') \<Rightarrow>
           err = None
           \<and> resolve db' [ctrBkt, ''B''] = None
           \<and> (case resolve db' [volBkt, ''V'', volDependenciesBkt] of
                 None \<Rightarrow> False | Some deps \<Rightarrow> bkt_Get deps ''B'' = Some ''B''))"
  by (simp add: eval_defs example_db_AB_def example_db_A_def)

text \<open>
  Claim C5 as stated fails: adding a container of namespace \<open>ns2\<close> that depends on
  container \<open>A\<close>, stored without a namespace, fails with the namespace-mismatch error
  kind, not with invalid-argument.
\<close>

theorem addContainer_dependency_namespace_counterexample:
  "addContainer (example_state []) (example_ctr ''C'' ''c'' ''ns2'' [''A''] []) None example_db_A
     = (Some (Error ErrNSMismatch [''C'', ''ns2'', ''A'', []]), example_db_A)
   \<and> (\<forall>args. fst (addContainer (example_state []) (example_ctr ''C'' ''c'' ''ns2'' [''A''] [])
          None example_db_A) \<noteq> Some (Error ErrInvalidArg args))"
  by (simp add: eval_defs example_db_A_def)

section \<open>Populating the runtime configuration\<close>

lemma checks_keys:
  "map key (checks goos cfg storeOpts) =
     [osKey, staticDirKey, tmpDirKey, runRootKey, graphRootKey, graphDriverKey, volPathKey]"
  by (simp add: checks_def)

lemma checks_distinct: "distinct (map key (checks goos cfg storeOpts))"
  unfolding checks_keys by simp

lemma checks_key_ok:
  assumes "c \<in> set (checks goos cfg storeOpts)"
  shows "key c \<noteq> [] \<and> length (key c) \<le> MaxKeySize"
proof -
  from assms have "key c \<in> set (map key (checks goos cfg storeOpts))" by simp
  then show ?thesis unfolding checks_keys by (auto simp: MaxKeySize_def)
qed

lemma putMissing_step:
  assumes "bkt_Bucket tx runtimeConfigBkt = Some b" "k \<noteq> []" "length k \<le> MaxKeySize"
    "length v \<le> MaxValueSize" "bkt_Bucket b k = None"
  shows "wrapf ErrBolt args (update_at [runtimeConfigBkt] (bkt_Put k v) tx)
     = Inr (AList.update runtimeConfigBkt (Bkt (AList.update k (Val v) b)) tx)"
proof -
  have "bkt_Put k v b = Inr (AList.update k (Val v) b)"
    using assms by (simp add: bkt_Put_Inr)
  then show ?thesis using assms(1) by (simp add: wrapf_def)
qed

lemma putMissing_ok:
  assumes "bkt_Bucket tx runtimeConfigBkt = Some b"
    and "\<forall>m\<in>set ms. key m \<noteq> [] \<and> length (key m) \<le> MaxKeySize
           \<and> length (runtimeValue m) \<le> MaxValueSize \<and> length (defaultValue m) \<le> MaxValueSize
           \<and> bkt_Bucket b (key m) = None"
    and "distinct (map key ms)"
  shows "\<exists>tx' b'. putMissing ms tx = Inr tx' \<and> bkt_Bucket tx' runtimeConfigBkt = Some b'
     \<and> (\<forall>m\<in>set ms. bkt_Get b' (key m)
            = Some (if runtimeValue m = [] then defaultValue m else runtimeValue m))
     \<and> (\<forall>k. k \<notin> key ` set ms \<longrightarrow> map_of b' k = map_of b k)"
  using assms
proof (induction ms arbitrary: tx b)
  case Nil
  then show ?case by simp
next
  case (Cons m ms)
  let ?v = "if runtimeValue m = [] \<and> defaultValue m \<noteq> [] then defaultValue m else runtimeValue m"
  let ?b1 = "AList.update (key m) (Val ?v) b"
  let ?tx1 = "AList.update runtimeConfigBkt (Bkt ?b1) tx"
  have lenv: "length ?v \<le> MaxValueSize" using Cons.prems(2) by simp
  have step: "wrapf ErrBolt [name m] (update_at [runtimeConfigBkt] (bkt_Put (key m) ?v) tx) = Inr ?tx1"
    using Cons.prems(1,2) lenv by (intro putMissing_step) simp_all
  have b1: "bkt_Bucket ?tx1 runtimeConfigBkt = Some ?b1"
    by (simp add: bkt_Bucket_update_Bkt)
  have pre: "\<forall>m'\<in>set ms. key m' \<noteq> [] \<and> length (key m') \<le> MaxKeySize
           \<and> length (runtimeValue m') \<le> MaxValueSize \<and> length (defaultValue m') \<le> MaxValueSize
           \<and> bkt_Bucket ?b1 (key m') = None"
    using Cons.prems(2,3) by (auto simp: bkt_Bucket_update_Val)
  have dist: "distinct (map key ms)" using Cons.prems(3) by simp
  from Cons.IH[OF b1 pre dist] obtain tx' b' where
    r: "putMissing ms ?tx1 = Inr tx'" "bkt_Bucket tx' runtimeConfigBkt = Some b'"
      "\<forall>m'\<in>set ms. bkt_Get b' (key m')
            = Some (if runtimeValue m' = [] then defaultValue m' else runtimeValue m')"
      "\<forall>k. k \<notin> key ` set ms \<longrightarrow> map_of b' k = map_of ?b1 k"
    by blast
  have notin: "key m \<notin> key ` set ms" using Cons.prems(3) by auto
  with r(4) have "map_of b' (key m) = map_of ?b1 (key m)" by blast
  then have gm: "bkt_Get b' (key m) = Some ?v"
    by (simp add: bkt_Get_def map_of_update)
  have gm': "bkt_Get b' (key m) = Some (if runtimeValue m = [] then defaultValue m else runtimeValue m)"
    using gm by (auto split: if_splits)
  have put: "putMissing (m # ms) tx = Inr tx'"
    using step r(1) by (simp add: Let_def)
  have frame: "\<forall>k. k \<notin> key ` set (m # ms) \<longrightarrow> map_of b' k = map_of b k"
    using r(4) by (auto simp: map_of_update)
  from put r(2) gm' r(3) frame show ?case by auto
qed


lemma checkRuntimeConfig_error_keeps_db:
  "fst (checkRuntimeConfig r goos cfg db) \<noteq> None \<Longrightarrow> snd (checkRuntimeConfig r goos cfg db) = db"
  by (auto simp: checkRuntimeConfig_def db_Update_def split: sum.splits if_splits)

text \<open>
  Claim C7. Let the runtime-config bucket exist. When no field is missing,
  \<open>checkRuntimeConfig\<close> leaves the database as it was (as it does whenever it returns an
  error). When every field that is present matches (and no field's key is bound to a
  nested bucket, and the values fit the engine's size limit), it succeeds, and afterwards
  every field that was missing holds the runtime value, or the default when the runtime
  value is empty, while every field that was present holds what it held.
\<close>

theorem checkRuntimeConfig_populates_missing:
  assumes "bkt_Bucket db runtimeConfigBkt = Some cfgB"
  shows "((\<forall>c\<in>set (checks goos cfg storeOpts). bkt_Get cfgB (key c) \<noteq> None) \<longrightarrow>
            snd (checkRuntimeConfig (Inr storeOpts) goos cfg db) = db)
       \<and> (fst (checkRuntimeConfig (Inr storeOpts) goos cfg db) \<noteq> None \<longrightarrow>
            snd (checkRuntimeConfig (Inr storeOpts) goos cfg db) = db)
       \<and> ((\<forall>c\<in>set (checks goos cfg storeOpts).
               snd (readOnlyValidateConfig cfgB c) = None
               \<and> bkt_Bucket cfgB (key c) = None
               \<and> length (runtimeValue c) \<le> MaxValueSize
               \<and> length (defaultValue c) \<le> MaxValueSize) \<longrightarrow>
            (\<exists>db' cfgB'.
               checkRuntimeConfig (Inr storeOpts) goos cfg db = (None, db')
               \<and> bkt_Bucket db' runtimeConfigBkt = Some cfgB'
               \<and> (\<forall>c\<in>set (checks goos cfg storeOpts).
                     bkt_Get cfgB' (key c) =
                       (case bkt_Get cfgB (key c) of
                          None \<Rightarrow> Some (if runtimeValue c = [] then defaultValue c
                                        else runtimeValue c)
                        | Some v \<Rightarrow> Some v))))"
proof (intro conjI impI)
  let ?cs = "checks goos cfg storeOpts"
  let ?missing = "filter (\<lambda>c. bkt_Get cfgB (key c) = None) ?cs"
  show "fst (checkRuntimeConfig (Inr storeOpts) goos cfg db) \<noteq> None \<Longrightarrow>
      snd (checkRuntimeConfig (Inr storeOpts) goos cfg db) = db"
    by (rule checkRuntimeConfig_error_keeps_db)
  {
    assume nomiss: "\<forall>c\<in>set ?cs. bkt_Get cfgB (key c) \<noteq> None"
    show "snd (checkRuntimeConfig (Inr storeOpts) goos cfg db) = db"
    proof (cases "validateChecks cfgB ?cs []")
      case (Inl e)
      then show ?thesis using assms
        by (simp add: checkRuntimeConfig_def db_View_def validateReadOnly_def
            getRuntimeConfigBucket_def)
    next
      case (Inr r)
      from validateChecks_Inr[OF this] nomiss have "r = []"
        by (simp add: filter_empty_conv)
      with Inr show ?thesis using assms
        by (simp add: checkRuntimeConfig_def db_View_def validateReadOnly_def
            getRuntimeConfigBucket_def)
    qed
  }
  {
    assume h: "\<forall>c\<in>set ?cs. snd (readOnlyValidateConfig cfgB c) = None
               \<and> bkt_Bucket cfgB (key c) = None
               \<and> length (runtimeValue c) \<le> MaxValueSize
               \<and> length (defaultValue c) \<le> MaxValueSize"
    then have val: "validateChecks cfgB ?cs [] = Inr ?missing"
      using validateChecks_total[of ?cs cfgB "[]"] by simp
    have pre: "\<forall>m\<in>set ?missing. key m \<noteq> [] \<and> length (key m) \<le> MaxKeySize
           \<and> length (runtimeValue m) \<le> MaxValueSize \<and> length (defaultValue m) \<le> MaxValueSize
           \<and> bkt_Bucket cfgB (key m) = None"
      using h checks_key_ok[of _ goos cfg storeOpts] by auto
    have dist: "distinct (map key ?missing)"
      using checks_distinct[of goos cfg storeOpts] by (rule distinct_map_filter)
    from putMissing_ok[OF assms pre dist] obtain tx' b' where
      r: "putMissing ?missing db = Inr tx'" "bkt_Bucket tx' runtimeConfigBkt = Some b'"
        "\<forall>m\<in>set ?missing. bkt_Get b' (key m)
              = Some (if runtimeValue m = [] then defaultValue m else runtimeValue m)"
        "\<forall>k. k \<notin> key ` set ?missing \<longrightarrow> map_of b' k = map_of cfgB k"
      by blast
    show "\<exists>db' cfgB'.
               checkRuntimeConfig (Inr storeOpts) goos cfg db = (None, db')
               \<and> bkt_Bucket db' runtimeConfigBkt = Some cfgB'
               \<and> (\<forall>c\<in>set ?cs.
                     bkt_Get cfgB' (key c) =
                       (case bkt_Get cfgB (key c) of
                          None \<Rightarrow> Some (if runtimeValue c = [] then defaultValue c
                                        else runtimeValue c)
                        | Some v \<Rightarrow> Some v))"
    proof (cases "?missing = []")
      case True
      then have "checkRuntimeConfig (Inr storeOpts) goos cfg db = (None, db)"
        using val assms
        by (simp add: checkRuntimeConfig_def db_View_def validateReadOnly_def
            getRuntimeConfigBucket_def)
      moreover have "\<forall>c\<in>set ?cs. bkt_Get cfgB (key c) \<noteq> None"
        using True by (simp add: filter_empty_conv)
      ultimately show ?thesis using assms by auto
    next
      case False
      then have res: "checkRuntimeConfig (Inr storeOpts) goos cfg db = (None, tx')"
        using val assms r(1)
        by (simp add: checkRuntimeConfig_def db_View_def validateReadOnly_def
            getRuntimeConfigBucket_def db_Update_def populateMissing_def)
      have "\<forall>c\<in>set ?cs. bkt_Get b' (key c) =
                       (case bkt_Get cfgB (key c) of
                          None \<Rightarrow> Some (if runtimeValue c = [] then defaultValue c
                                        else runtimeValue c)
                        | Some v \<Rightarrow> Some v)"
      proof
        fix c assume c: "c \<in> set ?cs"
        show "bkt_Get b' (key c) =
                       (case bkt_Get cfgB (key c) of
                          None \<Rightarrow> Some (if runtimeValue c = [] then defaultValue c
                                        else runtimeValue c)
                        | Some v \<Rightarrow> Some v)"
        proof (cases "bkt_Get cfgB (key c)")
          case None
          with c have "c \<in> set ?missing" by simp
          with r(3) None show ?thesis by simp
        next
          case (Some v)
          have "key c \<notin> key ` set ?missing"
          proof
            assume "key c \<in> key ` set ?missing"
            then obtain m where m: "m \<in> set ?cs" "bkt_Get cfgB (key m) = None" "key m = key c"
              by auto
            with Some show False by simp
          qed
          with r(4) have "map_of b' (key c) = map_of cfgB (key c)" by blast
          then have "bkt_Get b' (key c) = bkt_Get cfgB (key c)" by (simp add: bkt_Get_def)
          with Some show ?thesis by simp
        qed
      qed
      with res r(2) show ?thesis by blast
    qed
  }
qed


text \<open>
  The first attach to an empty runtime-config bucket writes all seven fields (the
  run-root from the default); a second attach finds no field missing and writes nothing.
\<close>

theorem checkRuntimeConfig_populates_missing_witness:
  "bkt_Bucket [(runtimeConfigBkt, Bkt [])] runtimeConfigBkt = Some []
   \<and> list_all (\<lambda>c. snd (readOnlyValidateConfig [] c) = None
               \<and> bkt_Bucket [] (key c) = None
               \<and> length (runtimeValue c) \<le> MaxValueSize
               \<and> length (defaultValue c) \<le> MaxValueSize)
        (checks ''linux'' example_runtime_config example_store_options)
   \<and> checkRuntimeConfig (Inr example_store_options) ''linux'' example_runtime_config
        [(runtimeConfigBkt, Bkt [])] = (None, [(runtimeConfigBkt, Bkt example_config_bucket)])
   \<and> checkRuntimeConfig (Inr example_store_options) ''linux'' example_runtime_config
        [(runtimeConfigBkt, Bkt example_config_bucket)]
       = (None, [(runtimeConfigBkt, Bkt example_config_bucket)])"
  using checkRuntimeConfig_populates_missing
    [where db = "[(runtimeConfigBkt, Bkt [])]" and cfgB = "[]" and goos = "''linux''"
       and cfg = example_runtime_config and storeOpts = example_store_options]
  by (simp add: checkRuntimeConfig_def db_View_def db_Update_def validateReadOnly_def
      populateMissing_def getRuntimeConfigBucket_def checks_def readOnlyValidateConfig_def
      example_runtime_config_def example_store_options_def example_config_bucket_def
      wrapf_def bkt_Put_def bkt_Bucket_def bkt_Get_def MaxKeySize_def MaxValueSize_def)

section \<open>The frame of a write\<close>

text \<open>
  A write that touches the path \<open>w\<close> leaves alone whatever does not lie below \<open>w\<close>: a
  bucket exists at \<open>q\<close> after the write iff it did before, unless \<open>w\<close> is a prefix of
  \<open>q\<close>; it is the same bucket when moreover \<open>q\<close> is not a prefix of \<open>w\<close>; and
  \<^verbatim>\<open>Get\<close> of the key \<open>j\<close> through the handle \<open>q\<close> returns what it did, unless \<open>w\<close> is a
  prefix of \<open>q @ [j]\<close>.
\<close>

lemma update_at_Cons_Inr:
  "update_at (a # ks) f tx = Some (Inr tx') \<longleftrightarrow>
     (\<exists>c c'. bkt_Bucket tx a = Some c \<and> update_at ks f c = Some (Inr c')
        \<and> tx' = AList.update a (Bkt c') tx)"
  by (auto split: option.splits sum.splits)

lemma resolve_Cons_update:
  "resolve (AList.update a (Bkt c') tx) (j # qs) = (if j = a then resolve c' qs else resolve tx (j # qs))"
  by (simp add: bkt_Bucket_update_Bkt)

lemma frame_exists_update_at:
  assumes "update_at p f tx = Some (Inr tx')" "touches_only f k" "\<not> prefix (p @ [k]) q"
  shows "(resolve tx' q = None) = (resolve tx q = None)"
  using assms
proof (induction p arbitrary: tx tx' q)
  case Nil
  show ?case
  proof (cases q)
    case Nil
    then show ?thesis by simp
  next
    case (Cons j qs)
    with Nil.prems have "j \<noteq> k" by simp
    moreover from Nil.prems have "f tx = Inr tx'" by simp
    ultimately have "map_of tx' j = map_of tx j"
      using Nil.prems(2) by (simp add: touches_only_def)
    then show ?thesis using Cons by (simp add: bkt_Bucket_def)
  qed
next
  case (Cons a ks)
  from Cons.prems(1) obtain c c' where
    c: "bkt_Bucket tx a = Some c" "update_at ks f c = Some (Inr c')"
       "tx' = AList.update a (Bkt c') tx"
    by (auto simp: update_at_Cons_Inr simp del: update_at.simps)
  show ?case
  proof (cases q)
    case Nil
    then show ?thesis by simp
  next
    case q: (Cons j qs)
    show ?thesis
    proof (cases "j = a")
      case True
      with Cons.prems(3) q have "\<not> prefix (ks @ [k]) qs" by simp
      from Cons.IH[OF c(2) Cons.prems(2) this] show ?thesis
        using c q True by (simp add: bkt_Bucket_update_Bkt)
    next
      case False
      then show ?thesis using c q by (simp add: bkt_Bucket_update_Bkt)
    qed
  qed
qed


lemma frame_get_update_at:
  assumes "update_at p f tx = Some (Inr tx')" "touches_only f k" "\<not> prefix (p @ [k]) (q @ [j])"
  shows "get_at tx' q j = get_at tx q j"
  using assms
proof (induction p arbitrary: tx tx' q)
  case Nil
  from Nil.prems have f: "f tx = Inr tx'" by simp
  show ?case
  proof (cases q)
    case Nil
    with Nil.prems(3) have "j \<noteq> k" by simp
    with f Nil.prems(2) have "map_of tx' j = map_of tx j" by (simp add: touches_only_def)
    then show ?thesis using Nil by (simp add: get_at_def bkt_Get_def)
  next
    case (Cons i qs)
    with Nil.prems(3) have "i \<noteq> k" by simp
    with f Nil.prems(2) have "map_of tx' i = map_of tx i" by (simp add: touches_only_def)
    then show ?thesis using Cons by (simp add: get_at_def bkt_Bucket_def)
  qed
next
  case (Cons a ks)
  from Cons.prems(1) obtain c c' where
    c: "bkt_Bucket tx a = Some c" "update_at ks f c = Some (Inr c')"
       "tx' = AList.update a (Bkt c') tx"
    by (auto simp: update_at_Cons_Inr simp del: update_at.simps)
  show ?case
  proof (cases q)
    case Nil
    then show ?thesis using c
      by (auto simp: get_at_def bkt_Get_update_Bkt bkt_Get_Bucket_excl)
  next
    case q: (Cons i qs)
    show ?thesis
    proof (cases "i = a")
      case True
      with Cons.prems(3) q have "\<not> prefix (ks @ [k]) (qs @ [j])" by simp
      from Cons.IH[OF c(2) Cons.prems(2) this] show ?thesis
        using c q True by (simp add: get_at_def bkt_Bucket_update_Bkt)
    next
      case False
      then show ?thesis using c q by (simp add: get_at_def bkt_Bucket_update_Bkt)
    qed
  qed
qed

lemma touchE:
  assumes "touch w tx tx'"
  obtains p k f where "w = p @ [k]" "touches_only f k" "update_at p f tx = Some (Inr tx')"
  using assms unfolding touch_def by blast

lemma touch_exists:
  assumes "touch w tx tx'" "\<not> prefix w q"
  shows "(resolve tx' q = None) = (resolve tx q = None)"
proof -
  from assms(1) obtain p k f where
    h: "w = p @ [k]" "touches_only f k" "update_at p f tx = Some (Inr tx')"
    by (rule touchE)
  from assms(2) h(1) have "\<not> prefix (p @ [k]) q" by simp
  from frame_exists_update_at[OF h(3) h(2) this] show ?thesis .
qed


lemma touch_get:
  assumes "touch w tx tx'" "\<not> prefix w (q @ [j])"
  shows "get_at tx' q j = get_at tx q j"
proof -
  from assms(1) obtain p k f where
    h: "w = p @ [k]" "touches_only f k" "update_at p f tx = Some (Inr tx')"
    by (rule touchE)
  from assms(2) h(1) have "\<not> prefix (p @ [k]) (q @ [j])" by simp
  from frame_get_update_at[OF h(3) h(2) this] show ?thesis .
qed

lemma writes_exists:
  assumes "rtranclp (writes W) tx tx'" "\<forall>w\<in>W. \<not> prefix w q"
  shows "(resolve tx' q = None) = (resolve tx q = None)"
  using assms(1)
proof (induction rule: rtranclp_induct)
  case base
  show ?case by simp
next
  case (step y z)
  from step.hyps(2) obtain w where w: "w \<in> W" "touch w y z"
    unfolding writes_def by blast
  from w(1) assms(2) have "\<not> prefix w q" by simp
  from touch_exists[OF w(2) this] step.IH show ?case by simp
qed


lemma writes_get:
  assumes "rtranclp (writes W) tx tx'" "\<forall>w\<in>W. \<not> prefix w (q @ [j])"
  shows "get_at tx' q j = get_at tx q j"
  using assms(1)
proof (induction rule: rtranclp_induct)
  case base
  show ?case by simp
next
  case (step y z)
  from step.hyps(2) obtain w where w: "w \<in> W" "touch w y z"
    unfolding writes_def by blast
  from w(1) assms(2) have "\<not> prefix w (q @ [j])" by simp
  from touch_get[OF w(2) this] step.IH show ?case by simp
qed

section \<open>What adding and removing a container may write\<close>

text \<open>
  From here on a write through a handle is reasoned about by what it touches, not by
  unfolding it.
\<close>

declare update_at.simps [simp del]

lemma touches_Put: "touches_only (bkt_Put k v) k"
  by (auto simp: touches_only_def bkt_Put_Inr map_of_update)

lemma touches_Delete: "touches_only (bkt_Delete k) k"
  by (auto simp: touches_only_def bkt_Delete_Inr map_of_delete)

lemma touches_CreateBucket: "touches_only (bkt_CreateBucket k) k"
  by (auto simp: touches_only_def bkt_CreateBucket_Inr map_of_update)

lemma touches_DeleteBucket: "touches_only (bkt_DeleteBucket k) k"
  by (auto simp: touches_only_def bkt_DeleteBucket_Inr map_of_delete)

lemma wrapf_write:
  assumes "wrapf kind args (update_at p f t) = Inr t'" "touches_only f k" "p @ [k] \<in> W"
  shows "writes W t t'"
proof -
  from assms(1) have "update_at p f t = Some (Inr t')" by (simp add: wrapf_Inr)
  with assms(2) have "touch (p @ [k]) t t'" unfolding touch_def by blast
  with assms(3) show ?thesis unfolding writes_def by blast
qed

lemma writes_onlyI:
  "(\<And>t t'. ph t = Inr t' \<Longrightarrow> rtranclp (writes W) t t') \<Longrightarrow> writes_only W ph"
  by (simp add: writes_only_def)

lemma writes_onlyD: "writes_only W ph \<Longrightarrow> ph t = Inr t' \<Longrightarrow> rtranclp (writes W) t t'"
  by (simp add: writes_only_def)

lemma wo_write:
  "touches_only f k \<Longrightarrow> p @ [k] \<in> W \<Longrightarrow> writes_only W (\<lambda>t. wrapf kind args (update_at p f t))"
  by (rule writes_onlyI) (blast intro: wrapf_write)

lemma wo_ret: "writes_only W (\<lambda>t. Inr t)"
  by (rule writes_onlyI) simp

lemma wo_bind:
  assumes "writes_only W ph1" "writes_only W ph2"
  shows "writes_only W (\<lambda>t. bindE (ph1 t) ph2)"
proof (rule writes_onlyI)
  fix t t' assume "bindE (ph1 t) ph2 = Inr t'"
  then obtain x where x: "ph1 t = Inr x" "ph2 x = Inr t'" by (auto simp: bindE_Inr)
  from writes_onlyD[OF assms(1) x(1)] writes_onlyD[OF assms(2) x(2)]
  show "rtranclp (writes W) t t'" by (rule rtranclp_trans)
qed

lemma wo_case_option:
  assumes "writes_only W ph1" "\<And>y. writes_only W (ph2 y)"
  shows "writes_only W (\<lambda>t. case x of None \<Rightarrow> ph1 t | Some y \<Rightarrow> ph2 y t)"
  using assms by (cases x) simp_all

lemma wo_if:
  assumes "writes_only W ph1" "writes_only W ph2"
  shows "writes_only W (\<lambda>t. if c then ph1 t else ph2 t)"
  using assms by (cases c) simp_all

lemma writes_mono: "W \<subseteq> W' \<Longrightarrow> rtranclp (writes W) t t' \<Longrightarrow> rtranclp (writes W') t t'"
proof -
  assume a: "W \<subseteq> W'" "rtranclp (writes W) t t'"
  have "writes W x y \<Longrightarrow> writes W' x y" for x y
    using a(1) unfolding writes_def by blast
  then have "writes W \<le> writes W'" by (rule predicate2I)
  then have "rtranclp (writes W) \<le> rtranclp (writes W')" by (rule rtranclp_mono)
  with a(2) show ?thesis by (rule predicate2D[rotated])
qed

lemma wo_mono: "writes_only W ph \<Longrightarrow> W \<subseteq> W' \<Longrightarrow> writes_only W' ph"
  by (rule writes_onlyI) (blast intro: writes_mono dest: writes_onlyD)

lemma addContainer_create_writes:
  "writes_only
     ({[idRegistryBkt, ctr_ID ctr], [nameRegistryBkt, ctr_Name ctr],
       [nsRegistryBkt, ctr_ID ctr], [allCtrsBkt, ctr_ID ctr]}
      \<union> {w. prefix [ctrBkt, ctr_ID ctr] w})
     (addContainer_create ctr pod cj sj nn)"
  unfolding addContainer_create_def
  by (intro wo_bind wo_case_option wo_if wo_ret wo_write[OF touches_Put]
      wo_write[OF touches_CreateBucket]) simp_all


lemma writes_r_into: "writes W t t' \<Longrightarrow> rtranclp (writes W) t t'"
  by (rule r_into_rtranclp)

lemma addContainer_dep_writes:
  "writes_only {[ctrBkt, d, dependenciesBkt, ctr_ID ctr]} (addContainer_dep ctr pod d)"
proof (rule writes_onlyI)
  fix t t' assume "addContainer_dep ctr pod d t = Inr t'"
  then have "wrapf ErrBolt [ctr_ID ctr, d]
      (update_at [ctrBkt, d, dependenciesBkt] (bkt_Put (ctr_ID ctr) (ctr_Name ctr)) t) = Inr t'"
    by (simp add: addContainer_dep_def split: option.splits if_splits)
  then have "writes {[ctrBkt, d, dependenciesBkt, ctr_ID ctr]} t t'"
    by (rule wrapf_write[OF _ touches_Put]) simp
  then show "rtranclp (writes {[ctrBkt, d, dependenciesBkt, ctr_ID ctr]}) t t'"
    by (rule writes_r_into)
qed

lemma addContainer_deps_writes:
  "writes_only {[ctrBkt, d, dependenciesBkt, ctr_ID ctr] | d. True} (addContainer_deps ctr pod ds)"
proof (induction ds)
  case Nil
  show ?case by (rule writes_onlyI) simp
next
  case (Cons d ds)
  let ?W = "{[ctrBkt, d, dependenciesBkt, ctr_ID ctr] | d. True}"
  have one: "writes_only ?W (addContainer_dep ctr pod d)"
    by (rule wo_mono[OF addContainer_dep_writes]) blast
  show ?case
  proof (rule writes_onlyI)
    fix t t' assume "addContainer_deps ctr pod (d # ds) t = Inr t'"
    then obtain t1 where t1: "addContainer_dep ctr pod d t = Inr t1"
        "addContainer_deps ctr pod ds t1 = Inr t'"
      by (auto split: sum.splits)
    from writes_onlyD[OF one t1(1)] writes_onlyD[OF Cons.IH t1(2)]
    show "rtranclp (writes ?W) t t'" by (rule rtranclp_trans)
  qed
qed

lemma addContainer_toPod_writes:
  "writes_only {[podBkt, p, containersBkt, ctr_ID ctr] | p. True} (addContainer_toPod ctr pod)"
proof (rule writes_onlyI)
  let ?W = "{[podBkt, p, containersBkt, ctr_ID ctr] | p. True}"
  fix t t' assume a: "addContainer_toPod ctr pod t = Inr t'"
  show "rtranclp (writes ?W) t t'"
  proof (cases pod)
    case None
    with a show ?thesis by (simp add: addContainer_toPod_def)
  next
    case (Some p)
    show ?thesis
    proof (cases "resolve t [podBkt, pod_ID p, containersBkt]")
      case None
      with a Some show ?thesis by (simp add: addContainer_toPod_def)
    next
      case (Some podCtrs)
      with a \<open>pod = Some p\<close> have "wrapf ErrBolt [ctr_ID ctr, pod_ID p]
          (update_at [podBkt, pod_ID p, containersBkt]
             (bkt_Put (ctr_ID ctr) (ctr_Name ctr)) t) = Inr t'"
        by (simp add: addContainer_toPod_def)
      then have "writes ?W t t'"
        by (rule wrapf_write[OF _ touches_Put]) auto
      then show ?thesis by (rule writes_r_into)
    qed
  qed
qed

lemma addContainer_vol_writes:
  "writes_only {[volBkt, v, volDependenciesBkt, ctr_ID ctr]} (addContainer_vol ctr v)"
proof (rule writes_onlyI)
  let ?W = "{[volBkt, v, volDependenciesBkt, ctr_ID ctr]}"
  fix t t' assume a: "addContainer_vol ctr v t = Inr t'"
  then have "t' = t \<or> wrapf ErrBolt [ctr_ID ctr, v]
      (update_at [volBkt, v, volDependenciesBkt] (bkt_Put (ctr_ID ctr) (ctr_ID ctr)) t) = Inr t'"
    by (auto simp: addContainer_vol_def split: option.splits if_splits)
  then show "rtranclp (writes ?W) t t'"
  proof
    assume "t' = t"
    then show ?thesis by simp
  next
    assume "wrapf ErrBolt [ctr_ID ctr, v]
      (update_at [volBkt, v, volDependenciesBkt] (bkt_Put (ctr_ID ctr) (ctr_ID ctr)) t) = Inr t'"
    then have "writes ?W t t'"
      by (rule wrapf_write[OF _ touches_Put]) simp
    then show ?thesis by (rule writes_r_into)
  qed
qed

lemma addContainer_vols_writes:
  "writes_only {[volBkt, v, volDependenciesBkt, ctr_ID ctr] | v. True} (addContainer_vols ctr vs)"
proof (induction vs)
  case Nil
  show ?case by (rule writes_onlyI) simp
next
  case (Cons v vs)
  let ?W = "{[volBkt, v, volDependenciesBkt, ctr_ID ctr] | v. True}"
  have one: "writes_only ?W (addContainer_vol ctr v)"
    by (rule wo_mono[OF addContainer_vol_writes]) blast
  show ?case
  proof (rule writes_onlyI)
    fix t t' assume "addContainer_vols ctr (v # vs) t = Inr t'"
    then obtain t1 where t1: "addContainer_vol ctr v t = Inr t1"
        "addContainer_vols ctr vs t1 = Inr t'"
      by (auto split: sum.splits)
    from writes_onlyD[OF one t1(1)] writes_onlyD[OF Cons.IH t1(2)]
    show "rtranclp (writes ?W) t t'" by (rule rtranclp_trans)
  qed
qed

text \<open>What a successful run of the closure of \<open>addContainer\<close> went through.\<close>

lemma addContainer_tx_InrE:
  assumes "addContainer_tx ctr pod cj sj nn t = Inr t'"
  obtains idsBucket namesBucket t1 t2 t3 where
    "bkt_Bucket t idRegistryBkt = Some idsBucket"
    "bkt_Bucket t nameRegistryBkt = Some namesBucket"
    "bkt_Bucket t nsRegistryBkt \<noteq> None" "bkt_Bucket t ctrBkt \<noteq> None"
    "bkt_Bucket t allCtrsBkt \<noteq> None" "bkt_Bucket t volBkt \<noteq> None"
    "addContainer_checkPod ctr pod t = None"
    "bkt_Get idsBucket (ctr_ID ctr) = None" "bkt_Get namesBucket (ctr_Name ctr) = None"
    "addContainer_create ctr pod cj sj nn t = Inr t1"
    "addContainer_deps ctr pod (ctrDependencies (ctr_config ctr)) t1 = Inr t2"
    "addContainer_toPod ctr pod t2 = Inr t3"
    "addContainer_vols ctr (ctrNamedVolumes (ctr_config ctr)) t3 = Inr t'"
  using assms
  by (auto simp: addContainer_tx_def bindE_Inr getIDBucket_def getNamesBucket_def getNSBucket_def
      getCtrBucket_def getAllCtrsBucket_def getVolBucket_def split: option.splits if_splits)

lemma addContainer_tx_writes:
  "writes_only (touched_paths ctr) (addContainer_tx ctr pod cj sj nn)"
proof (rule writes_onlyI)
  let ?W = "touched_paths ctr"
  fix t t' assume "addContainer_tx ctr pod cj sj nn t = Inr t'"
  then obtain t1 t2 t3 where
    s: "addContainer_create ctr pod cj sj nn t = Inr t1"
    "addContainer_deps ctr pod (ctrDependencies (ctr_config ctr)) t1 = Inr t2"
    "addContainer_toPod ctr pod t2 = Inr t3"
    "addContainer_vols ctr (ctrNamedVolumes (ctr_config ctr)) t3 = Inr t'"
    by (rule addContainer_tx_InrE)
  have "rtranclp (writes ?W) t t1"
    by (rule writes_onlyD[OF wo_mono[OF addContainer_create_writes] s(1)])
       (auto simp: touched_paths_def)
  moreover have "rtranclp (writes ?W) t1 t2"
    by (rule writes_onlyD[OF wo_mono[OF addContainer_deps_writes] s(2)])
       (auto simp: touched_paths_def)
  moreover have "rtranclp (writes ?W) t2 t3"
    by (rule writes_onlyD[OF wo_mono[OF addContainer_toPod_writes] s(3)])
       (auto simp: touched_paths_def)
  moreover have "rtranclp (writes ?W) t3 t'"
    by (rule writes_onlyD[OF wo_mono[OF addContainer_vols_writes] s(4)])
       (auto simp: touched_paths_def)
  ultimately show "rtranclp (writes ?W) t t'" by simp
qed


lemma removeContainer_fromPod_writes:
  "writes_only {[podBkt, p, containersBkt, ctr_ID ctr] | p. True} (removeContainer_fromPod ctr pod)"
proof (rule writes_onlyI)
  let ?W = "{[podBkt, p, containersBkt, ctr_ID ctr] | p. True}"
  fix t t' assume a: "removeContainer_fromPod ctr pod t = Inr t'"
  then have "t' = t \<or> (\<exists>p. wrapf ErrBolt [ctr_ID ctr, pod_ID p]
      (update_at [podBkt, pod_ID p, containersBkt] (bkt_Delete (ctr_ID ctr)) t) = Inr t')"
    by (auto simp: removeContainer_fromPod_def split: option.splits if_splits)
  then show "rtranclp (writes ?W) t t'"
  proof
    assume "t' = t"
    then show ?thesis by simp
  next
    assume "\<exists>p. wrapf ErrBolt [ctr_ID ctr, pod_ID p]
      (update_at [podBkt, pod_ID p, containersBkt] (bkt_Delete (ctr_ID ctr)) t) = Inr t'"
    then obtain p where "wrapf ErrBolt [ctr_ID ctr, pod_ID p]
      (update_at [podBkt, pod_ID p, containersBkt] (bkt_Delete (ctr_ID ctr)) t) = Inr t'" ..
    then have "writes ?W t t'"
      by (rule wrapf_write[OF _ touches_Delete]) auto
    then show ?thesis by (rule writes_r_into)
  qed
qed

lemma removeContainer_delete_writes:
  "writes_only
     {[ctrBkt, ctr_ID ctr], [idRegistryBkt, ctr_ID ctr], [nameRegistryBkt, ctr_Name ctr],
      [nsRegistryBkt, ctr_ID ctr], [allCtrsBkt, ctr_ID ctr]}
     (removeContainer_delete ctr)"
  unfolding removeContainer_delete_def
  by (intro wo_bind wo_write[OF touches_Delete] wo_write[OF touches_DeleteBucket]) simp_all

lemma removeContainer_dep_writes:
  "writes_only {[ctrBkt, d, dependenciesBkt, ctr_ID ctr]} (removeContainer_dep ctr d)"
proof (rule writes_onlyI)
  let ?W = "{[ctrBkt, d, dependenciesBkt, ctr_ID ctr]}"
  fix t t' assume a: "removeContainer_dep ctr d t = Inr t'"
  then have "t' = t \<or> wrapf ErrBolt [ctr_ID ctr, d]
      (update_at [ctrBkt, d, dependenciesBkt] (bkt_Delete (ctr_ID ctr)) t) = Inr t'"
    by (auto simp: removeContainer_dep_def split: option.splits if_splits)
  then show "rtranclp (writes ?W) t t'"
  proof
    assume "t' = t"
    then show ?thesis by simp
  next
    assume "wrapf ErrBolt [ctr_ID ctr, d]
      (update_at [ctrBkt, d, dependenciesBkt] (bkt_Delete (ctr_ID ctr)) t) = Inr t'"
    then have "writes ?W t t'"
      by (rule wrapf_write[OF _ touches_Delete]) simp
    then show ?thesis by (rule writes_r_into)
  qed
qed

lemma removeContainer_deps_writes:
  "writes_only {[ctrBkt, d, dependenciesBkt, ctr_ID ctr] | d. True} (removeContainer_deps ctr ds)"
proof (induction ds)
  case Nil
  show ?case by (rule writes_onlyI) simp
next
  case (Cons d ds)
  let ?W = "{[ctrBkt, d, dependenciesBkt, ctr_ID ctr] | d. True}"
  have one: "writes_only ?W (removeContainer_dep ctr d)"
    by (rule wo_mono[OF removeContainer_dep_writes]) blast
  show ?case
  proof (rule writes_onlyI)
    fix t t' assume "removeContainer_deps ctr (d # ds) t = Inr t'"
    then obtain t1 where t1: "removeContainer_dep ctr d t = Inr t1"
        "removeContainer_deps ctr ds t1 = Inr t'"
      by (auto split: sum.splits)
    from writes_onlyD[OF one t1(1)] writes_onlyD[OF Cons.IH t1(2)]
    show "rtranclp (writes ?W) t t'" by (rule rtranclp_trans)
  qed
qed

lemma removeContainer_vol_writes:
  "writes_only {[volBkt, v, volDependenciesBkt, ctr_ID ctr]} (removeContainer_vol ctr v)"
proof (rule writes_onlyI)
  let ?W = "{[volBkt, v, volDependenciesBkt, ctr_ID ctr]}"
  fix t t' assume a: "removeContainer_vol ctr v t = Inr t'"
  then have "t' = t \<or> wrapf ErrBolt [ctr_ID ctr, v]
      (update_at [volBkt, v, volDependenciesBkt] (bkt_Delete (ctr_ID ctr)) t) = Inr t'"
    by (auto simp: removeContainer_vol_def split: option.splits if_splits)
  then show "rtranclp (writes ?W) t t'"
  proof
    assume "t' = t"
    then show ?thesis by simp
  next
    assume "wrapf ErrBolt [ctr_ID ctr, v]
      (update_at [volBkt, v, volDependenciesBkt] (bkt_Delete (ctr_ID ctr)) t) = Inr t'"
    then have "writes ?W t t'"
      by (rule wrapf_write[OF _ touches_Delete]) simp
    then show ?thesis by (rule writes_r_into)
  qed
qed

lemma removeContainer_vols_writes:
  "writes_only {[volBkt, v, volDependenciesBkt, ctr_ID ctr] | v. True} (removeContainer_vols ctr vs)"
proof (induction vs)
  case Nil
  show ?case by (rule writes_onlyI) simp
next
  case (Cons v vs)
  let ?W = "{[volBkt, v, volDependenciesBkt, ctr_ID ctr] | v. True}"
  have one: "writes_only ?W (removeContainer_vol ctr v)"
    by (rule wo_mono[OF removeContainer_vol_writes]) blast
  show ?case
  proof (rule writes_onlyI)
    fix t t' assume "removeContainer_vols ctr (v # vs) t = Inr t'"
    then obtain t1 where t1: "removeContainer_vol ctr v t = Inr t1"
        "removeContainer_vols ctr vs t1 = Inr t'"
      by (auto split: sum.splits)
    from writes_onlyD[OF one t1(1)] writes_onlyD[OF Cons.IH t1(2)]
    show "rtranclp (writes ?W) t t'" by (rule rtranclp_trans)
  qed
qed

text \<open>What a successful run of \<open>removeContainer\<close> went through.\<close>

lemma removeContainer_InrE:
  assumes "removeContainer s ctr pod t = Inr t'"
  obtains ctrBucket ctrExists t1 t6 t7 where
    "bkt_Bucket t idRegistryBkt \<noteq> None" "bkt_Bucket t nameRegistryBkt \<noteq> None"
    "bkt_Bucket t nsRegistryBkt \<noteq> None" "bkt_Bucket t ctrBkt = Some ctrBucket"
    "bkt_Bucket t allCtrsBkt \<noteq> None" "bkt_Bucket t volBkt \<noteq> None"
    "removeContainer_checkPod pod t = None"
    "bkt_Bucket ctrBucket (ctr_ID ctr) = Some ctrExists"
    "removeContainer_checkNS s ctr pod = None"
    "removeContainer_fromPod ctr pod t = Inr t1"
    "removeContainer_checkDeps ctr t1 = None"
    "removeContainer_delete ctr t1 = Inr t6"
    "removeContainer_deps ctr (ctrDependencies (ctr_config ctr)) t6 = Inr t7"
    "removeContainer_vols ctr (ctrNamedVolumes (ctr_config ctr)) t7 = Inr t'"
  using assms
  by (auto simp: removeContainer_def bindE_Inr getIDBucket_def getNamesBucket_def getNSBucket_def
      getCtrBucket_def getAllCtrsBucket_def getVolBucket_def split: option.splits if_splits)

lemma removeContainer_writes:
  "writes_only (touched_paths ctr) (removeContainer s ctr pod)"
proof (rule writes_onlyI)
  let ?W = "touched_paths ctr"
  fix t t' assume "removeContainer s ctr pod t = Inr t'"
  then obtain t1 t6 t7 where
    s: "removeContainer_fromPod ctr pod t = Inr t1"
    "removeContainer_delete ctr t1 = Inr t6"
    "removeContainer_deps ctr (ctrDependencies (ctr_config ctr)) t6 = Inr t7"
    "removeContainer_vols ctr (ctrNamedVolumes (ctr_config ctr)) t7 = Inr t'"
    by (rule removeContainer_InrE)
  have "rtranclp (writes ?W) t t1"
    by (rule writes_onlyD[OF wo_mono[OF removeContainer_fromPod_writes] s(1)])
       (auto simp: touched_paths_def)
  moreover have "rtranclp (writes ?W) t1 t6"
    by (rule writes_onlyD[OF wo_mono[OF removeContainer_delete_writes] s(2)])
       (auto simp: touched_paths_def)
  moreover have "rtranclp (writes ?W) t6 t7"
    by (rule writes_onlyD[OF wo_mono[OF removeContainer_deps_writes] s(3)])
       (auto simp: touched_paths_def)
  moreover have "rtranclp (writes ?W) t7 t'"
    by (rule writes_onlyD[OF wo_mono[OF removeContainer_vols_writes] s(4)])
       (auto simp: touched_paths_def)
  ultimately show "rtranclp (writes ?W) t t'" by simp
qed

section \<open>The checks on the dependencies of a new container\<close>

lemma resolve_1: "resolve t [a] = bkt_Bucket t a"
  by (simp split: option.split)

lemma resolve_2:
  "resolve t [a, b] = (case bkt_Bucket t a of None \<Rightarrow> None | Some c \<Rightarrow> bkt_Bucket c b)"
  by (simp split: option.split)

lemma resolve_3:
  "resolve t [a, b, c] =
     (case bkt_Bucket t a of
        None \<Rightarrow> None
      | Some x \<Rightarrow> (case bkt_Bucket x b of None \<Rightarrow> None | Some y \<Rightarrow> bkt_Bucket y c))"
  by (simp split: option.split)

declare resolve.simps [simp del]

lemma addContainer_depPod_None:
  "addContainer_depPod ctr pod d depCtrPod = None \<longleftrightarrow> depCtrPod = map_option pod_ID pod"
  by (auto simp: addContainer_depPod_def split: option.splits)

lemma addContainer_dep_InrD:
  assumes "addContainer_dep ctr pod d t = Inr t'"
  shows "resolve t [ctrBkt, d] \<noteq> None
     \<and> get_at t [ctrBkt, d] podIDKey = map_option pod_ID pod
     \<and> bytes_Equal (ctrNamespaceBytes ctr) (get_at t [ctrBkt, d] namespaceKey)"
  using assms
  by (auto simp: addContainer_dep_def get_at_def addContainer_depPod_None resolve_1 resolve_2
      split: option.splits if_splits)

lemma addContainer_deps_checked:
  assumes "addContainer_deps ctr pod ds t = Inr t'" "d \<in> set ds"
  shows "resolve t [ctrBkt, d] \<noteq> None
     \<and> get_at t [ctrBkt, d] podIDKey = map_option pod_ID pod
     \<and> bytes_Equal (ctrNamespaceBytes ctr) (get_at t [ctrBkt, d] namespaceKey)"
  using assms
proof (induction ds arbitrary: t)
  case Nil
  then show ?case by simp
next
  case (Cons x ds)
  from Cons.prems(1) obtain t1 where t1: "addContainer_dep ctr pod x t = Inr t1"
      "addContainer_deps ctr pod ds t1 = Inr t'"
    by (auto split: sum.splits)
  show ?case
  proof (cases "d = x")
    case True
    with addContainer_dep_InrD[OF t1(1)] show ?thesis by simp
  next
    case False
    with Cons.prems(2) have "d \<in> set ds" by simp
    from Cons.IH[OF t1(2) this] have ih: "resolve t1 [ctrBkt, d] \<noteq> None"
      "get_at t1 [ctrBkt, d] podIDKey = map_option pod_ID pod"
      "bytes_Equal (ctrNamespaceBytes ctr) (get_at t1 [ctrBkt, d] namespaceKey)"
      by simp_all
    let ?W = "{[ctrBkt, x, dependenciesBkt, ctr_ID ctr]}"
    have w: "rtranclp (writes ?W) t t1"
      by (rule writes_onlyD[OF addContainer_dep_writes t1(1)])
    have "(resolve t1 [ctrBkt, d] = None) = (resolve t [ctrBkt, d] = None)"
      by (rule writes_exists[OF w]) simp
    moreover have "get_at t1 [ctrBkt, d] podIDKey = get_at t [ctrBkt, d] podIDKey"
      by (rule writes_get[OF w]) simp
    moreover have "get_at t1 [ctrBkt, d] namespaceKey = get_at t [ctrBkt, d] namespaceKey"
      by (rule writes_get[OF w]) simp
    ultimately show ?thesis using ih by simp
  qed
qed

lemma addContainer_InrD:
  assumes "addContainer s ctr pod db = (None, db')"
  shows "\<exists>cj sj. addContainer_tx ctr pod cj sj (getNetNSPath s ctr) db = Inr db'
     \<and> json_Marshal_config s (ctr_config ctr) = Some cj \<and> json_Marshal_state s ctr = Some sj
     \<and> dbOpens s \<and> (namespace s = [] \<or> namespace s = ctr_Namespace ctr)"
  using assms
  by (auto simp: addContainer_def db_Update_def split: option.splits if_splits sum.splits)

lemma addContainer_create_frame_ctr:
  assumes "addContainer_create ctr pod cj sj nn t = Inr t1" "d \<noteq> ctr_ID ctr"
  shows "(resolve t1 [ctrBkt, d] = None) = (resolve t [ctrBkt, d] = None)"
    and "get_at t1 [ctrBkt, d] k = get_at t [ctrBkt, d] k"
proof -
  let ?W = "{[idRegistryBkt, ctr_ID ctr], [nameRegistryBkt, ctr_Name ctr],
       [nsRegistryBkt, ctr_ID ctr], [allCtrsBkt, ctr_ID ctr]}
      \<union> {w. prefix [ctrBkt, ctr_ID ctr] w}"
  have w: "rtranclp (writes ?W) t t1"
    by (rule writes_onlyD[OF addContainer_create_writes assms(1)])
  show "(resolve t1 [ctrBkt, d] = None) = (resolve t [ctrBkt, d] = None)"
    by (rule writes_exists[OF w]) (use assms(2) in \<open>auto dest: prefix_order.trans\<close>)
  show "get_at t1 [ctrBkt, d] k = get_at t [ctrBkt, d] k"
    by (rule writes_get[OF w]) (use assms(2) in \<open>auto dest: prefix_order.trans\<close>)
qed

lemma addContainer_success_dependencies:
  assumes "addContainer s ctr pod db = (None, db')" "d \<in> set (ctrDependencies (ctr_config ctr))"
    "d \<noteq> ctr_ID ctr"
  shows "resolve db [ctrBkt, d] \<noteq> None
     \<and> get_at db [ctrBkt, d] podIDKey = map_option pod_ID pod
     \<and> bytes_Equal (ctrNamespaceBytes ctr) (get_at db [ctrBkt, d] namespaceKey)"
proof -
  from addContainer_InrD[OF assms(1)] obtain cj sj where
    tx: "addContainer_tx ctr pod cj sj (getNetNSPath s ctr) db = Inr db'" by blast
  then obtain t1 t2 where
    c: "addContainer_create ctr pod cj sj (getNetNSPath s ctr) db = Inr t1"
    and l: "addContainer_deps ctr pod (ctrDependencies (ctr_config ctr)) t1 = Inr t2"
    by (rule addContainer_tx_InrE)
  from addContainer_deps_checked[OF l assms(2)]
    addContainer_create_frame_ctr[OF c assms(3)]
  show ?thesis by simp
qed

lemma addContainer_dep_pod_mismatch:
  assumes "bkt_Bucket tx ctrBkt = Some ctrBucket" "bkt_Bucket ctrBucket d = Some depCtrBkt"
    "bkt_Get depCtrBkt podIDKey \<noteq> Some (pod_ID p)"
  shows "addContainer_dep ctr (Some p) d tx =
     Inl (Error ErrInvalidArg
       [ctr_ID ctr, d, (case bkt_Get depCtrBkt podIDKey of None \<Rightarrow> pod_ID p | Some dp \<Rightarrow> dp)])"
  using assms
  by (simp add: addContainer_dep_def addContainer_depPod_def resolve_1 split: option.split)

lemma addContainer_dep_pod_unexpected:
  assumes "bkt_Bucket tx ctrBkt = Some ctrBucket" "bkt_Bucket ctrBucket d = Some depCtrBkt"
    "bkt_Get depCtrBkt podIDKey \<noteq> None"
  shows "addContainer_dep ctr None d tx = Inl (Error ErrInvalidArg [ctr_ID ctr, d])"
  using assms
  by (auto simp: addContainer_dep_def addContainer_depPod_def resolve_1 split: option.split)

lemma addContainer_dep_namespace_mismatch:
  assumes "bkt_Bucket tx ctrBkt = Some ctrBucket" "bkt_Bucket ctrBucket d = Some depCtrBkt"
    "bkt_Get depCtrBkt podIDKey = map_option pod_ID pod"
    "\<not> bytes_Equal (ctrNamespaceBytes ctr) (bkt_Get depCtrBkt namespaceKey)"
  shows "addContainer_dep ctr pod d tx =
     Inl (Error ErrNSMismatch
       [ctr_ID ctr, ctr_Namespace ctr, d, string_of (bkt_Get depCtrBkt namespaceKey)])"
proof -
  have "addContainer_depPod ctr pod d (bkt_Get depCtrBkt podIDKey) = None"
    using assms(3) by (simp add: addContainer_depPod_None)
  then show ?thesis using assms(1,2,4)
    by (simp add: addContainer_dep_def resolve_1)
qed

section \<open>Removing a container that others depend on\<close>









section \<open>Adding a container whose ID or name is taken\<close>

lemma bindE_InrE:
  assumes "bindE m f = Inr y"
  obtains x where "m = Inr x" "f x = Inr y"
  using assms by (auto simp: bindE_Inr)

lemma prefix_head: "prefix (a # u) w \<Longrightarrow> prefix w (c # q) \<Longrightarrow> a = c"
  by (auto simp: prefix_def)

lemma touched_paths_long: "w \<in> touched_paths ctr \<Longrightarrow> 2 \<le> length w"
  by (auto simp: touched_paths_def dest: prefix_length_le)

lemma touched_paths_not_top: "w \<in> touched_paths ctr \<Longrightarrow> \<not> prefix w [x]"
  by (auto dest!: touched_paths_long prefix_length_le)

lemma writes_top_level:
  assumes "rtranclp (writes (touched_paths ctr)) t t'"
  shows "(bkt_Bucket t' x = None) = (bkt_Bucket t x = None)"
  using writes_exists[OF assms, of "[x]"] touched_paths_not_top[of _ ctr x]
  by (simp add: resolve_1)

lemma addContainer_checkPod_None:
  "addContainer_checkPod ctr pod t = None \<longleftrightarrow>
     (case pod of
        None \<Rightarrow> True
      | Some p \<Rightarrow> resolve t [podBkt, pod_ID p, containersBkt] \<noteq> None
          \<and> bytes_Equal (get_at t [podBkt, pod_ID p] namespaceKey) (ctrNamespaceBytes ctr))"
  by (auto simp: addContainer_checkPod_def getPodBucket_def resolve_2 resolve_3 get_at_def
      split: option.splits)

lemma writes_checkPod:
  assumes "rtranclp (writes (touched_paths ctr)) t t'"
  shows "(addContainer_checkPod ctr pod t' = None) = (addContainer_checkPod ctr pod t = None)"
proof (cases pod)
  case None
  then show ?thesis by (simp add: addContainer_checkPod_None)
next
  case (Some p)
  have "(resolve t' [podBkt, pod_ID p, containersBkt] = None)
      = (resolve t [podBkt, pod_ID p, containersBkt] = None)"
    by (rule writes_exists[OF assms]) (auto simp: touched_paths_def dest: prefix_head)
  moreover have "get_at t' [podBkt, pod_ID p] namespaceKey = get_at t [podBkt, pod_ID p] namespaceKey"
    by (rule writes_get[OF assms]) (auto simp: touched_paths_def dest: prefix_head)
  ultimately show ?thesis using Some by (simp add: addContainer_checkPod_None)
qed

lemma addContainer_create_registers_ID:
  assumes "addContainer_create ctr pod cj sj nn t = Inr t1"
  shows "get_at t1 [idRegistryBkt] (ctr_ID ctr) = Some (ctr_Name ctr)"
proof -
  let ?W = "{[nameRegistryBkt, ctr_Name ctr], [nsRegistryBkt, ctr_ID ctr],
       [allCtrsBkt, ctr_ID ctr]} \<union> {w. prefix [ctrBkt, ctr_ID ctr] w}"
  let ?rest = "\<lambda>tx1.
     bindE (wrapf ErrBolt [ctr_ID ctr, ctr_Name ctr]
              (update_at [nameRegistryBkt] (bkt_Put (ctr_Name ctr) (ctr_ID ctr)) tx1)) (\<lambda>tx2.
     bindE (case ctrNamespaceBytes ctr of
              None \<Rightarrow> Inr tx2
            | Some ns \<Rightarrow> wrapf ErrBolt [ctr_ID ctr, ctr_Namespace ctr]
                (update_at [nsRegistryBkt] (bkt_Put (ctr_ID ctr) ns) tx2)) (\<lambda>tx3.
     bindE (wrapf ErrBolt [ctr_ID ctr]
              (update_at [allCtrsBkt] (bkt_Put (ctr_ID ctr) (ctr_Name ctr)) tx3)) (\<lambda>tx4.
     bindE (wrapf ErrBolt [ctr_ID ctr]
              (update_at [ctrBkt] (bkt_CreateBucket (ctr_ID ctr)) tx4)) (\<lambda>tx5.
     bindE (wrapf ErrBolt [ctr_ID ctr]
              (update_at [ctrBkt, ctr_ID ctr] (bkt_Put configKey cj) tx5)) (\<lambda>tx6.
     bindE (wrapf ErrBolt [ctr_ID ctr]
              (update_at [ctrBkt, ctr_ID ctr] (bkt_Put stateKey sj) tx6)) (\<lambda>tx7.
     bindE (case ctrNamespaceBytes ctr of
              None \<Rightarrow> Inr tx7
            | Some ns \<Rightarrow> wrapf ErrBolt [ctr_ID ctr]
                (update_at [ctrBkt, ctr_ID ctr] (bkt_Put namespaceKey ns) tx7)) (\<lambda>tx8.
     bindE (case pod of
              None \<Rightarrow> Inr tx8
            | Some p \<Rightarrow> wrapf ErrBolt [ctr_ID ctr]
                (update_at [ctrBkt, ctr_ID ctr] (bkt_Put podIDKey (pod_ID p)) tx8)) (\<lambda>tx9.
     bindE (if nn \<noteq> []
            then wrapf ErrBolt [ctr_ID ctr]
                (update_at [ctrBkt, ctr_ID ctr] (bkt_Put netNSKey nn) tx9)
            else Inr tx9) (\<lambda>tx10.
     wrapf ErrBolt [ctr_ID ctr]
       (update_at [ctrBkt, ctr_ID ctr] (bkt_CreateBucket dependenciesBkt) tx10))))))))))"
  have rest: "writes_only ?W ?rest"
    by (intro wo_bind wo_case_option wo_if wo_ret wo_write[OF touches_Put]
        wo_write[OF touches_CreateBucket]) simp_all
  from assms have "bindE (wrapf ErrBolt [ctr_ID ctr]
           (update_at [idRegistryBkt] (bkt_Put (ctr_ID ctr) (ctr_Name ctr)) t)) ?rest = Inr t1"
    unfolding addContainer_create_def .
  then obtain ta where
    ta: "wrapf ErrBolt [ctr_ID ctr]
           (update_at [idRegistryBkt] (bkt_Put (ctr_ID ctr) (ctr_Name ctr)) t) = Inr ta"
    and r: "?rest ta = Inr t1"
    by (rule bindE_InrE)
  from ta have "get_at ta [idRegistryBkt] (ctr_ID ctr) = Some (ctr_Name ctr)"
    by (auto simp: wrapf_Inr update_at_1 bkt_Put_Inr get_at_def resolve_1
        bkt_Bucket_update_Bkt bkt_Get_update_Val)
  moreover have w: "rtranclp (writes ?W) ta t1"
    using rest r by (simp only: writes_only_def)
  have "get_at t1 [idRegistryBkt] (ctr_ID ctr) = get_at ta [idRegistryBkt] (ctr_ID ctr)"
    by (rule writes_get[OF w]) (auto dest: prefix_head)
  ultimately show ?thesis by simp
qed

lemma addContainer_tx_registers_ID:
  assumes "addContainer_tx ctr pod cj sj nn t = Inr t'"
  shows "get_at t' [idRegistryBkt] (ctr_ID ctr) = Some (ctr_Name ctr)"
proof -
  from assms obtain t1 t2 t3 where
    s: "addContainer_create ctr pod cj sj nn t = Inr t1"
    "addContainer_deps ctr pod (ctrDependencies (ctr_config ctr)) t1 = Inr t2"
    "addContainer_toPod ctr pod t2 = Inr t3"
    "addContainer_vols ctr (ctrNamedVolumes (ctr_config ctr)) t3 = Inr t'"
    by (rule addContainer_tx_InrE)
  have "get_at t2 [idRegistryBkt] (ctr_ID ctr) = get_at t1 [idRegistryBkt] (ctr_ID ctr)"
    by (rule writes_get[OF writes_onlyD[OF addContainer_deps_writes s(2)]]) auto
  moreover have "get_at t3 [idRegistryBkt] (ctr_ID ctr) = get_at t2 [idRegistryBkt] (ctr_ID ctr)"
    by (rule writes_get[OF writes_onlyD[OF addContainer_toPod_writes s(3)]]) auto
  moreover have "get_at t' [idRegistryBkt] (ctr_ID ctr) = get_at t3 [idRegistryBkt] (ctr_ID ctr)"
    by (rule writes_get[OF writes_onlyD[OF addContainer_vols_writes s(4)]]) auto
  ultimately show ?thesis using addContainer_create_registers_ID[OF s(1)] by simp
qed


lemma addContainer_error_keeps_db:
  "addContainer s ctr pod db = (Some e, db') \<Longrightarrow> db' = db"
  by (auto simp: addContainer_def db_Update_def split: option.splits if_splits sum.splits)

lemma addContainer_exists_error:
  assumes "namespace s = [] \<or> namespace s = ctr_Namespace ctr"
    and "json_Marshal_config s (ctr_config ctr) \<noteq> None" "json_Marshal_state s ctr \<noteq> None"
    and "dbOpens s"
    and "bkt_Bucket db idRegistryBkt = Some idsBucket"
    and "bkt_Bucket db nameRegistryBkt = Some namesBucket"
    and "bkt_Bucket db nsRegistryBkt \<noteq> None" "bkt_Bucket db ctrBkt \<noteq> None"
    and "bkt_Bucket db allCtrsBkt \<noteq> None" "bkt_Bucket db volBkt \<noteq> None"
    and "addContainer_checkPod ctr pod db = None"
    and "bkt_Get idsBucket (ctr_ID ctr) \<noteq> None \<or> bkt_Get namesBucket (ctr_Name ctr) \<noteq> None"
  shows "addContainer s ctr pod db =
     (Some (Error ErrCtrExists
        [if bkt_Get idsBucket (ctr_ID ctr) \<noteq> None then ctr_ID ctr else ctr_Name ctr]), db)"
proof -
  from assms(2,3) obtain cj sj where
    m: "json_Marshal_config s (ctr_config ctr) = Some cj" "json_Marshal_state s ctr = Some sj"
    by auto
  have "addContainer_tx ctr pod cj sj (getNetNSPath s ctr) db =
     Inl (Error ErrCtrExists
        [if bkt_Get idsBucket (ctr_ID ctr) \<noteq> None then ctr_ID ctr else ctr_Name ctr])"
    using assms(5-12)
    by (auto simp: addContainer_tx_def bindE_def getIDBucket_def getNamesBucket_def
        getNSBucket_def getCtrBucket_def getAllCtrsBucket_def getVolBucket_def)
  then show ?thesis using assms(1,4) m
    by (auto simp: addContainer_def db_Update_def)
qed

lemma addContainer_exists_fails:
  assumes "get_at db [idRegistryBkt] (ctr_ID ctr) \<noteq> None
     \<or> get_at db [nameRegistryBkt] (ctr_Name ctr) \<noteq> None"
  shows "\<exists>e. addContainer s ctr pod db = (Some e, db)"
proof (cases "addContainer s ctr pod db")
  case (Pair r db')
  show ?thesis
  proof (cases r)
    case None
    with Pair have "addContainer s ctr pod db = (None, db')" by simp
    from addContainer_InrD[OF this] obtain cj sj where
      "addContainer_tx ctr pod cj sj (getNetNSPath s ctr) db = Inr db'" by blast
    then obtain idsBucket namesBucket where
      "bkt_Bucket db idRegistryBkt = Some idsBucket"
      "bkt_Bucket db nameRegistryBkt = Some namesBucket"
      "bkt_Get idsBucket (ctr_ID ctr) = None" "bkt_Get namesBucket (ctr_Name ctr) = None"
      by (rule addContainer_tx_InrE)
    with assms show ?thesis by (simp add: get_at_def resolve_1)
  next
    case (Some e)
    with Pair addContainer_error_keeps_db[of s ctr pod db e db'] show ?thesis by simp
  qed
qed

lemma addContainer_twice:
  assumes "addContainer s ctr pod db = (None, db1)"
  shows "addContainer s ctr pod db1 = (Some (Error ErrCtrExists [ctr_ID ctr]), db1)"
proof -
  from addContainer_InrD[OF assms] obtain cj sj where
    tx: "addContainer_tx ctr pod cj sj (getNetNSPath s ctr) db = Inr db1"
    and m: "json_Marshal_config s (ctr_config ctr) = Some cj" "json_Marshal_state s ctr = Some sj"
    and o: "dbOpens s" "namespace s = [] \<or> namespace s = ctr_Namespace ctr"
    by blast
  from tx have g: "bkt_Bucket db idRegistryBkt \<noteq> None" "bkt_Bucket db nameRegistryBkt \<noteq> None"
    "bkt_Bucket db nsRegistryBkt \<noteq> None" "bkt_Bucket db ctrBkt \<noteq> None"
    "bkt_Bucket db allCtrsBkt \<noteq> None" "bkt_Bucket db volBkt \<noteq> None"
    "addContainer_checkPod ctr pod db = None"
    by (auto elim: addContainer_tx_InrE)
  have w: "rtranclp (writes (touched_paths ctr)) db db1"
    by (rule writes_onlyD[OF addContainer_tx_writes tx])
  have g1: "bkt_Bucket db1 idRegistryBkt \<noteq> None" "bkt_Bucket db1 nameRegistryBkt \<noteq> None"
    "bkt_Bucket db1 nsRegistryBkt \<noteq> None" "bkt_Bucket db1 ctrBkt \<noteq> None"
    "bkt_Bucket db1 allCtrsBkt \<noteq> None" "bkt_Bucket db1 volBkt \<noteq> None"
    using g(1-6) by (simp_all add: writes_top_level[OF w])
  have p1: "addContainer_checkPod ctr pod db1 = None"
    using g(7) by (simp add: writes_checkPod[OF w])
  from g1(1,2) obtain ids1 names1 where
    b: "bkt_Bucket db1 idRegistryBkt = Some ids1" "bkt_Bucket db1 nameRegistryBkt = Some names1"
    by auto
  from addContainer_tx_registers_ID[OF tx] b(1)
  have "bkt_Get ids1 (ctr_ID ctr) \<noteq> None" by (simp add: get_at_def resolve_1)
  with addContainer_exists_error[OF o(2) _ _ o(1) b g1(3-6) p1] m show ?thesis by simp
qed

text \<open>
  Claim C3. When the container's ID has an entry in \<open>id-registry\<close> or its name has an
  entry in \<open>name-registry\<close>, \<open>addContainer\<close> fails and leaves the database as it was.
  When the steps before the check pass (the namespace guard, the serialisation, opening
  the database, the top-level buckets, the pod), the error is of the already-exists kind
  and names the ID (or the name, when only the name collides). In particular, after a
  successful add, adding the same container again fails with already-exists for its
  ID and leaves exactly the database of the first add.
\<close>

theorem addContainer_already_exists:
  "(get_at db [idRegistryBkt] (ctr_ID ctr) \<noteq> None
      \<or> get_at db [nameRegistryBkt] (ctr_Name ctr) \<noteq> None \<longrightarrow>
      (\<exists>e. addContainer s ctr pod db = (Some e, db)))
   \<and> ((namespace s = [] \<or> namespace s = ctr_Namespace ctr)
      \<and> json_Marshal_config s (ctr_config ctr) \<noteq> None \<and> json_Marshal_state s ctr \<noteq> None
      \<and> dbOpens s
      \<and> bkt_Bucket db idRegistryBkt = Some idsBucket
      \<and> bkt_Bucket db nameRegistryBkt = Some namesBucket
      \<and> bkt_Bucket db nsRegistryBkt \<noteq> None \<and> bkt_Bucket db ctrBkt \<noteq> None
      \<and> bkt_Bucket db allCtrsBkt \<noteq> None \<and> bkt_Bucket db volBkt \<noteq> None
      \<and> addContainer_checkPod ctr pod db = None
      \<and> (bkt_Get idsBucket (ctr_ID ctr) \<noteq> None \<or> bkt_Get namesBucket (ctr_Name ctr) \<noteq> None)
      \<longrightarrow>
      addContainer s ctr pod db =
        (Some (Error ErrCtrExists
           [if bkt_Get idsBucket (ctr_ID ctr) \<noteq> None then ctr_ID ctr else ctr_Name ctr]), db))
   \<and> (addContainer s ctr pod db = (None, db1) \<longrightarrow>
      addContainer s ctr pod db1 = (Some (Error ErrCtrExists [ctr_ID ctr]), db1))"
proof (intro conjI impI)
  assume "get_at db [idRegistryBkt] (ctr_ID ctr) \<noteq> None
      \<or> get_at db [nameRegistryBkt] (ctr_Name ctr) \<noteq> None"
  then show "\<exists>e. addContainer s ctr pod db = (Some e, db)"
    by (rule addContainer_exists_fails)
next
  assume "(namespace s = [] \<or> namespace s = ctr_Namespace ctr)
      \<and> json_Marshal_config s (ctr_config ctr) \<noteq> None \<and> json_Marshal_state s ctr \<noteq> None
      \<and> dbOpens s
      \<and> bkt_Bucket db idRegistryBkt = Some idsBucket
      \<and> bkt_Bucket db nameRegistryBkt = Some namesBucket
      \<and> bkt_Bucket db nsRegistryBkt \<noteq> None \<and> bkt_Bucket db ctrBkt \<noteq> None
      \<and> bkt_Bucket db allCtrsBkt \<noteq> None \<and> bkt_Bucket db volBkt \<noteq> None
      \<and> addContainer_checkPod ctr pod db = None
      \<and> (bkt_Get idsBucket (ctr_ID ctr) \<noteq> None \<or> bkt_Get namesBucket (ctr_Name ctr) \<noteq> None)"
  then show "addContainer s ctr pod db =
        (Some (Error ErrCtrExists
           [if bkt_Get idsBucket (ctr_ID ctr) \<noteq> None then ctr_ID ctr else ctr_Name ctr]), db)"
    using addContainer_exists_error[where s = s and ctr = ctr and pod = pod and db = db
        and idsBucket = idsBucket and namesBucket = namesBucket]
    by blast
next
  assume "addContainer s ctr pod db = (None, db1)"
  then show "addContainer s ctr pod db1 = (Some (Error ErrCtrExists [ctr_ID ctr]), db1)"
    by (rule addContainer_twice)
qed

text \<open>
  Adding \<open>A\<close> to the empty database succeeds and adding it again fails; a container
  named like the pod \<open>P\<close> is refused for its name.
\<close>

theorem addContainer_already_exists_witness:
  "addContainer (example_state []) (example_ctr ''A'' ''a'' [] [] []) None example_db_empty
     = (None, example_db_A)
   \<and> addContainer (example_state []) (example_ctr ''A'' ''a'' [] [] []) None example_db_A
     = (Some (Error ErrCtrExists [''A'']), example_db_A)
   \<and> get_at example_db_pod [nameRegistryBkt] ''p'' \<noteq> None
   \<and> bkt_Bucket example_db_pod idRegistryBkt = Some [(''P'', Val ''p''), (''A'', Val ''a'')]
   \<and> bkt_Bucket example_db_pod nameRegistryBkt = Some [(''p'', Val ''P''), (''a'', Val ''A'')]
   \<and> bkt_Get [(''p'', Val ''P''), (''a'', Val ''A'')] ''p'' \<noteq> None
   \<and> addContainer_checkPod (example_ctr ''C'' ''p'' ''ns1'' [] [])
        (Some (example_pod ''P'' ''ns1'')) example_db_pod = None
   \<and> addContainer (example_state ''ns1'') (example_ctr ''C'' ''p'' ''ns1'' [] [])
        (Some (example_pod ''P'' ''ns1'')) example_db_pod
     = (Some (Error ErrCtrExists [''p'']), example_db_pod)"
  using addContainer_already_exists
    [where s = "example_state []" and ctr = "example_ctr ''A'' ''a'' [] [] []" and pod = None
       and db = example_db_empty and ?db1.0 = example_db_A
       and idsBucket = "[]" and namesBucket = "[]"]
    addContainer_already_exists
    [where s = "example_state ''ns1''" and ctr = "example_ctr ''C'' ''p'' ''ns1'' [] []"
       and pod = "Some (example_pod ''P'' ''ns1'')"
       and db = example_db_pod and ?db1.0 = example_db_pod
       and idsBucket = "[(''P'', Val ''p''), (''A'', Val ''a'')]"
       and namesBucket = "[(''p'', Val ''P''), (''a'', Val ''A'')]"]
  by (simp add: eval_defs example_db_empty_def example_db_A_def example_db_pod_def
      example_bucket_A_in_P_def get_at_def)

section \<open>The unguarded volume dependencies bucket\<close>

text \<open>
  A nil handle is the only source of a panic in the model. A phase is shown not to panic
  from what it needs to exist before it and from what its writes keep in existence.
\<close>

lemma faultlessI: "(\<And>t. P t \<Longrightarrow> ph t \<noteq> Inl NilDeref) \<Longrightarrow> faultless P ph"
  by (simp add: faultless_def)

lemma faultlessD: "faultless P ph \<Longrightarrow> P t \<Longrightarrow> ph t \<noteq> Inl NilDeref"
  by (simp add: faultless_def)

lemma preserved_byI: "(\<And>t t'. P t \<Longrightarrow> writes W t t' \<Longrightarrow> P t') \<Longrightarrow> preserved_by W P"
  by (simp add: preserved_by_def)

lemma preserved_rtranclp:
  assumes "preserved_by W P" "rtranclp (writes W) t t'" "P t"
  shows "P t'"
  using assms(2,3)
proof (induction rule: rtranclp_induct)
  case base
  then show ?case .
next
  case (step y z)
  with assms(1) show ?case unfolding preserved_by_def by blast
qed

lemma preserved_mono: "preserved_by W P \<Longrightarrow> W' \<subseteq> W \<Longrightarrow> preserved_by W' P"
  unfolding preserved_by_def writes_def by blast

lemma preserved_exists:
  assumes "\<forall>w\<in>W. \<not> prefix w q"
  shows "preserved_by W (\<lambda>t. resolve t q \<noteq> None)"
proof (rule preserved_byI)
  fix t t' assume a: "resolve t q \<noteq> None" "writes W t t'"
  from a(2) obtain w where w: "w \<in> W" "touch w t t'" unfolding writes_def by blast
  with assms have "\<not> prefix w q" by simp
  from touch_exists[OF w(2) this] a(1) show "resolve t' q \<noteq> None" by simp
qed

lemma preserved_conj:
  "preserved_by W P \<Longrightarrow> preserved_by W Q \<Longrightarrow> preserved_by W (\<lambda>t. P t \<and> Q t)"
  unfolding preserved_by_def by blast

lemma preserved_volumes:
  assumes "\<forall>w\<in>W. \<forall>v. \<not> prefix w [volBkt, v, volDependenciesBkt]"
  shows "preserved_by W volumes_have_dependencies"
proof (rule preserved_byI)
  fix t t' assume a: "volumes_have_dependencies t" "writes W t t'"
  from a(2) obtain w where w: "w \<in> W" "touch w t t'" unfolding writes_def by blast
  show "volumes_have_dependencies t'"
    unfolding volumes_have_dependencies_def
  proof (intro allI impI)
    fix v assume v: "resolve t' [volBkt, v] \<noteq> None"
    from assms w(1) have n3: "\<not> prefix w [volBkt, v, volDependenciesBkt]" by simp
    have "prefix [volBkt, v] [volBkt, v, volDependenciesBkt]" by simp
    with n3 have n2: "\<not> prefix w [volBkt, v]" using prefix_order.trans by blast
    from touch_exists[OF w(2) n2] v have "resolve t [volBkt, v] \<noteq> None" by simp
    with a(1) have "resolve t [volBkt, v, volDependenciesBkt] \<noteq> None"
      by (simp add: volumes_have_dependencies_def)
    with touch_exists[OF w(2) n3] show "resolve t' [volBkt, v, volDependenciesBkt] \<noteq> None"
      by simp
  qed
qed

lemma wrapf_faults: "wrapf kind args (update_at p f t) = Inl NilDeref \<longleftrightarrow> resolve t p = None"
  by (simp add: wrapf_NilDeref update_at_None)

lemma fl_write:
  "(\<And>t. P t \<Longrightarrow> resolve t p \<noteq> None) \<Longrightarrow> faultless P (\<lambda>t. wrapf kind args (update_at p f t))"
  by (rule faultlessI) (simp add: wrapf_faults)

lemma fl_ret: "faultless P (\<lambda>t. Inr t)"
  by (rule faultlessI) simp

lemma fl_bind_post:
  assumes "faultless P ph1" "\<And>t t1. P t \<Longrightarrow> ph1 t = Inr t1 \<Longrightarrow> R t1" "faultless R ph2"
  shows "faultless P (\<lambda>t. bindE (ph1 t) ph2)"
proof (rule faultlessI)
  fix t assume p: "P t"
  show "bindE (ph1 t) ph2 \<noteq> Inl NilDeref"
  proof (cases "ph1 t")
    case (Inl e)
    with faultlessD[OF assms(1) p] show ?thesis by (simp add: bindE_def)
  next
    case (Inr t1)
    from assms(2)[OF p Inr] have "R t1" .
    from faultlessD[OF assms(3) this] Inr show ?thesis by (simp add: bindE_def)
  qed
qed

lemma fl_bind:
  assumes "preserved_by W P" "writes_only W ph1" "faultless P ph1" "faultless P ph2"
  shows "faultless P (\<lambda>t. bindE (ph1 t) ph2)"
proof (rule fl_bind_post[OF assms(3) _ assms(4)])
  fix t t1 assume "P t" "ph1 t = Inr t1"
  from preserved_rtranclp[OF assms(1) writes_onlyD[OF assms(2) this(2)] this(1)] show "P t1" .
qed

lemma fl_case_option:
  assumes "faultless P ph1" "\<And>y. faultless P (ph2 y)"
  shows "faultless P (\<lambda>t. case x of None \<Rightarrow> ph1 t | Some y \<Rightarrow> ph2 y t)"
  using assms by (cases x) simp_all

lemma fl_if:
  assumes "faultless P ph1" "faultless P ph2"
  shows "faultless P (\<lambda>t. if c then ph1 t else ph2 t)"
  using assms by (cases c) simp_all

text \<open>
  The registries and the bucket of the containers exist while the new container is
  registered; from its creation on, the bucket of the new container exists.
\<close>

lemma touched_paths_not_volume:
  "w \<in> touched_paths ctr \<Longrightarrow> \<not> prefix w [volBkt, v, volDependenciesBkt]"
  by (auto simp: touched_paths_def dest: prefix_head prefix_length_le)

lemma create_bucket_resolves:
  assumes "wrapf kind args (update_at [a] (bkt_CreateBucket k) t) = Inr t1"
  shows "resolve t1 [a, k] \<noteq> None"
proof -
  from assms obtain c c' where
    c: "bkt_Bucket t a = Some c" "bkt_CreateBucket k c = Inr c'" "t1 = AList.update a (Bkt c') t"
    by (auto simp: wrapf_Inr update_at_1)
  from c(2) have "c' = AList.update k (Bkt []) c" by (simp add: bkt_CreateBucket_Inr)
  with c(3) show ?thesis by (simp add: resolve_2 bkt_Bucket_update_Bkt)
qed

lemma addContainer_create_faultless:
  "faultless (\<lambda>t. resolve t [idRegistryBkt] \<noteq> None \<and> resolve t [nameRegistryBkt] \<noteq> None
       \<and> resolve t [nsRegistryBkt] \<noteq> None \<and> resolve t [allCtrsBkt] \<noteq> None
       \<and> resolve t [ctrBkt] \<noteq> None)
     (addContainer_create ctr pod cj sj nn)"
proof -
  let ?P = "\<lambda>t. resolve t [idRegistryBkt] \<noteq> None \<and> resolve t [nameRegistryBkt] \<noteq> None
       \<and> resolve t [nsRegistryBkt] \<noteq> None \<and> resolve t [allCtrsBkt] \<noteq> None
       \<and> resolve t [ctrBkt] \<noteq> None"
  let ?W1 = "{[idRegistryBkt, ctr_ID ctr], [nameRegistryBkt, ctr_Name ctr],
       [nsRegistryBkt, ctr_ID ctr], [allCtrsBkt, ctr_ID ctr]}"
  let ?R = "\<lambda>t. resolve t [ctrBkt, ctr_ID ctr] \<noteq> None"
  let ?W2 = "{[ctrBkt, ctr_ID ctr, k] | k. True}"
  have top: "preserved_by ?W1 (\<lambda>t. resolve t [x] \<noteq> None)" for x
    by (rule preserved_exists) simp
  have pres1: "preserved_by ?W1 ?P"
    by (intro preserved_conj top)
  have pres2: "preserved_by ?W2 ?R"
    by (rule preserved_exists) auto
  show ?thesis
    unfolding addContainer_create_def
    apply (rule fl_bind[where W = ?W1, OF pres1])
      apply (rule wo_write[OF touches_Put], simp)
     apply (rule fl_write, simp)
    apply (rule fl_bind[where W = ?W1, OF pres1])
      apply (rule wo_write[OF touches_Put], simp)
     apply (rule fl_write, simp)
    apply (rule fl_bind[where W = ?W1, OF pres1])
      apply (intro wo_case_option wo_ret wo_write[OF touches_Put], simp)
     apply (intro fl_case_option fl_ret fl_write, simp)
    apply (rule fl_bind[where W = ?W1, OF pres1])
      apply (rule wo_write[OF touches_Put], simp)
     apply (rule fl_write, simp)
    apply (rule fl_bind_post[where R = ?R])
      apply (rule fl_write, simp)
     apply (erule create_bucket_resolves)
    apply (intro fl_bind[where W = ?W2, OF pres2] fl_write fl_case_option fl_if fl_ret
        wo_write[OF touches_Put] wo_write[OF touches_CreateBucket] wo_case_option wo_if wo_ret)
                  apply simp_all
    done
qed

lemma addContainer_dep_faultless:
  "resolve t [ctrBkt] \<noteq> None \<Longrightarrow> addContainer_dep ctr pod d t \<noteq> Inl NilDeref"
  by (auto simp: addContainer_dep_def wrapf_faults resolve_1 resolve_3 addContainer_depPod_def
      split: option.split)

lemma addContainer_deps_faultless:
  "resolve t [ctrBkt] \<noteq> None \<Longrightarrow> addContainer_deps ctr pod ds t \<noteq> Inl NilDeref"
proof (induction ds arbitrary: t)
  case Nil
  show ?case by simp
next
  case (Cons d ds)
  show ?case
  proof (cases "addContainer_dep ctr pod d t")
    case (Inl e)
    with addContainer_dep_faultless[OF Cons.prems, of ctr pod d] show ?thesis by simp
  next
    case (Inr t1)
    from writes_exists[OF writes_onlyD[OF addContainer_dep_writes Inr], of "[ctrBkt]"] Cons.prems
    have "resolve t1 [ctrBkt] \<noteq> None" by simp
    from Cons.IH[OF this] Inr show ?thesis by simp
  qed
qed

lemma addContainer_toPod_faultless: "addContainer_toPod ctr pod t \<noteq> Inl NilDeref"
  by (simp add: addContainer_toPod_def wrapf_faults split: option.split)

lemma addContainer_vol_faultless:
  assumes "resolve t [volBkt] \<noteq> None" "volumes_have_dependencies t"
  shows "addContainer_vol ctr v t \<noteq> Inl NilDeref"
proof -
  from assms(1) obtain volBucket where vb: "resolve t [volBkt] = Some volBucket" by blast
  show ?thesis
  proof (cases "bkt_Bucket volBucket v")
    case None
    with vb show ?thesis by (simp add: addContainer_vol_def)
  next
    case (Some volDB)
    with vb have "resolve t [volBkt, v] \<noteq> None" by (simp add: resolve_1 resolve_2)
    with assms(2) have r: "resolve t [volBkt, v, volDependenciesBkt] \<noteq> None"
      by (simp add: volumes_have_dependencies_def)
    with vb Some obtain d where "bkt_Bucket volDB volDependenciesBkt = Some d"
      by (auto simp: resolve_1 resolve_3)
    with vb Some r show ?thesis by (simp add: addContainer_vol_def wrapf_faults)
  qed
qed

lemma removeContainer_vol_faultless:
  assumes "resolve t [volBkt] \<noteq> None" "volumes_have_dependencies t"
  shows "removeContainer_vol ctr v t \<noteq> Inl NilDeref"
proof -
  from assms(1) obtain volBucket where vb: "resolve t [volBkt] = Some volBucket" by blast
  show ?thesis
  proof (cases "bkt_Bucket volBucket v")
    case None
    with vb show ?thesis by (simp add: removeContainer_vol_def)
  next
    case (Some volDB)
    with vb have "resolve t [volBkt, v] \<noteq> None" by (simp add: resolve_1 resolve_2)
    with assms(2) have r: "resolve t [volBkt, v, volDependenciesBkt] \<noteq> None"
      by (simp add: volumes_have_dependencies_def)
    with vb Some obtain d where "bkt_Bucket volDB volDependenciesBkt = Some d"
      by (auto simp: resolve_1 resolve_3)
    with vb Some r show ?thesis by (simp add: removeContainer_vol_def wrapf_faults)
  qed
qed

lemma volume_write_keeps:
  assumes "rtranclp (writes {[volBkt, v, volDependenciesBkt, i]}) t t1"
    "resolve t [volBkt] \<noteq> None" "volumes_have_dependencies t"
  shows "resolve t1 [volBkt] \<noteq> None \<and> volumes_have_dependencies t1"
proof
  from writes_exists[OF assms(1), of "[volBkt]"] assms(2)
  show "resolve t1 [volBkt] \<noteq> None" by simp
  have "preserved_by {[volBkt, v, volDependenciesBkt, i]} volumes_have_dependencies"
    by (rule preserved_volumes) simp
  from preserved_rtranclp[OF this assms(1) assms(3)]
  show "volumes_have_dependencies t1" .
qed

lemma addContainer_vols_faultless:
  "resolve t [volBkt] \<noteq> None \<Longrightarrow> volumes_have_dependencies t
     \<Longrightarrow> addContainer_vols ctr vs t \<noteq> Inl NilDeref"
proof (induction vs arbitrary: t)
  case Nil
  show ?case by simp
next
  case (Cons v vs)
  show ?case
  proof (cases "addContainer_vol ctr v t")
    case (Inl e)
    with addContainer_vol_faultless[OF Cons.prems, of ctr v] show ?thesis by simp
  next
    case (Inr t1)
    from volume_write_keeps[OF writes_onlyD[OF addContainer_vol_writes Inr] Cons.prems]
    have "resolve t1 [volBkt] \<noteq> None" "volumes_have_dependencies t1" by simp_all
    from Cons.IH[OF this] Inr show ?thesis by simp
  qed
qed

lemma removeContainer_vols_faultless:
  "resolve t [volBkt] \<noteq> None \<Longrightarrow> volumes_have_dependencies t
     \<Longrightarrow> removeContainer_vols ctr vs t \<noteq> Inl NilDeref"
proof (induction vs arbitrary: t)
  case Nil
  show ?case by simp
next
  case (Cons v vs)
  show ?case
  proof (cases "removeContainer_vol ctr v t")
    case (Inl e)
    with removeContainer_vol_faultless[OF Cons.prems, of ctr v] show ?thesis by simp
  next
    case (Inr t1)
    from volume_write_keeps[OF writes_onlyD[OF removeContainer_vol_writes Inr] Cons.prems]
    have "resolve t1 [volBkt] \<noteq> None" "volumes_have_dependencies t1" by simp_all
    from Cons.IH[OF this] Inr show ?thesis by simp
  qed
qed

lemma removeContainer_dep_faultless:
  "resolve t [ctrBkt] \<noteq> None \<Longrightarrow> removeContainer_dep ctr d t \<noteq> Inl NilDeref"
  by (auto simp: removeContainer_dep_def wrapf_faults resolve_1 resolve_3 split: option.split)

lemma removeContainer_deps_faultless:
  "resolve t [ctrBkt] \<noteq> None \<Longrightarrow> removeContainer_deps ctr ds t \<noteq> Inl NilDeref"
proof (induction ds arbitrary: t)
  case Nil
  show ?case by simp
next
  case (Cons d ds)
  show ?case
  proof (cases "removeContainer_dep ctr d t")
    case (Inl e)
    with removeContainer_dep_faultless[OF Cons.prems, of ctr d] show ?thesis by simp
  next
    case (Inr t1)
    from writes_exists[OF writes_onlyD[OF removeContainer_dep_writes Inr], of "[ctrBkt]"] Cons.prems
    have "resolve t1 [ctrBkt] \<noteq> None" by simp
    from Cons.IH[OF this] Inr show ?thesis by simp
  qed
qed

lemma removeContainer_fromPod_faultless: "removeContainer_fromPod ctr pod t \<noteq> Inl NilDeref"
  by (simp add: removeContainer_fromPod_def wrapf_faults resolve_2 resolve_3
      split: option.split)

lemma removeContainer_delete_faultless:
  "faultless (\<lambda>t. resolve t [idRegistryBkt] \<noteq> None \<and> resolve t [nameRegistryBkt] \<noteq> None
       \<and> resolve t [nsRegistryBkt] \<noteq> None \<and> resolve t [allCtrsBkt] \<noteq> None
       \<and> resolve t [ctrBkt] \<noteq> None)
     (removeContainer_delete ctr)"
proof -
  let ?P = "\<lambda>t. resolve t [idRegistryBkt] \<noteq> None \<and> resolve t [nameRegistryBkt] \<noteq> None
       \<and> resolve t [nsRegistryBkt] \<noteq> None \<and> resolve t [allCtrsBkt] \<noteq> None
       \<and> resolve t [ctrBkt] \<noteq> None"
  let ?W = "{[ctrBkt, ctr_ID ctr], [idRegistryBkt, ctr_ID ctr], [nameRegistryBkt, ctr_Name ctr],
       [nsRegistryBkt, ctr_ID ctr], [allCtrsBkt, ctr_ID ctr]}"
  have top: "preserved_by ?W (\<lambda>t. resolve t [x] \<noteq> None)" for x
    by (rule preserved_exists) simp
  have pres: "preserved_by ?W ?P"
    by (intro preserved_conj top)
  show ?thesis
    unfolding removeContainer_delete_def
    by (intro fl_bind[where W = ?W, OF pres] fl_write
        wo_write[OF touches_Delete] wo_write[OF touches_DeleteBucket]) simp_all
qed

lemma bindE_ret: "bindE (Inr x) f = f x"
  by (simp add: bindE_def)

lemma bindE_err: "bindE (Inl e) f = Inl e"
  by (simp add: bindE_def)

lemma fl_weaken: "faultless P ph \<Longrightarrow> (\<And>t. Q t \<Longrightarrow> P t) \<Longrightarrow> faultless Q ph"
  unfolding faultless_def by blast

lemma touched_paths_preserve:
  "preserved_by (touched_paths ctr)
     (\<lambda>t. resolve t [idRegistryBkt] \<noteq> None \<and> resolve t [nameRegistryBkt] \<noteq> None
        \<and> resolve t [nsRegistryBkt] \<noteq> None \<and> resolve t [allCtrsBkt] \<noteq> None
        \<and> resolve t [ctrBkt] \<noteq> None \<and> resolve t [volBkt] \<noteq> None
        \<and> volumes_have_dependencies t)"
proof -
  have top: "preserved_by (touched_paths ctr) (\<lambda>t. resolve t [x] \<noteq> None)" for x
    by (rule preserved_exists) (simp add: touched_paths_not_top)
  have vol: "preserved_by (touched_paths ctr) volumes_have_dependencies"
    by (rule preserved_volumes) (simp add: touched_paths_not_volume)
  show ?thesis by (intro preserved_conj top vol)
qed

lemma addContainer_body_faultless:
  "faultless
     (\<lambda>t. resolve t [idRegistryBkt] \<noteq> None \<and> resolve t [nameRegistryBkt] \<noteq> None
        \<and> resolve t [nsRegistryBkt] \<noteq> None \<and> resolve t [allCtrsBkt] \<noteq> None
        \<and> resolve t [ctrBkt] \<noteq> None \<and> resolve t [volBkt] \<noteq> None
        \<and> volumes_have_dependencies t)
     (\<lambda>tx. bindE (addContainer_create ctr pod cj sj nn tx) (\<lambda>tx1.
            bindE (addContainer_deps ctr pod ds tx1) (\<lambda>tx2.
            bindE (addContainer_toPod ctr pod tx2) (\<lambda>tx3.
            addContainer_vols ctr vs tx3))))"
  apply (rule fl_bind[where W = "touched_paths ctr", OF touched_paths_preserve])
    apply (rule wo_mono[OF addContainer_create_writes], auto simp: touched_paths_def)[1]
   apply (rule fl_weaken[OF addContainer_create_faultless], simp)
  apply (rule fl_bind[where W = "touched_paths ctr", OF touched_paths_preserve])
    apply (rule wo_mono[OF addContainer_deps_writes], auto simp: touched_paths_def)[1]
   apply (rule faultlessI, simp add: addContainer_deps_faultless)
  apply (rule fl_bind[where W = "touched_paths ctr", OF touched_paths_preserve])
    apply (rule wo_mono[OF addContainer_toPod_writes], auto simp: touched_paths_def)[1]
   apply (rule faultlessI, simp add: addContainer_toPod_faultless)
  apply (rule faultlessI, simp add: addContainer_vols_faultless)
  done

lemma addContainer_checkPod_faultless: "addContainer_checkPod ctr pod t \<noteq> Some NilDeref"
  by (simp add: addContainer_checkPod_def getPodBucket_def split: option.split)

lemma addContainer_tx_faultless:
  assumes "volumes_have_dependencies t"
  shows "addContainer_tx ctr pod cj sj nn t \<noteq> Inl NilDeref"
proof
  let ?body = "bindE (addContainer_create ctr pod cj sj nn t) (\<lambda>tx1.
            bindE (addContainer_deps ctr pod (ctrDependencies (ctr_config ctr)) tx1) (\<lambda>tx2.
            bindE (addContainer_toPod ctr pod tx2) (\<lambda>tx3.
            addContainer_vols ctr (ctrNamedVolumes (ctr_config ctr)) tx3)))"
  assume "addContainer_tx ctr pod cj sj nn t = Inl NilDeref"
  then have "resolve t [idRegistryBkt] \<noteq> None \<and> resolve t [nameRegistryBkt] \<noteq> None
        \<and> resolve t [nsRegistryBkt] \<noteq> None \<and> resolve t [allCtrsBkt] \<noteq> None
        \<and> resolve t [ctrBkt] \<noteq> None \<and> resolve t [volBkt] \<noteq> None \<and> ?body = Inl NilDeref"
    by (auto simp: addContainer_tx_def getIDBucket_def getNamesBucket_def getNSBucket_def
        getCtrBucket_def getAllCtrsBucket_def getVolBucket_def resolve_1 bindE_ret bindE_err
        addContainer_checkPod_faultless split: option.splits if_splits)
  with faultlessD[OF addContainer_body_faultless, of t ctr pod cj sj nn
      "ctrDependencies (ctr_config ctr)" "ctrNamedVolumes (ctr_config ctr)"] assms
  show False by simp
qed

lemma addContainer_faultless:
  assumes "volumes_have_dependencies db"
  shows "fst (addContainer s ctr pod db) \<noteq> Some NilDeref"
  using addContainer_tx_faultless[OF assms]
  by (auto simp: addContainer_def db_Update_def split: option.split sum.split)

lemma removeContainer_checkPod_faultless: "removeContainer_checkPod pod t \<noteq> Some NilDeref"
  by (simp add: removeContainer_checkPod_def getPodBucket_def split: option.split)

lemma removeContainer_checkNS_faultless: "removeContainer_checkNS s ctr pod \<noteq> Some NilDeref"
  by (simp add: removeContainer_checkNS_def split: option.split)

lemma removeContainer_checkDeps_faultless:
  "resolve t [ctrBkt, ctr_ID ctr] \<noteq> None \<Longrightarrow> removeContainer_checkDeps ctr t \<noteq> Some NilDeref"
  by (auto simp: removeContainer_checkDeps_def Let_def split: option.split)

lemma removeContainer_body_faultless:
  "faultless
     (\<lambda>t. resolve t [idRegistryBkt] \<noteq> None \<and> resolve t [nameRegistryBkt] \<noteq> None
        \<and> resolve t [nsRegistryBkt] \<noteq> None \<and> resolve t [allCtrsBkt] \<noteq> None
        \<and> resolve t [ctrBkt] \<noteq> None \<and> resolve t [volBkt] \<noteq> None
        \<and> volumes_have_dependencies t)
     (\<lambda>tx1. bindE (removeContainer_delete ctr tx1) (\<lambda>tx6.
             bindE (removeContainer_deps ctr ds tx6) (\<lambda>tx7.
             removeContainer_vols ctr vs tx7)))"
  apply (rule fl_bind[where W = "touched_paths ctr", OF touched_paths_preserve])
    apply (rule wo_mono[OF removeContainer_delete_writes], auto simp: touched_paths_def)[1]
   apply (rule fl_weaken[OF removeContainer_delete_faultless], simp)
  apply (rule fl_bind[where W = "touched_paths ctr", OF touched_paths_preserve])
    apply (rule wo_mono[OF removeContainer_deps_writes], auto simp: touched_paths_def)[1]
   apply (rule faultlessI, simp add: removeContainer_deps_faultless)
  apply (rule faultlessI, simp add: removeContainer_vols_faultless)
  done

lemma removeContainer_faultless:
  assumes "volumes_have_dependencies t"
  shows "removeContainer s ctr pod t \<noteq> Inl NilDeref"
proof
  let ?P = "\<lambda>t. resolve t [idRegistryBkt] \<noteq> None \<and> resolve t [nameRegistryBkt] \<noteq> None
        \<and> resolve t [nsRegistryBkt] \<noteq> None \<and> resolve t [allCtrsBkt] \<noteq> None
        \<and> resolve t [ctrBkt] \<noteq> None \<and> resolve t [volBkt] \<noteq> None
        \<and> volumes_have_dependencies t"
  let ?rest = "\<lambda>tx1. bindE (removeContainer_delete ctr tx1) (\<lambda>tx6.
             bindE (removeContainer_deps ctr (ctrDependencies (ctr_config ctr)) tx6) (\<lambda>tx7.
             removeContainer_vols ctr (ctrNamedVolumes (ctr_config ctr)) tx7))"
  let ?body = "bindE (removeContainer_fromPod ctr pod t) (\<lambda>tx1.
       case removeContainer_checkDeps ctr tx1 of Some err \<Rightarrow> Inl err | None \<Rightarrow> ?rest tx1)"
  assume "removeContainer s ctr pod t = Inl NilDeref"
  then have h: "resolve t [idRegistryBkt] \<noteq> None \<and> resolve t [nameRegistryBkt] \<noteq> None
        \<and> resolve t [nsRegistryBkt] \<noteq> None \<and> resolve t [allCtrsBkt] \<noteq> None
        \<and> resolve t [ctrBkt] \<noteq> None \<and> resolve t [volBkt] \<noteq> None
        \<and> resolve t [ctrBkt, ctr_ID ctr] \<noteq> None \<and> ?body = Inl NilDeref"
    by (auto simp: removeContainer_def getIDBucket_def getNamesBucket_def getNSBucket_def
        getCtrBucket_def getAllCtrsBucket_def getVolBucket_def resolve_1 resolve_2 bindE_ret
        bindE_err removeContainer_checkPod_faultless removeContainer_checkNS_faultless
        split: option.splits)
  with assms have p: "?P t" by simp
  from h obtain t1 where t1: "removeContainer_fromPod ctr pod t = Inr t1"
    and c: "(case removeContainer_checkDeps ctr t1 of Some err \<Rightarrow> Inl err | None \<Rightarrow> ?rest t1)
        = Inl NilDeref"
    by (auto simp: bindE_Inl removeContainer_fromPod_faultless)
  have w: "rtranclp (writes (touched_paths ctr)) t t1"
    by (rule writes_onlyD[OF wo_mono[OF removeContainer_fromPod_writes] t1])
       (auto simp: touched_paths_def)
  from preserved_rtranclp[OF touched_paths_preserve w p] have p1: "?P t1" .
  have "\<forall>w\<in>{[podBkt, p, containersBkt, ctr_ID ctr] | p. True}. \<not> prefix w [ctrBkt, ctr_ID ctr]"
    by auto
  from writes_exists[OF writes_onlyD[OF removeContainer_fromPod_writes t1] this] h
  have "resolve t1 [ctrBkt, ctr_ID ctr] \<noteq> None" by simp
  from removeContainer_checkDeps_faultless[OF this] c have "?rest t1 = Inl NilDeref"
    by (auto split: option.splits)
  with faultlessD[OF removeContainer_body_faultless, of t1 ctr
      "ctrDependencies (ctr_config ctr)" "ctrNamedVolumes (ctr_config ctr)"] p1
  show False by simp
qed

lemma addContainer_vol_faults:
  assumes "resolve t [volBkt, v] \<noteq> None" "resolve t [volBkt, v, volDependenciesBkt] = None"
  shows "addContainer_vol ctr v t = Inl NilDeref"
  using assms
  by (auto simp: addContainer_vol_def resolve_1 resolve_2 resolve_3 split: option.splits)

lemma removeContainer_vol_faults:
  assumes "resolve t [volBkt, v] \<noteq> None" "resolve t [volBkt, v, volDependenciesBkt] = None"
  shows "removeContainer_vol ctr v t = Inl NilDeref"
  using assms
  by (auto simp: removeContainer_vol_def resolve_1 resolve_2 resolve_3 split: option.splits)

lemma volume_write_frame:
  assumes "rtranclp (writes {[volBkt, u, volDependenciesBkt, i]}) t t1"
  shows "(resolve t1 [volBkt, v] = None) = (resolve t [volBkt, v] = None)"
    and "(resolve t1 [volBkt, v, volDependenciesBkt] = None)
       = (resolve t [volBkt, v, volDependenciesBkt] = None)"
  using writes_exists[OF assms, of "[volBkt, v]"]
    writes_exists[OF assms, of "[volBkt, v, volDependenciesBkt]"]
  by simp_all

lemma addContainer_vols_InrD:
  "addContainer_vols ctr vs t = Inr t' \<Longrightarrow> v \<in> set vs \<Longrightarrow> resolve t [volBkt, v] \<noteq> None
     \<Longrightarrow> resolve t [volBkt, v, volDependenciesBkt] \<noteq> None"
proof (induction vs arbitrary: t)
  case Nil
  then show ?case by simp
next
  case (Cons u vs)
  from Cons.prems(1) obtain t1 where t1: "addContainer_vol ctr u t = Inr t1"
      "addContainer_vols ctr vs t1 = Inr t'"
    by (auto split: sum.splits)
  show ?case
  proof (cases "v = u")
    case True
    show ?thesis
    proof
      assume "resolve t [volBkt, v, volDependenciesBkt] = None"
      from addContainer_vol_faults[OF Cons.prems(3) this, of ctr] t1(1) True show False by simp
    qed
  next
    case False
    with Cons.prems(2) have m: "v \<in> set vs" by simp
    note fr = volume_write_frame[OF writes_onlyD[OF addContainer_vol_writes t1(1)], of v]
    from fr(1) Cons.prems(3) have "resolve t1 [volBkt, v] \<noteq> None" by simp
    from Cons.IH[OF t1(2) m this] fr(2) show ?thesis by simp
  qed
qed

lemma removeContainer_vols_InrD:
  "removeContainer_vols ctr vs t = Inr t' \<Longrightarrow> v \<in> set vs \<Longrightarrow> resolve t [volBkt, v] \<noteq> None
     \<Longrightarrow> resolve t [volBkt, v, volDependenciesBkt] \<noteq> None"
proof (induction vs arbitrary: t)
  case Nil
  then show ?case by simp
next
  case (Cons u vs)
  from Cons.prems(1) obtain t1 where t1: "removeContainer_vol ctr u t = Inr t1"
      "removeContainer_vols ctr vs t1 = Inr t'"
    by (auto split: sum.splits)
  show ?case
  proof (cases "v = u")
    case True
    show ?thesis
    proof
      assume "resolve t [volBkt, v, volDependenciesBkt] = None"
      from removeContainer_vol_faults[OF Cons.prems(3) this, of ctr] t1(1) True show False by simp
    qed
  next
    case False
    with Cons.prems(2) have m: "v \<in> set vs" by simp
    note fr = volume_write_frame[OF writes_onlyD[OF removeContainer_vol_writes t1(1)], of v]
    from fr(1) Cons.prems(3) have "resolve t1 [volBkt, v] \<noteq> None" by simp
    from Cons.IH[OF t1(2) m this] fr(2) show ?thesis by simp
  qed
qed

lemma touched_paths_not_volume_bucket:
  "w \<in> touched_paths ctr \<Longrightarrow> \<not> prefix w [volBkt, v]"
  by (auto simp: touched_paths_def dest: prefix_head prefix_length_le)

lemma addContainer_tx_bare_volume:
  assumes "v \<in> set (ctrNamedVolumes (ctr_config ctr))" "resolve t [volBkt, v] \<noteq> None"
    "resolve t [volBkt, v, volDependenciesBkt] = None"
  shows "addContainer_tx ctr pod cj sj nn t \<noteq> Inr t'"
proof
  let ?W = "touched_paths ctr"
  assume "addContainer_tx ctr pod cj sj nn t = Inr t'"
  then obtain t1 t2 t3 where
    s: "addContainer_create ctr pod cj sj nn t = Inr t1"
    "addContainer_deps ctr pod (ctrDependencies (ctr_config ctr)) t1 = Inr t2"
    "addContainer_toPod ctr pod t2 = Inr t3"
    "addContainer_vols ctr (ctrNamedVolumes (ctr_config ctr)) t3 = Inr t'"
    by (rule addContainer_tx_InrE)
  have "rtranclp (writes ?W) t t1"
    by (rule writes_onlyD[OF wo_mono[OF addContainer_create_writes] s(1)])
       (auto simp: touched_paths_def)
  moreover have "rtranclp (writes ?W) t1 t2"
    by (rule writes_onlyD[OF wo_mono[OF addContainer_deps_writes] s(2)])
       (auto simp: touched_paths_def)
  moreover have "rtranclp (writes ?W) t2 t3"
    by (rule writes_onlyD[OF wo_mono[OF addContainer_toPod_writes] s(3)])
       (auto simp: touched_paths_def)
  ultimately have w: "rtranclp (writes ?W) t t3" by simp
  from writes_exists[OF w, of "[volBkt, v]"] assms(2)
  have a: "resolve t3 [volBkt, v] \<noteq> None" by (simp add: touched_paths_not_volume_bucket)
  from writes_exists[OF w, of "[volBkt, v, volDependenciesBkt]"] assms(3)
  have "resolve t3 [volBkt, v, volDependenciesBkt] = None"
    by (simp add: touched_paths_not_volume)
  with addContainer_vols_InrD[OF s(4) assms(1) a] show False by simp
qed

lemma addContainer_bare_volume:
  assumes "v \<in> set (ctrNamedVolumes (ctr_config ctr))" "resolve db [volBkt, v] \<noteq> None"
    "resolve db [volBkt, v, volDependenciesBkt] = None"
  shows "fst (addContainer s ctr pod db) \<noteq> None"
  using addContainer_tx_bare_volume[OF assms]
  by (auto simp: addContainer_def db_Update_def split: option.split sum.split)

lemma removeContainer_bare_volume:
  assumes "v \<in> set (ctrNamedVolumes (ctr_config ctr))" "resolve t [volBkt, v] \<noteq> None"
    "resolve t [volBkt, v, volDependenciesBkt] = None"
  shows "removeContainer s ctr pod t \<noteq> Inr t'"
proof
  let ?W = "touched_paths ctr"
  assume "removeContainer s ctr pod t = Inr t'"
  then obtain t1 t6 t7 where
    s: "removeContainer_fromPod ctr pod t = Inr t1"
    "removeContainer_delete ctr t1 = Inr t6"
    "removeContainer_deps ctr (ctrDependencies (ctr_config ctr)) t6 = Inr t7"
    "removeContainer_vols ctr (ctrNamedVolumes (ctr_config ctr)) t7 = Inr t'"
    by (rule removeContainer_InrE)
  have "rtranclp (writes ?W) t t1"
    by (rule writes_onlyD[OF wo_mono[OF removeContainer_fromPod_writes] s(1)])
       (auto simp: touched_paths_def)
  moreover have "rtranclp (writes ?W) t1 t6"
    by (rule writes_onlyD[OF wo_mono[OF removeContainer_delete_writes] s(2)])
       (auto simp: touched_paths_def)
  moreover have "rtranclp (writes ?W) t6 t7"
    by (rule writes_onlyD[OF wo_mono[OF removeContainer_deps_writes] s(3)])
       (auto simp: touched_paths_def)
  ultimately have w: "rtranclp (writes ?W) t t7" by simp
  from writes_exists[OF w, of "[volBkt, v]"] assms(2)
  have a: "resolve t7 [volBkt, v] \<noteq> None" by (simp add: touched_paths_not_volume_bucket)
  from writes_exists[OF w, of "[volBkt, v, volDependenciesBkt]"] assms(3)
  have "resolve t7 [volBkt, v, volDependenciesBkt] = None"
    by (simp add: touched_paths_not_volume)
  with removeContainer_vols_InrD[OF s(4) assms(1) a] show False by simp
qed


text \<open>
  Claim C10. In the loops of \<open>addContainer\<close> and \<open>removeContainer\<close> over the named volumes,
  the \<open>vol-dependencies\<close> bucket of an existing volume is used without a nil check.
  When every bucket under \<open>vol\<close> contains a \<open>vol-dependencies\<close> bucket, neither the two
  functions nor their volume loops panic on a nil handle. When the bucket of a volume
  \<open>v\<close> exists and has no \<open>vol-dependencies\<close> bucket, the iteration for \<open>v\<close> panics on the
  nil handle in both functions (it returns no error value, so no internal error), and a
  call for a container that names \<open>v\<close> among its volumes never succeeds.
\<close>

theorem volume_dependencies_unguarded:
  "(volumes_have_dependencies db \<longrightarrow>
      fst (addContainer s ctr pod db) \<noteq> Some NilDeref
      \<and> removeContainer s ctr pod db \<noteq> Inl NilDeref)
   \<and> (resolve tx [volBkt] \<noteq> None \<and> volumes_have_dependencies tx \<longrightarrow>
      addContainer_vols ctr vs tx \<noteq> Inl NilDeref
      \<and> removeContainer_vols ctr vs tx \<noteq> Inl NilDeref)
   \<and> (resolve tx [volBkt, v] \<noteq> None \<and> resolve tx [volBkt, v, volDependenciesBkt] = None \<longrightarrow>
      addContainer_vol ctr v tx = Inl NilDeref
      \<and> removeContainer_vol ctr v tx = Inl NilDeref)
   \<and> (v \<in> set (ctrNamedVolumes (ctr_config ctr))
      \<and> resolve db [volBkt, v] \<noteq> None \<and> resolve db [volBkt, v, volDependenciesBkt] = None \<longrightarrow>
      fst (addContainer s ctr pod db) \<noteq> None
      \<and> (\<forall>tx'. removeContainer s ctr pod db \<noteq> Inr tx'))"
  using addContainer_faultless[of db s ctr pod] removeContainer_faultless[of db s ctr pod]
    addContainer_vols_faultless[of tx ctr vs] removeContainer_vols_faultless[of tx ctr vs]
    addContainer_vol_faults[of tx v ctr] removeContainer_vol_faults[of tx v ctr]
    addContainer_bare_volume[of v ctr db s pod] removeContainer_bare_volume[of v ctr db s pod]
  by blast

text \<open>
  With the volume \<open>V\<close> well formed, adding \<open>B\<close> and removing \<open>A\<close> succeed; with the bare
  volume, the same calls panic and the database of the failed addition is unchanged.
\<close>

theorem volume_dependencies_unguarded_witness:
  "volumes_have_dependencies example_db_A
   \<and> resolve example_db_A [volBkt] \<noteq> None
   \<and> addContainer (example_state []) (example_ctr ''B'' ''b'' [] [''A''] [''V'']) None
       example_db_A = (None, example_db_AB)
   \<and> removeContainer (example_state []) (example_ctr ''A'' ''a'' [] [] [''V'']) None
       example_db_A = Inr example_db_empty
   \<and> resolve example_db_bare_volume [volBkt, ''V''] = Some [(configKey, Val ''vc'')]
   \<and> resolve example_db_bare_volume [volBkt, ''V'', volDependenciesBkt] = None
   \<and> addContainer_vol (example_ctr ''A'' ''a'' [] [] [''V'']) ''V'' example_db_bare_volume
       = Inl NilDeref
   \<and> removeContainer_vol (example_ctr ''A'' ''a'' [] [] [''V'']) ''V'' example_db_bare_volume
       = Inl NilDeref
   \<and> addContainer (example_state []) (example_ctr ''B'' ''b'' [] [''A''] [''V'']) None
       example_db_bare_volume = (Some NilDeref, example_db_bare_volume)
   \<and> removeContainer (example_state []) (example_ctr ''A'' ''a'' [] [] [''V'']) None
       example_db_bare_volume = Inl NilDeref"
  using volume_dependencies_unguarded [where db = example_db_A and tx = example_db_A
      and s = "example_state []" and ctr = "example_ctr ''A'' ''a'' [] [] [''V'']"
      and pod = None and vs = "[''V'']" and v = "''V''"]
    volume_dependencies_unguarded [where db = example_db_bare_volume
      and tx = example_db_bare_volume
      and s = "example_state []" and ctr = "example_ctr ''A'' ''a'' [] [] [''V'']"
      and pod = None and vs = "[''V'']" and v = "''V''"]
  by (simp add: eval_defs volumes_have_dependencies_def example_db_A_def example_db_AB_def
      example_db_empty_def example_db_bare_volume_def)

section \<open>A dependency that violates pod or namespace coherence\<close>

text \<open>
  The result of \<open>addContainer\<close> when the loop over the dependencies fails at the
  dependency \<open>d\<close>, after the dependencies listed before it have passed. The writes that
  come before the iteration for \<open>d\<close> leave the bucket of \<open>d\<close> as the database has it.
\<close>

lemma addContainer_deps_append:
  "addContainer_deps ctr pod (pre @ d # post) t =
     (case addContainer_deps ctr pod pre t of
        Inl e \<Rightarrow> Inl e
      | Inr t2 \<Rightarrow>
          (case addContainer_dep ctr pod d t2 of
             Inl e \<Rightarrow> Inl e
           | Inr t3 \<Rightarrow> addContainer_deps ctr pod post t3))"
  by (induction pre arbitrary: t) (simp_all split: sum.split)

lemma addContainer_dependency_error:
  assumes "namespace s = [] \<or> namespace s = ctr_Namespace ctr"
    and "json_Marshal_config s (ctr_config ctr) = Some cj" "json_Marshal_state s ctr = Some sj"
    and "dbOpens s"
    and "bkt_Bucket db idRegistryBkt = Some idsBucket"
    and "bkt_Bucket db nameRegistryBkt = Some namesBucket"
    and "bkt_Bucket db nsRegistryBkt \<noteq> None" "bkt_Bucket db ctrBkt \<noteq> None"
    and "bkt_Bucket db allCtrsBkt \<noteq> None" "bkt_Bucket db volBkt \<noteq> None"
    and "addContainer_checkPod ctr pod db = None"
    and "bkt_Get idsBucket (ctr_ID ctr) = None" "bkt_Get namesBucket (ctr_Name ctr) = None"
    and "addContainer_create ctr pod cj sj (getNetNSPath s ctr) db = Inr tx1"
    and "ctrDependencies (ctr_config ctr) = pre @ d # post"
    and "addContainer_deps ctr pod pre tx1 = Inr tx2"
    and "addContainer_dep ctr pod d tx2 = Inl err"
  shows "addContainer s ctr pod db = (Some err, db)"
proof -
  from assms(5-17)
  have "addContainer_tx ctr pod cj sj (getNetNSPath s ctr) db = Inl err"
    by (auto simp: addContainer_tx_def getIDBucket_def getNamesBucket_def getNSBucket_def
        getCtrBucket_def getAllCtrsBucket_def getVolBucket_def bindE_def
        addContainer_deps_append)
  with assms(1-4) show ?thesis
    by (auto simp: addContainer_def db_Update_def)
qed

lemma addContainer_create_fresh:
  assumes "addContainer_create ctr pod cj sj nn t = Inr t1"
  shows "resolve t [ctrBkt, ctr_ID ctr] = None"
proof -
  let ?W = "{[idRegistryBkt, ctr_ID ctr], [nameRegistryBkt, ctr_Name ctr],
       [nsRegistryBkt, ctr_ID ctr], [allCtrsBkt, ctr_ID ctr]}"
  from assms obtain ta tb tc td te where
    s1: "wrapf ErrBolt [ctr_ID ctr]
           (update_at [idRegistryBkt] (bkt_Put (ctr_ID ctr) (ctr_Name ctr)) t) = Inr ta"
    and s2: "wrapf ErrBolt [ctr_ID ctr, ctr_Name ctr]
           (update_at [nameRegistryBkt] (bkt_Put (ctr_Name ctr) (ctr_ID ctr)) ta) = Inr tb"
    and s3: "(case ctrNamespaceBytes ctr of
              None \<Rightarrow> Inr tb
            | Some ns \<Rightarrow> wrapf ErrBolt [ctr_ID ctr, ctr_Namespace ctr]
                (update_at [nsRegistryBkt] (bkt_Put (ctr_ID ctr) ns) tb)) = Inr tc"
    and s4: "wrapf ErrBolt [ctr_ID ctr]
           (update_at [allCtrsBkt] (bkt_Put (ctr_ID ctr) (ctr_Name ctr)) tc) = Inr td"
    and s5: "wrapf ErrBolt [ctr_ID ctr]
           (update_at [ctrBkt] (bkt_CreateBucket (ctr_ID ctr)) td) = Inr te"
    unfolding addContainer_create_def by (elim bindE_InrE) blast
  have "writes ?W t ta" by (rule wrapf_write[OF s1 touches_Put]) simp
  moreover have "writes ?W ta tb" by (rule wrapf_write[OF s2 touches_Put]) simp
  moreover have "rtranclp (writes ?W) tb tc"
  proof (cases "ctrNamespaceBytes ctr")
    case None
    with s3 show ?thesis by simp
  next
    case (Some ns)
    with s3 have "wrapf ErrBolt [ctr_ID ctr, ctr_Namespace ctr]
                (update_at [nsRegistryBkt] (bkt_Put (ctr_ID ctr) ns) tb) = Inr tc" by simp
    then have "writes ?W tb tc" by (rule wrapf_write[OF _ touches_Put]) simp
    then show ?thesis by (rule writes_r_into)
  qed
  moreover have "writes ?W tc td" by (rule wrapf_write[OF s4 touches_Put]) simp
  ultimately have w: "rtranclp (writes ?W) t td" by simp
  have fr: "(resolve td [ctrBkt, ctr_ID ctr] = None) = (resolve t [ctrBkt, ctr_ID ctr] = None)"
    by (rule writes_exists[OF w]) simp
  from s5 obtain c c' where
    c: "bkt_Bucket td ctrBkt = Some c" "bkt_CreateBucket (ctr_ID ctr) c = Inr c'"
    by (auto simp: wrapf_Inr update_at_1)
  from c(2) have "map_of c (ctr_ID ctr) = None" by (simp add: bkt_CreateBucket_Inr)
  then have "bkt_Bucket c (ctr_ID ctr) = None" by (simp add: bkt_Bucket_def)
  with c(1) have "resolve td [ctrBkt, ctr_ID ctr] = None" by (simp add: resolve_2)
  with fr show ?thesis by simp
qed

lemma addContainer_dependency_seen:
  assumes c: "addContainer_create ctr pod cj sj nn db = Inr tx1"
    and p: "addContainer_deps ctr pod pre tx1 = Inr tx2"
    and e: "resolve db [ctrBkt, d] \<noteq> None"
  shows "\<exists>ctrBucket depCtrBkt. bkt_Bucket tx2 ctrBkt = Some ctrBucket
     \<and> bkt_Bucket ctrBucket d = Some depCtrBkt
     \<and> bkt_Get depCtrBkt podIDKey = get_at db [ctrBkt, d] podIDKey
     \<and> bkt_Get depCtrBkt namespaceKey = get_at db [ctrBkt, d] namespaceKey"
proof -
  from addContainer_create_fresh[OF c] e have ne: "d \<noteq> ctr_ID ctr" by auto
  let ?W = "{[ctrBkt, x, dependenciesBkt, ctr_ID ctr] | x. True}"
  have w: "rtranclp (writes ?W) tx1 tx2"
    by (rule writes_onlyD[OF addContainer_deps_writes p])
  have "(resolve tx2 [ctrBkt, d] = None) = (resolve tx1 [ctrBkt, d] = None)"
    by (rule writes_exists[OF w]) auto
  with addContainer_create_frame_ctr(1)[OF c ne] e
  have ex: "resolve tx2 [ctrBkt, d] \<noteq> None" by simp
  have g: "get_at tx2 [ctrBkt, d] k = get_at db [ctrBkt, d] k" for k
  proof -
    have "get_at tx2 [ctrBkt, d] k = get_at tx1 [ctrBkt, d] k"
      by (rule writes_get[OF w]) auto
    with addContainer_create_frame_ctr(2)[OF c ne, of k] show ?thesis by simp
  qed
  from ex obtain ctrBucket depCtrBkt where
    b: "bkt_Bucket tx2 ctrBkt = Some ctrBucket" "bkt_Bucket ctrBucket d = Some depCtrBkt"
    by (auto simp: resolve_2 split: option.splits)
  then have "get_at tx2 [ctrBkt, d] k = bkt_Get depCtrBkt k" for k
    by (simp add: get_at_def resolve_2)
  with g b show ?thesis by simp
qed

lemma addContainer_violation_fails:
  assumes "d \<in> set (ctrDependencies (ctr_config ctr))" "resolve db [ctrBkt, d] \<noteq> None"
    and "get_at db [ctrBkt, d] podIDKey \<noteq> map_option pod_ID pod
       \<or> \<not> bytes_Equal (ctrNamespaceBytes ctr) (get_at db [ctrBkt, d] namespaceKey)"
  shows "\<exists>e. addContainer s ctr pod db = (Some e, db)"
proof (cases "addContainer s ctr pod db")
  case (Pair r db')
  show ?thesis
  proof (cases r)
    case None
    with Pair have ok: "addContainer s ctr pod db = (None, db')" by simp
    from addContainer_InrD[OF ok] obtain cj sj where
      "addContainer_tx ctr pod cj sj (getNetNSPath s ctr) db = Inr db'" by blast
    then obtain t1 where "addContainer_create ctr pod cj sj (getNetNSPath s ctr) db = Inr t1"
      by (rule addContainer_tx_InrE)
    from addContainer_create_fresh[OF this] assms(2) have "d \<noteq> ctr_ID ctr" by auto
    from addContainer_success_dependencies[OF ok assms(1) this] assms(3)
    show ?thesis by simp
  next
    case (Some e)
    with Pair addContainer_error_keeps_db[of s ctr pod db e db'] show ?thesis by simp
  qed
qed

lemma addContainer_pod_violation_error:
  assumes "namespace s = [] \<or> namespace s = ctr_Namespace ctr"
    and "json_Marshal_config s (ctr_config ctr) = Some cj" "json_Marshal_state s ctr = Some sj"
    and "dbOpens s"
    and "bkt_Bucket db idRegistryBkt = Some idsBucket"
    and "bkt_Bucket db nameRegistryBkt = Some namesBucket"
    and "bkt_Bucket db nsRegistryBkt \<noteq> None" "bkt_Bucket db ctrBkt \<noteq> None"
    and "bkt_Bucket db allCtrsBkt \<noteq> None" "bkt_Bucket db volBkt \<noteq> None"
    and "addContainer_checkPod ctr pod db = None"
    and "bkt_Get idsBucket (ctr_ID ctr) = None" "bkt_Get namesBucket (ctr_Name ctr) = None"
    and c: "addContainer_create ctr pod cj sj (getNetNSPath s ctr) db = Inr tx1"
    and "ctrDependencies (ctr_config ctr) = pre @ d # post"
    and p: "addContainer_deps ctr pod pre tx1 = Inr tx2"
    and e: "resolve db [ctrBkt, d] \<noteq> None"
    and v: "get_at db [ctrBkt, d] podIDKey \<noteq> map_option pod_ID pod"
  shows "addContainer s ctr pod db =
     (Some (Error ErrInvalidArg
        (ctr_ID ctr # d #
           (case pod of
              None \<Rightarrow> []
            | Some p \<Rightarrow>
                [case get_at db [ctrBkt, d] podIDKey of None \<Rightarrow> pod_ID p | Some dp \<Rightarrow> dp]))),
      db)"
proof -
  from addContainer_dependency_seen[OF c p e] obtain ctrBucket depCtrBkt where
    b: "bkt_Bucket tx2 ctrBkt = Some ctrBucket" "bkt_Bucket ctrBucket d = Some depCtrBkt"
    and g: "bkt_Get depCtrBkt podIDKey = get_at db [ctrBkt, d] podIDKey"
    by blast
  have "addContainer_dep ctr pod d tx2 =
     Inl (Error ErrInvalidArg
        (ctr_ID ctr # d #
           (case pod of
              None \<Rightarrow> []
            | Some p \<Rightarrow>
                [case get_at db [ctrBkt, d] podIDKey of None \<Rightarrow> pod_ID p | Some dp \<Rightarrow> dp])))"
  proof (cases pod)
    case None
    with v g have "bkt_Get depCtrBkt podIDKey \<noteq> None" by simp
    from addContainer_dep_pod_unexpected[OF b this, of ctr] None show ?thesis by simp
  next
    case (Some q)
    with v g have "bkt_Get depCtrBkt podIDKey \<noteq> Some (pod_ID q)" by simp
    from addContainer_dep_pod_mismatch[OF b this, of ctr] Some g show ?thesis by simp
  qed
  from addContainer_dependency_error[OF assms(1-16) this] show ?thesis .
qed

lemma addContainer_namespace_violation_error:
  assumes "namespace s = [] \<or> namespace s = ctr_Namespace ctr"
    and "json_Marshal_config s (ctr_config ctr) = Some cj" "json_Marshal_state s ctr = Some sj"
    and "dbOpens s"
    and "bkt_Bucket db idRegistryBkt = Some idsBucket"
    and "bkt_Bucket db nameRegistryBkt = Some namesBucket"
    and "bkt_Bucket db nsRegistryBkt \<noteq> None" "bkt_Bucket db ctrBkt \<noteq> None"
    and "bkt_Bucket db allCtrsBkt \<noteq> None" "bkt_Bucket db volBkt \<noteq> None"
    and "addContainer_checkPod ctr pod db = None"
    and "bkt_Get idsBucket (ctr_ID ctr) = None" "bkt_Get namesBucket (ctr_Name ctr) = None"
    and c: "addContainer_create ctr pod cj sj (getNetNSPath s ctr) db = Inr tx1"
    and "ctrDependencies (ctr_config ctr) = pre @ d # post"
    and p: "addContainer_deps ctr pod pre tx1 = Inr tx2"
    and e: "resolve db [ctrBkt, d] \<noteq> None"
    and k: "get_at db [ctrBkt, d] podIDKey = map_option pod_ID pod"
    and v: "\<not> bytes_Equal (ctrNamespaceBytes ctr) (get_at db [ctrBkt, d] namespaceKey)"
  shows "addContainer s ctr pod db =
     (Some (Error ErrNSMismatch
        [ctr_ID ctr, ctr_Namespace ctr, d, string_of (get_at db [ctrBkt, d] namespaceKey)]),
      db)"
proof -
  from addContainer_dependency_seen[OF c p e] obtain ctrBucket depCtrBkt where
    b: "bkt_Bucket tx2 ctrBkt = Some ctrBucket" "bkt_Bucket ctrBucket d = Some depCtrBkt"
    and g: "bkt_Get depCtrBkt podIDKey = get_at db [ctrBkt, d] podIDKey"
      "bkt_Get depCtrBkt namespaceKey = get_at db [ctrBkt, d] namespaceKey"
    by blast
  from g k have k': "bkt_Get depCtrBkt podIDKey = map_option pod_ID pod" by simp
  from g v have v': "\<not> bytes_Equal (ctrNamespaceBytes ctr) (bkt_Get depCtrBkt namespaceKey)"
    by simp
  from addContainer_dep_namespace_mismatch[OF b k' v'] g
  have "addContainer_dep ctr pod d tx2 =
     Inl (Error ErrNSMismatch
        [ctr_ID ctr, ctr_Namespace ctr, d, string_of (get_at db [ctrBkt, d] namespaceKey)])"
    by simp
  from addContainer_dependency_error[OF assms(1-16) this] show ?thesis .
qed

text \<open>
  Claim C4. Let \<open>d\<close> be a declared dependency of the container being added whose bucket
  exists in the database and stores a \<open>pod-id\<close> other than the one of the pod the
  container is added with: with a pod \<open>p\<close>, no \<open>pod-id\<close> or one different from the ID of
  \<open>p\<close>; with no pod, any \<open>pod-id\<close>. Then \<open>addContainer\<close> fails and leaves the database as
  it was. When the steps before the iteration for \<open>d\<close> pass (the namespace guard, the
  encodings, the top-level buckets, the pod check, the ID and name checks, the writes
  that register the container, the iterations for the dependencies listed before \<open>d\<close>),
  the error of \<open>addContainer\<close> is of the invalid-argument kind. The iteration itself
  returns that error whenever it is reached, and whenever \<open>addContainer\<close> succeeds, every
  declared dependency (other than the container itself) exists in the database it was
  added to and stores exactly the \<open>pod-id\<close> of the pod the container was added with (none
  when there is no pod).
\<close>

theorem addContainer_dependency_pod_coherence:
  "((namespace s = [] \<or> namespace s = ctr_Namespace ctr)
      \<and> json_Marshal_config s (ctr_config ctr) = Some cj \<and> json_Marshal_state s ctr = Some sj
      \<and> dbOpens s
      \<and> bkt_Bucket db idRegistryBkt = Some idsBucket
      \<and> bkt_Bucket db nameRegistryBkt = Some namesBucket
      \<and> bkt_Bucket db nsRegistryBkt \<noteq> None \<and> bkt_Bucket db ctrBkt \<noteq> None
      \<and> bkt_Bucket db allCtrsBkt \<noteq> None \<and> bkt_Bucket db volBkt \<noteq> None
      \<and> addContainer_checkPod ctr pod db = None
      \<and> bkt_Get idsBucket (ctr_ID ctr) = None \<and> bkt_Get namesBucket (ctr_Name ctr) = None
      \<and> addContainer_create ctr pod cj sj (getNetNSPath s ctr) db = Inr tx1
      \<and> ctrDependencies (ctr_config ctr) = pre @ d # post
      \<and> addContainer_deps ctr pod pre tx1 = Inr tx2
      \<and> resolve db [ctrBkt, d] \<noteq> None
      \<and> get_at db [ctrBkt, d] podIDKey \<noteq> map_option pod_ID pod \<longrightarrow>
      addContainer s ctr pod db =
        (Some (Error ErrInvalidArg
           (ctr_ID ctr # d #
              (case pod of
                 None \<Rightarrow> []
               | Some p \<Rightarrow>
                   [case get_at db [ctrBkt, d] podIDKey of None \<Rightarrow> pod_ID p | Some dp \<Rightarrow> dp]))),
         db))
   \<and> (d \<in> set (ctrDependencies (ctr_config ctr)) \<and> resolve db [ctrBkt, d] \<noteq> None
      \<and> get_at db [ctrBkt, d] podIDKey \<noteq> map_option pod_ID pod \<longrightarrow>
      (\<exists>e. addContainer s ctr pod db = (Some e, db)))
   \<and> (bkt_Bucket tx ctrBkt = Some ctrBucket \<and> bkt_Bucket ctrBucket d = Some depCtrBkt
      \<and> bkt_Get depCtrBkt podIDKey \<noteq> Some (pod_ID p) \<longrightarrow>
      addContainer_dep ctr (Some p) d tx =
        Inl (Error ErrInvalidArg
          [ctr_ID ctr, d,
           (case bkt_Get depCtrBkt podIDKey of None \<Rightarrow> pod_ID p | Some dp \<Rightarrow> dp)]))
   \<and> (bkt_Bucket tx ctrBkt = Some ctrBucket \<and> bkt_Bucket ctrBucket d = Some depCtrBkt
      \<and> bkt_Get depCtrBkt podIDKey \<noteq> None \<longrightarrow>
      addContainer_dep ctr None d tx = Inl (Error ErrInvalidArg [ctr_ID ctr, d]))
   \<and> (addContainer s ctr pod db = (None, db')
      \<and> d \<in> set (ctrDependencies (ctr_config ctr)) \<and> d \<noteq> ctr_ID ctr \<longrightarrow>
      resolve db [ctrBkt, d] \<noteq> None
      \<and> get_at db [ctrBkt, d] podIDKey = map_option pod_ID pod)"
  using addContainer_pod_violation_error[where s = s and ctr = ctr and pod = pod and db = db
      and cj = cj and sj = sj and idsBucket = idsBucket and namesBucket = namesBucket
      and ?tx1.0 = tx1 and ?tx2.0 = tx2 and pre = pre and d = d and post = post]
    addContainer_violation_fails[where s = s and ctr = ctr and pod = pod and db = db and d = d]
    addContainer_dep_pod_mismatch[of tx ctrBucket d depCtrBkt p ctr]
    addContainer_dep_pod_unexpected[of tx ctrBucket d depCtrBkt ctr]
    addContainer_success_dependencies[of s ctr pod db db' d]
  by blast

lemmas step_defs = example_state_def example_ctr_def example_pod_def
      bindE_def getPodBucket_def addContainer_checkPod_def
      addContainer_create_def wrapf_def bkt_Put_def bkt_CreateBucket_def bkt_Bucket_def bkt_Get_def
      ctrNamespaceBytes_def MaxKeySize_def MaxValueSize_def
      addContainer_dep_def addContainer_depPod_def bytes_Equal_def string_of_def
      update_at.simps resolve.simps

text \<open>
  Container \<open>A\<close> is in pod \<open>P\<close> and container \<open>C\<close> is in no pod. Adding \<open>B\<close> fails with
  invalid-argument when it depends on \<open>A\<close> and is added to the other pod \<open>Q\<close> or to no
  pod (after its dependency on \<open>C\<close> has passed), and when it depends on \<open>C\<close> and is added
  to pod \<open>P\<close> (after its dependency on \<open>A\<close> has passed); the database is unchanged.
  Adding \<open>B\<close>, which depends on \<open>A\<close>, to pod \<open>P\<close> succeeds.
\<close>

theorem addContainer_dependency_pod_coherence_witness:
  "addContainer_checkPod (example_ctr ''B'' ''b'' ''ns1'' [''A''] [])
       (Some (example_pod ''Q'' ''ns1'')) example_db_two_pods = None
   \<and> get_at example_db_two_pods [ctrBkt, ''A''] podIDKey = Some ''P''
   \<and> get_at example_db_two_pods [ctrBkt, ''C''] podIDKey = None
   \<and> addContainer (example_state []) (example_ctr ''B'' ''b'' ''ns1'' [''A''] [])
        (Some (example_pod ''Q'' ''ns1'')) example_db_two_pods
       = (Some (Error ErrInvalidArg [''B'', ''A'', ''P'']), example_db_two_pods)
   \<and> addContainer (example_state []) (example_ctr ''B'' ''b'' ''ns1'' [''C'', ''A''] []) None
        example_db_two_pods
       = (Some (Error ErrInvalidArg [''B'', ''A'']), example_db_two_pods)
   \<and> addContainer (example_state ''ns1'') (example_ctr ''B'' ''b'' ''ns1'' [''A'', ''C''] [])
        (Some (example_pod ''P'' ''ns1'')) example_db_two_pods
       = (Some (Error ErrInvalidArg [''B'', ''C'', ''P'']), example_db_two_pods)
   \<and> bkt_Bucket example_db_pod ctrBkt = Some [(''A'', Bkt example_bucket_A_in_P)]
   \<and> bkt_Bucket [(''A'', Bkt example_bucket_A_in_P)] ''A'' = Some example_bucket_A_in_P
   \<and> bkt_Get example_bucket_A_in_P podIDKey = Some ''P''
   \<and> addContainer_dep (example_ctr ''B'' ''b'' ''ns1'' [''A''] []) (Some (example_pod ''Q'' ''ns1''))
        ''A'' example_db_pod = Inl (Error ErrInvalidArg [''B'', ''A'', ''P''])
   \<and> addContainer_dep (example_ctr ''B'' ''b'' ''ns1'' [''A''] []) None ''A'' example_db_pod
        = Inl (Error ErrInvalidArg [''B'', ''A''])
   \<and> addContainer (example_state []) (example_ctr ''B'' ''b'' ''ns1'' [''A''] []) None
        example_db_pod = (Some (Error ErrInvalidArg [''B'', ''A'']), example_db_pod)
   \<and> fst (addContainer (example_state []) (example_ctr ''B'' ''b'' ''ns1'' [''A''] [])
        (Some (example_pod ''P'' ''ns1'')) example_db_pod) = None
   \<and> ''A'' \<in> set (ctrDependencies (ctr_config (example_ctr ''B'' ''b'' ''ns1'' [''A''] [])))
   \<and> get_at example_db_pod [ctrBkt, ''A''] podIDKey
       = map_option pod_ID (Some (example_pod ''P'' ''ns1''))"
proof -
  have q: "addContainer (example_state []) (example_ctr ''B'' ''b'' ''ns1'' [''A''] [])
        (Some (example_pod ''Q'' ''ns1'')) example_db_two_pods
       = (Some (Error ErrInvalidArg [''B'', ''A'', ''P'']), example_db_two_pods)"
    using addContainer_dependency_pod_coherence
      [where s = "example_state []" and ctr = "example_ctr ''B'' ''b'' ''ns1'' [''A''] []"
         and pod = "Some (example_pod ''Q'' ''ns1'')" and db = example_db_two_pods
         and cj = "''cfg''" and sj = "''st''"
         and idsBucket = "the (bkt_Bucket example_db_two_pods idRegistryBkt)"
         and namesBucket = "the (bkt_Bucket example_db_two_pods nameRegistryBkt)"
         and pre = "[]" and d = "''A''" and post = "[]"
         and ?tx1.0 = "projr (addContainer_create (example_ctr ''B'' ''b'' ''ns1'' [''A''] [])
            (Some (example_pod ''Q'' ''ns1'')) ''cfg'' ''st'' [] example_db_two_pods)"
         and ?tx2.0 = "projr (addContainer_create (example_ctr ''B'' ''b'' ''ns1'' [''A''] [])
            (Some (example_pod ''Q'' ''ns1'')) ''cfg'' ''st'' [] example_db_two_pods)",
       THEN conjunct1]
    by (simp add: step_defs example_db_two_pods_def example_bucket_A_in_P_def get_at_def)
  have n: "addContainer (example_state []) (example_ctr ''B'' ''b'' ''ns1'' [''C'', ''A''] []) None
        example_db_two_pods
       = (Some (Error ErrInvalidArg [''B'', ''A'']), example_db_two_pods)"
    using addContainer_dependency_pod_coherence
      [where s = "example_state []" and ctr = "example_ctr ''B'' ''b'' ''ns1'' [''C'', ''A''] []"
         and pod = None and db = example_db_two_pods
         and cj = "''cfg''" and sj = "''st''"
         and idsBucket = "the (bkt_Bucket example_db_two_pods idRegistryBkt)"
         and namesBucket = "the (bkt_Bucket example_db_two_pods nameRegistryBkt)"
         and pre = "[''C'']" and d = "''A''" and post = "[]"
         and ?tx1.0 = "projr (addContainer_create (example_ctr ''B'' ''b'' ''ns1'' [''C'', ''A''] [])
            None ''cfg'' ''st'' [] example_db_two_pods)"
         and ?tx2.0 = "projr (addContainer_deps (example_ctr ''B'' ''b'' ''ns1'' [''C'', ''A''] [])
            None [''C'']
            (projr (addContainer_create (example_ctr ''B'' ''b'' ''ns1'' [''C'', ''A''] [])
               None ''cfg'' ''st'' [] example_db_two_pods)))",
       THEN conjunct1]
    by (simp add: step_defs example_db_two_pods_def example_bucket_A_in_P_def get_at_def)
  have p: "addContainer (example_state ''ns1'') (example_ctr ''B'' ''b'' ''ns1'' [''A'', ''C''] [])
        (Some (example_pod ''P'' ''ns1'')) example_db_two_pods
       = (Some (Error ErrInvalidArg [''B'', ''C'', ''P'']), example_db_two_pods)"
    using addContainer_dependency_pod_coherence
      [where s = "example_state ''ns1''"
         and ctr = "example_ctr ''B'' ''b'' ''ns1'' [''A'', ''C''] []"
         and pod = "Some (example_pod ''P'' ''ns1'')" and db = example_db_two_pods
         and cj = "''cfg''" and sj = "''st''"
         and idsBucket = "the (bkt_Bucket example_db_two_pods idRegistryBkt)"
         and namesBucket = "the (bkt_Bucket example_db_two_pods nameRegistryBkt)"
         and pre = "[''A'']" and d = "''C''" and post = "[]"
         and ?tx1.0 = "projr (addContainer_create (example_ctr ''B'' ''b'' ''ns1'' [''A'', ''C''] [])
            (Some (example_pod ''P'' ''ns1'')) ''cfg'' ''st'' [] example_db_two_pods)"
         and ?tx2.0 = "projr (addContainer_deps (example_ctr ''B'' ''b'' ''ns1'' [''A'', ''C''] [])
            (Some (example_pod ''P'' ''ns1'')) [''A'']
            (projr (addContainer_create (example_ctr ''B'' ''b'' ''ns1'' [''A'', ''C''] [])
               (Some (example_pod ''P'' ''ns1'')) ''cfg'' ''st'' [] example_db_two_pods)))",
       THEN conjunct1]
    by (simp add: step_defs example_db_two_pods_def example_bucket_A_in_P_def get_at_def)
  have r: "addContainer_checkPod (example_ctr ''B'' ''b'' ''ns1'' [''A''] [])
       (Some (example_pod ''Q'' ''ns1'')) example_db_two_pods = None
   \<and> get_at example_db_two_pods [ctrBkt, ''A''] podIDKey = Some ''P''
   \<and> get_at example_db_two_pods [ctrBkt, ''C''] podIDKey = None"
    by (simp add: step_defs example_db_two_pods_def example_bucket_A_in_P_def get_at_def)
  have o: "bkt_Bucket example_db_pod ctrBkt = Some [(''A'', Bkt example_bucket_A_in_P)]
   \<and> bkt_Bucket [(''A'', Bkt example_bucket_A_in_P)] ''A'' = Some example_bucket_A_in_P
   \<and> bkt_Get example_bucket_A_in_P podIDKey = Some ''P''
   \<and> addContainer_dep (example_ctr ''B'' ''b'' ''ns1'' [''A''] []) (Some (example_pod ''Q'' ''ns1''))
        ''A'' example_db_pod = Inl (Error ErrInvalidArg [''B'', ''A'', ''P''])
   \<and> addContainer_dep (example_ctr ''B'' ''b'' ''ns1'' [''A''] []) None ''A'' example_db_pod
        = Inl (Error ErrInvalidArg [''B'', ''A''])
   \<and> addContainer (example_state []) (example_ctr ''B'' ''b'' ''ns1'' [''A''] []) None
        example_db_pod = (Some (Error ErrInvalidArg [''B'', ''A'']), example_db_pod)
   \<and> fst (addContainer (example_state []) (example_ctr ''B'' ''b'' ''ns1'' [''A''] [])
        (Some (example_pod ''P'' ''ns1'')) example_db_pod) = None
   \<and> ''A'' \<in> set (ctrDependencies (ctr_config (example_ctr ''B'' ''b'' ''ns1'' [''A''] [])))
   \<and> get_at example_db_pod [ctrBkt, ''A''] podIDKey
       = map_option pod_ID (Some (example_pod ''P'' ''ns1''))"
    using addContainer_dependency_pod_coherence
      [where tx = example_db_pod and ctrBucket = "[(''A'', Bkt example_bucket_A_in_P)]"
         and d = "''A''" and depCtrBkt = example_bucket_A_in_P and p = "example_pod ''Q'' ''ns1''"
         and ctr = "example_ctr ''B'' ''b'' ''ns1'' [''A''] []" and s = "example_state []"
         and pod = "Some (example_pod ''P'' ''ns1'')" and db = example_db_pod
         and db' = "snd (addContainer (example_state []) (example_ctr ''B'' ''b'' ''ns1'' [''A''] [])
          (Some (example_pod ''P'' ''ns1'')) example_db_pod)",
       THEN conjunct2, THEN conjunct2]
    by (simp add: eval_defs example_db_pod_def example_bucket_A_in_P_def get_at_def)
  from r q n p o show ?thesis by blast
qed

text \<open>
  Claim C5, amended. Let \<open>d\<close> be a declared dependency of the container being added
  whose bucket exists in the database and stores a namespace that differs from the
  namespace of the container (as \<^verbatim>\<open>bytes.Equal\<close> compares them). Then \<open>addContainer\<close>
  fails and leaves the database as it was. When the steps before the iteration for \<open>d\<close>
  pass (the namespace guard, the encodings, the top-level buckets, the pod check, the ID
  and name checks, the writes that register the container, the iterations for the
  dependencies listed before \<open>d\<close>) and \<open>d\<close> passes the pod check, the error of
  \<open>addContainer\<close> is of the namespace-mismatch kind. The iteration itself returns that
  error whenever it is reached, and whenever \<open>addContainer\<close> succeeds, every declared
  dependency (other than the container itself) stores the container's namespace.
\<close>

theorem addContainer_dependency_namespace_mismatch:
  "((namespace s = [] \<or> namespace s = ctr_Namespace ctr)
      \<and> json_Marshal_config s (ctr_config ctr) = Some cj \<and> json_Marshal_state s ctr = Some sj
      \<and> dbOpens s
      \<and> bkt_Bucket db idRegistryBkt = Some idsBucket
      \<and> bkt_Bucket db nameRegistryBkt = Some namesBucket
      \<and> bkt_Bucket db nsRegistryBkt \<noteq> None \<and> bkt_Bucket db ctrBkt \<noteq> None
      \<and> bkt_Bucket db allCtrsBkt \<noteq> None \<and> bkt_Bucket db volBkt \<noteq> None
      \<and> addContainer_checkPod ctr pod db = None
      \<and> bkt_Get idsBucket (ctr_ID ctr) = None \<and> bkt_Get namesBucket (ctr_Name ctr) = None
      \<and> addContainer_create ctr pod cj sj (getNetNSPath s ctr) db = Inr tx1
      \<and> ctrDependencies (ctr_config ctr) = pre @ d # post
      \<and> addContainer_deps ctr pod pre tx1 = Inr tx2
      \<and> resolve db [ctrBkt, d] \<noteq> None
      \<and> get_at db [ctrBkt, d] podIDKey = map_option pod_ID pod
      \<and> \<not> bytes_Equal (ctrNamespaceBytes ctr) (get_at db [ctrBkt, d] namespaceKey) \<longrightarrow>
      addContainer s ctr pod db =
        (Some (Error ErrNSMismatch
           [ctr_ID ctr, ctr_Namespace ctr, d, string_of (get_at db [ctrBkt, d] namespaceKey)]),
         db))
   \<and> (d \<in> set (ctrDependencies (ctr_config ctr)) \<and> resolve db [ctrBkt, d] \<noteq> None
      \<and> \<not> bytes_Equal (ctrNamespaceBytes ctr) (get_at db [ctrBkt, d] namespaceKey) \<longrightarrow>
      (\<exists>e. addContainer s ctr pod db = (Some e, db)))
   \<and> (bkt_Bucket tx ctrBkt = Some ctrBucket \<and> bkt_Bucket ctrBucket d = Some depCtrBkt
      \<and> bkt_Get depCtrBkt podIDKey = map_option pod_ID pod
      \<and> \<not> bytes_Equal (ctrNamespaceBytes ctr) (bkt_Get depCtrBkt namespaceKey) \<longrightarrow>
      addContainer_dep ctr pod d tx =
        Inl (Error ErrNSMismatch
          [ctr_ID ctr, ctr_Namespace ctr, d, string_of (bkt_Get depCtrBkt namespaceKey)]))
   \<and> (addContainer s ctr pod db = (None, db')
      \<and> d \<in> set (ctrDependencies (ctr_config ctr)) \<and> d \<noteq> ctr_ID ctr \<longrightarrow>
      resolve db [ctrBkt, d] \<noteq> None
      \<and> bytes_Equal (ctrNamespaceBytes ctr) (get_at db [ctrBkt, d] namespaceKey))"
  using addContainer_namespace_violation_error[where s = s and ctr = ctr and pod = pod
      and db = db and cj = cj and sj = sj and idsBucket = idsBucket
      and namesBucket = namesBucket and ?tx1.0 = tx1 and ?tx2.0 = tx2 and pre = pre and d = d
      and post = post]
    addContainer_violation_fails[where s = s and ctr = ctr and pod = pod and db = db and d = d]
    addContainer_dep_namespace_mismatch[of tx ctrBucket d depCtrBkt pod ctr]
    addContainer_success_dependencies[of s ctr pod db db' d]
  by blast

text \<open>
  Container \<open>C\<close> is in namespace \<open>ns1\<close> and in no pod. Adding \<open>B\<close> of namespace \<open>ns2\<close>
  with a dependency on \<open>C\<close> fails with namespace-mismatch and leaves the database
  unchanged. Container \<open>A\<close> is in pod \<open>P\<close> and namespace \<open>ns1\<close>: the iteration for \<open>A\<close>
  fails with namespace-mismatch for a container of namespace \<open>ns2\<close>, and adding \<open>B\<close> with
  namespace \<open>ns1\<close> to pod \<open>P\<close> succeeds.
\<close>

theorem addContainer_dependency_namespace_mismatch_witness:
  "get_at example_db_two_pods [ctrBkt, ''C''] podIDKey = None
   \<and> get_at example_db_two_pods [ctrBkt, ''C''] namespaceKey = Some ''ns1''
   \<and> addContainer (example_state []) (example_ctr ''B'' ''b'' ''ns2'' [''C''] []) None
        example_db_two_pods
       = (Some (Error ErrNSMismatch [''B'', ''ns2'', ''C'', ''ns1'']), example_db_two_pods)
   \<and> bkt_Bucket example_db_pod ctrBkt = Some [(''A'', Bkt example_bucket_A_in_P)]
   \<and> bkt_Bucket [(''A'', Bkt example_bucket_A_in_P)] ''A'' = Some example_bucket_A_in_P
   \<and> bkt_Get example_bucket_A_in_P podIDKey = map_option pod_ID (Some (example_pod ''P'' ''ns1''))
   \<and> \<not> bytes_Equal (ctrNamespaceBytes (example_ctr ''B'' ''b'' ''ns2'' [''A''] []))
         (bkt_Get example_bucket_A_in_P namespaceKey)
   \<and> addContainer_dep (example_ctr ''B'' ''b'' ''ns2'' [''A''] []) (Some (example_pod ''P'' ''ns1''))
        ''A'' example_db_pod = Inl (Error ErrNSMismatch [''B'', ''ns2'', ''A'', ''ns1''])
   \<and> fst (addContainer (example_state []) (example_ctr ''B'' ''b'' ''ns1'' [''A''] [])
        (Some (example_pod ''P'' ''ns1'')) example_db_pod) = None
   \<and> ''A'' \<in> set (ctrDependencies (ctr_config (example_ctr ''B'' ''b'' ''ns1'' [''A''] [])))
   \<and> bytes_Equal (ctrNamespaceBytes (example_ctr ''B'' ''b'' ''ns1'' [''A''] []))
        (get_at example_db_pod [ctrBkt, ''A''] namespaceKey)"
proof -
  have n: "addContainer (example_state []) (example_ctr ''B'' ''b'' ''ns2'' [''C''] []) None
        example_db_two_pods
       = (Some (Error ErrNSMismatch [''B'', ''ns2'', ''C'', ''ns1'']), example_db_two_pods)"
    using addContainer_dependency_namespace_mismatch
      [where s = "example_state []" and ctr = "example_ctr ''B'' ''b'' ''ns2'' [''C''] []"
         and pod = None and db = example_db_two_pods
         and cj = "''cfg''" and sj = "''st''"
         and idsBucket = "the (bkt_Bucket example_db_two_pods idRegistryBkt)"
         and namesBucket = "the (bkt_Bucket example_db_two_pods nameRegistryBkt)"
         and pre = "[]" and d = "''C''" and post = "[]"
         and ?tx1.0 = "projr (addContainer_create (example_ctr ''B'' ''b'' ''ns2'' [''C''] [])
            None ''cfg'' ''st'' [] example_db_two_pods)"
         and ?tx2.0 = "projr (addContainer_create (example_ctr ''B'' ''b'' ''ns2'' [''C''] [])
            None ''cfg'' ''st'' [] example_db_two_pods)",
       THEN conjunct1]
    by (simp add: step_defs example_db_two_pods_def example_bucket_A_in_P_def get_at_def)
  have r: "get_at example_db_two_pods [ctrBkt, ''C''] podIDKey = None
   \<and> get_at example_db_two_pods [ctrBkt, ''C''] namespaceKey = Some ''ns1''"
    by (simp add: step_defs example_db_two_pods_def example_bucket_A_in_P_def get_at_def)
  have o: "bkt_Bucket example_db_pod ctrBkt = Some [(''A'', Bkt example_bucket_A_in_P)]
   \<and> bkt_Bucket [(''A'', Bkt example_bucket_A_in_P)] ''A'' = Some example_bucket_A_in_P
   \<and> bkt_Get example_bucket_A_in_P podIDKey = map_option pod_ID (Some (example_pod ''P'' ''ns1''))
   \<and> \<not> bytes_Equal (ctrNamespaceBytes (example_ctr ''B'' ''b'' ''ns2'' [''A''] []))
         (bkt_Get example_bucket_A_in_P namespaceKey)
   \<and> addContainer_dep (example_ctr ''B'' ''b'' ''ns2'' [''A''] []) (Some (example_pod ''P'' ''ns1''))
        ''A'' example_db_pod = Inl (Error ErrNSMismatch [''B'', ''ns2'', ''A'', ''ns1''])
   \<and> fst (addContainer (example_state []) (example_ctr ''B'' ''b'' ''ns1'' [''A''] [])
        (Some (example_pod ''P'' ''ns1'')) example_db_pod) = None
   \<and> ''A'' \<in> set (ctrDependencies (ctr_config (example_ctr ''B'' ''b'' ''ns1'' [''A''] [])))
   \<and> bytes_Equal (ctrNamespaceBytes (example_ctr ''B'' ''b'' ''ns1'' [''A''] []))
        (get_at example_db_pod [ctrBkt, ''A''] namespaceKey)"
    using addContainer_dependency_namespace_mismatch
      [where tx = example_db_pod and ctrBucket = "[(''A'', Bkt example_bucket_A_in_P)]"
         and d = "''A''" and depCtrBkt = example_bucket_A_in_P
         and pod = "Some (example_pod ''P'' ''ns1'')"
         and ctr = "example_ctr ''B'' ''b'' ''ns2'' [''A''] []",
       THEN conjunct2, THEN conjunct2, THEN conjunct1]
      addContainer_dependency_namespace_mismatch
      [where d = "''A''" and ctr = "example_ctr ''B'' ''b'' ''ns1'' [''A''] []"
         and s = "example_state []"
         and pod = "Some (example_pod ''P'' ''ns1'')" and db = example_db_pod
         and db' = "snd (addContainer (example_state []) (example_ctr ''B'' ''b'' ''ns1'' [''A''] [])
          (Some (example_pod ''P'' ''ns1'')) example_db_pod)",
       THEN conjunct2, THEN conjunct2, THEN conjunct2]
    by (simp add: eval_defs example_db_pod_def example_bucket_A_in_P_def get_at_def)
  from r n o show ?thesis by blast
qed

end
